theory Spec2Isabelle
  imports Complex_Main
begin

section \<open>JavaScript values\<close>

text \<open>
  The services are JavaScript classes over untyped row objects. A string is the list of
  its UTF-16 code units, a number is NaN, an infinity or a finite value (only equality,
  integrality and truthiness of numbers are ever used by the code under study), and a row
  object is a finite map from property names to primitive values, an absent property
  reading as \<open>undefined\<close>.
\<close>

type_synonym jsstring = "nat list"

datatype jsnum = NaN | Infinity bool | Finite rat

datatype jsval = JUndefined | JNull | JBool bool | JNum jsnum | JStr jsstring

type_synonym obj = "string \<rightharpoonup> jsval"

text \<open>\<open>o.k\<close>\<close>

definition field :: "obj \<Rightarrow> string \<Rightarrow> jsval" where
  "field ob k = (case ob k of None \<Rightarrow> JUndefined | Some v \<Rightarrow> v)"

definition ascii :: "string \<Rightarrow> jsstring" where
  "ascii s = map of_char s"

fun truthy :: "jsval \<Rightarrow> bool" where
  "truthy JUndefined = False"
| "truthy JNull = False"
| "truthy (JBool b) = b"
| "truthy (JNum NaN) = False"
| "truthy (JNum (Infinity s)) = True"
| "truthy (JNum (Finite q)) = (q \<noteq> 0)"
| "truthy (JStr s) = (s \<noteq> [])"

text \<open>\<open>a || b\<close>\<close>

definition or_js :: "jsval \<Rightarrow> jsval \<Rightarrow> jsval" where
  "or_js a b = (if truthy a then a else b)"

text \<open>\<open>a === b\<close> on primitives: NaN differs from itself.\<close>

fun strictEq :: "jsval \<Rightarrow> jsval \<Rightarrow> bool" where
  "strictEq (JNum NaN) b = False"
| "strictEq a b = (a = b)"

text \<open>
  The library functions of the JavaScript runtime whose tables are not part of the
  repository are a parameter of the model: Unicode lower-casing, the number read from a
  string by \<open>Number\<close> and by \<open>parseInt\<close>, and the string printed for a number.
\<close>

record runtime =
  toLowerCase :: "jsstring \<Rightarrow> jsstring"
  stringToNumber :: "jsstring \<Rightarrow> jsnum"
  parseIntString :: "jsstring \<Rightarrow> jsnum"
  numberToString :: "jsnum \<Rightarrow> jsstring"

text \<open>\<open>String.prototype.trim\<close>: white space and line terminators are stripped at both ends.\<close>

definition isWhiteSpace :: "nat \<Rightarrow> bool" where
  "isWhiteSpace c =
     (c = 9 \<or> c = 10 \<or> c = 11 \<or> c = 12 \<or> c = 13 \<or> c = 32 \<or> c = 160 \<or> c = 5760
      \<or> (8192 \<le> c \<and> c \<le> 8202) \<or> c = 8232 \<or> c = 8233 \<or> c = 8239 \<or> c = 8287
      \<or> c = 12288 \<or> c = 65279)"

definition trim :: "jsstring \<Rightarrow> jsstring" where
  "trim s = rev (dropWhile isWhiteSpace (rev (dropWhile isWhiteSpace s)))"

definition isLineTerminator :: "nat \<Rightarrow> bool" where
  "isLineTerminator c = (c = 10 \<or> c = 13 \<or> c = 8232 \<or> c = 8233)"

section \<open>Company service: name normalisation and DTO mapping\<close>

text \<open>
  The three legal-entity suffixes of the first regular expression of
  \<open>_normalizeCompanyName\<close>, in the order of its alternation.
\<close>

definition suffixLimitedByShares :: jsstring where
  "suffixLimitedByShares = [32929, 20221, 26377, 38480, 20844, 21496]"

definition suffixLimited :: jsstring where
  "suffixLimited = [26377, 38480, 20844, 21496]"

definition suffixCompany :: jsstring where
  "suffixCompany = [20844, 21496]"

text \<open>
  \<open>.replace(/A|B|C/g, '')\<close>: scanning from the left, at each position the first
  alternative that matches is removed and the scan goes on behind it.
\<close>

fun removeSuffixes :: "jsstring \<Rightarrow> jsstring" where
  "removeSuffixes [] = []"
| "removeSuffixes (c # cs) =
     (if take 6 (c # cs) = suffixLimitedByShares then removeSuffixes (drop 5 cs)
      else if take 4 (c # cs) = suffixLimited then removeSuffixes (drop 3 cs)
      else if take 2 (c # cs) = suffixCompany then removeSuffixes (drop 1 cs)
      else c # removeSuffixes cs)"

text \<open>
  \<open>.replace(/\(.*\)/g, '')\<close>: a match starts at an opening parenthesis that has a closing
  one behind it on the same line (the dot matches no line terminator) and, being greedy,
  ends at the last closing parenthesis of that line.
\<close>

definition parenMatchLength :: "jsstring \<Rightarrow> nat" where
  "parenMatchLength cs =
     (let line = takeWhile (\<lambda>x. \<not> isLineTerminator x) cs
      in length line - length (takeWhile (\<lambda>x. x \<noteq> 41) (rev line)))"

fun removeParens :: "jsstring \<Rightarrow> jsstring" where
  "removeParens [] = []"
| "removeParens (c # cs) =
     (if c = 40 \<and> 41 \<in> set (takeWhile (\<lambda>x. \<not> isLineTerminator x) cs)
      then removeParens (drop (parenMatchLength cs) cs)
      else c # removeParens cs)"

text \<open>
  \<open>_normalizeCompanyName(name)\<close>. A falsy name gives the empty string; a truthy value
  that is not a string has no \<open>toLowerCase\<close> method, which is a TypeError.
\<close>

datatype error =
    TypeError
  | External nat
  | CompanyNotFound jsstring
  | CompanyRowIndexMissing
  | CompanySqlWriterNotInjected
  | AnnouncementNotFound jsval
  | ForbiddenUpdate
  | ForbiddenDelete
  | EventIdNotFound jsval
  | DeleteEventIdNotFound jsval
  | InvalidResolvedRowIndex
  | OpportunityNotFound jsval
  | CoreReaderNotConfigured

definition normalizeString :: "runtime \<Rightarrow> jsstring \<Rightarrow> jsstring" where
  "normalizeString rt name =
     trim (removeParens (removeSuffixes (trim (toLowerCase rt name))))"

definition normalizeCompanyName :: "runtime \<Rightarrow> jsval \<Rightarrow> error + jsstring" where
  "normalizeCompanyName rt name =
     (if \<not> truthy name then Inr []
      else case name of JStr s \<Rightarrow> Inr (normalizeString rt s) | _ \<Rightarrow> Inl TypeError)"

text \<open>
  \<open>_toServiceDTO(raw)\<close>: for each canonical field the first truthy alias wins, else the
  empty string; \<open>rowIndex\<close> is passed on as it is. \<open>serviceDTO\<close> is the object literal,
  \<open>toServiceDTO\<close> adds the guard for a null row.
\<close>

definition serviceDTO :: "obj \<Rightarrow> obj" where
  "serviceDTO raw =
     [ ''companyId'' \<mapsto> or_js (or_js (field raw ''companyId'') (field raw ''company_id'')) (JStr []),
       ''companyName'' \<mapsto> or_js (or_js (field raw ''companyName'') (field raw ''company_name'')) (JStr []),
       ''phone'' \<mapsto> or_js (field raw ''phone'') (JStr []),
       ''address'' \<mapsto> or_js (field raw ''address'') (JStr []),
       ''county'' \<mapsto> or_js (or_js (field raw ''county'') (field raw ''city'')) (JStr []),
       ''introduction'' \<mapsto> or_js (or_js (field raw ''introduction'') (field raw ''description'')) (JStr []),
       ''companyType'' \<mapsto> or_js (or_js (field raw ''companyType'') (field raw ''company_type'')) (JStr []),
       ''customerStage'' \<mapsto> or_js (or_js (field raw ''customerStage'') (field raw ''customer_stage'')) (JStr []),
       ''engagementRating'' \<mapsto>
          or_js (or_js (field raw ''engagementRating'') (field raw ''interactionRating'')) (JStr []),
       ''createdTime'' \<mapsto> or_js (or_js (field raw ''createdTime'') (field raw ''created_time'')) (JStr []),
       ''lastUpdateTime'' \<mapsto>
          or_js (or_js (or_js (field raw ''lastUpdateTime'') (field raw ''updatedTime''))
                   (field raw ''updated_time'')) (JStr []),
       ''creator'' \<mapsto>
          or_js (or_js (or_js (field raw ''creator'') (field raw ''createdBy''))
                   (field raw ''created_by'')) (JStr []),
       ''lastModifier'' \<mapsto>
          or_js (or_js (or_js (field raw ''lastModifier'') (field raw ''updatedBy''))
                   (field raw ''updated_by'')) (JStr []),
       ''rowIndex'' \<mapsto> field raw ''rowIndex'' ]"

definition toServiceDTO :: "obj option \<Rightarrow> obj option" where
  "toServiceDTO raw = (case raw of None \<Rightarrow> None | Some r \<Rightarrow> Some (serviceDTO r))"

section \<open>Collaborators and effects\<close>

text \<open>
  Readers and writers are collaborators outside the services. A call either throws or
  returns; a reader returns an array of row objects or something that is not an array; a
  writer returns an object or a primitive. A service operation is modelled by the list of
  collaborator calls it makes, in order, together with its outcome: the error it throws
  (\<open>Inl\<close>) or the value it returns (\<open>Inr\<close>). Console logging is left out.
\<close>

datatype rows = Rows "obj list" | NotArray

datatype 'a reply = Throws error | Returns 'a

datatype result = ObjResult obj | PrimResult jsval

datatype actor = ActorName jsval | ActorUser obj

text \<open>
  What an interaction log entry says, with the values its text is built from: the lines of
  an opportunity update, or the deletion of an opportunity (its name, its id, who deleted).
  The time of the entry comes from the clock and is left out.
\<close>

datatype changeLine =
    StageChange jsval jsval
  | ValueChange jsval jsval
  | AssigneeChange jsval jsval
  | CloseDateChange jsval jsval

datatype interaction =
    OpportunityUpdated jsval "changeLine list" jsval
  | OpportunityDeleted jsval jsval jsval jsval

datatype call =
    SqlGetCompanies
  | SheetGetCompanyList
  | SqlCreateCompany obj actor
  | InvalidateCache string
  | SqlGetAnnouncements
  | SheetGetAnnouncements
  | WriterUpdateAnnouncement jsval obj jsval
  | WriterDeleteAnnouncement jsval
  | SqlGetEventLogs
  | SheetGetEventLogs
  | SheetGetOpportunities
  | InvalidateEventCache
  | WriterDeleteEventLog jsval jsval
  | WriterCreateEventLog obj jsval
  | WriterUpdateEventLog jsval "obj option" jsval
  | SqlGetOpportunities
  | GetSystemConfig
  | WriterUpdateOpportunity jsval obj jsval
  | WriterDeleteOpportunity jsval jsval
  | CreateInteraction interaction

type_synonym 'a effect = "call list \<times> (error + 'a)"

definition pureE :: "'a \<Rightarrow> 'a effect" where
  "pureE x = ([], Inr x)"

definition throwE :: "error \<Rightarrow> 'a effect" where
  "throwE e = ([], Inl e)"

definition liftE :: "error + 'a \<Rightarrow> 'a effect" where
  "liftE r = ([], r)"

definition callOut :: "call \<Rightarrow> 'a reply \<Rightarrow> 'a effect" where
  "callOut c r = ([c], case r of Throws e \<Rightarrow> Inl e | Returns x \<Rightarrow> Inr x)"

definition andThen :: "'a effect \<Rightarrow> ('a \<Rightarrow> 'b effect) \<Rightarrow> 'b effect" where
  "andThen m f =
     (case m of
        (t, Inl e) \<Rightarrow> (t, Inl e)
      | (t, Inr x) \<Rightarrow> (case f x of (t', r) \<Rightarrow> (t @ t', r)))"

text \<open>A store-level mutation among the calls.\<close>

fun isWriteCall :: "call \<Rightarrow> bool" where
  "isWriteCall (SqlCreateCompany d m) = True"
| "isWriteCall (WriterUpdateAnnouncement r d m) = True"
| "isWriteCall (WriterDeleteAnnouncement r) = True"
| "isWriteCall (WriterDeleteEventLog r t) = True"
| "isWriteCall (WriterCreateEventLog d m) = True"
| "isWriteCall (WriterUpdateEventLog r d m) = True"
| "isWriteCall (WriterUpdateOpportunity r d m) = True"
| "isWriteCall (WriterDeleteOpportunity r m) = True"
| "isWriteCall (CreateInteraction i) = True"
| "isWriteCall c = False"

text \<open>\<open>xs.find(p)\<close> on what a reader returned: a value that is not an array has no \<open>find\<close>.\<close>

definition findInRows :: "(obj \<Rightarrow> bool) \<Rightarrow> rows \<Rightarrow> error + obj option" where
  "findInRows p rs = (case rs of NotArray \<Rightarrow> Inl TypeError | Rows xs \<Rightarrow> Inr (find p xs))"

definition systemName :: jsstring where
  "systemName = ascii ''System''"

text \<open>\<open>xs.find(p)\<close> where the callback may throw.\<close>

fun findFirst :: "('a \<Rightarrow> error + bool) \<Rightarrow> 'a list \<Rightarrow> error + 'a option" where
  "findFirst p [] = Inr None"
| "findFirst p (x # xs) =
     (case p x of
        Inl e \<Rightarrow> Inl e
      | Inr b \<Rightarrow> if b then Inr (Some x) else findFirst p xs)"

section \<open>Company service: reads, lookup by name, creation\<close>

record companyService =
  companySqlReader :: "rows reply option"
  companyReader :: "rows reply"
  companyReaderInvalidateCache :: bool
  companySqlWriter :: "result reply option"

text \<open>\<open>_getAllCompanies()\<close>: SQL first, the sheet when SQL gave nothing usable.\<close>

definition sqlCompanies :: "companyService \<Rightarrow> call list \<times> obj list option" where
  "sqlCompanies svc =
     (case companySqlReader svc of
        None \<Rightarrow> ([], None)
      | Some r \<Rightarrow>
          ([SqlGetCompanies],
           case r of
             Throws e \<Rightarrow> None
           | Returns NotArray \<Rightarrow> None
           | Returns (Rows sqlRaw) \<Rightarrow>
               if length sqlRaw > 0 then Some (map serviceDTO sqlRaw) else None))"

definition getAllCompanies :: "companyService \<Rightarrow> (obj list) effect" where
  "getAllCompanies svc =
     (case sqlCompanies svc of
        (t, Some companies) \<Rightarrow> (t, Inr companies)
      | (t, None) \<Rightarrow>
          andThen (t, Inr ()) (\<lambda>_.
          andThen (callOut SheetGetCompanyList (companyReader svc)) (\<lambda>sheetRaw.
            case sheetRaw of
              NotArray \<Rightarrow> throwE TypeError
            | Rows xs \<Rightarrow> pureE (map serviceDTO xs))))"

text \<open>The callback of the lookups: \<open>c => this._normalizeCompanyName(c.companyName) === normalizedTarget\<close>.\<close>

definition sameNormalizedName :: "runtime \<Rightarrow> jsstring \<Rightarrow> obj \<Rightarrow> error + bool" where
  "sameNormalizedName rt normalizedTarget c =
     (case normalizeCompanyName rt (field c ''companyName'') of
        Inl e \<Rightarrow> Inl e
      | Inr n \<Rightarrow> Inr (n = normalizedTarget))"

text \<open>\<open>_getCompanyByName(companyName)\<close>\<close>

definition getCompanyByName :: "runtime \<Rightarrow> companyService \<Rightarrow> jsstring \<Rightarrow> (obj option) effect" where
  "getCompanyByName rt svc companyName =
     (if companyName = [] then pureE None
      else
        andThen (getAllCompanies svc) (\<lambda>companies.
        andThen (liftE (normalizeCompanyName rt (JStr companyName))) (\<lambda>normalizedTarget.
          liftE (findFirst (sameNormalizedName rt normalizedTarget) companies))))"

text \<open>
  \<open>_findCompanyRowIndex(companyName)\<close> of version 7.7.0, where company writes still go to
  the sheet by row index.
\<close>

definition findCompanyRowIndex :: "runtime \<Rightarrow> companyService \<Rightarrow> jsstring \<Rightarrow> jsval effect" where
  "findCompanyRowIndex rt svc companyName =
     andThen (callOut SheetGetCompanyList (companyReader svc)) (\<lambda>rawList.
     andThen (liftE (normalizeCompanyName rt (JStr companyName))) (\<lambda>normalizedTarget.
       case rawList of
         NotArray \<Rightarrow> throwE TypeError
       | Rows xs \<Rightarrow>
           andThen (liftE (findFirst (sameNormalizedName rt normalizedTarget) xs)) (\<lambda>target.
             case target of
               None \<Rightarrow> throwE (CompanyNotFound companyName)
             | Some c \<Rightarrow>
                 if \<not> truthy (field c ''rowIndex'') then throwE CompanyRowIndexMissing
                 else pureE (field c ''rowIndex''))))"

text \<open>
  \<open>createCompany(companyName, companyData, user)\<close> of version 7.8.0. The identifier
  \<open>COMP_<timestamp>_<random>\<close> comes from the clock and the random generator and is a
  parameter. The result is either the object built for an existing company or whatever
  the SQL writer returned.
\<close>

record duplicateResult =
  res_success :: bool
  res_id :: jsval
  res_name :: jsval
  res_message :: jsstring
  res_existed :: bool
  res_data :: obj

datatype createResult = Existed duplicateResult | Written result

definition companyExistsMessage :: jsstring where
  "companyExistsMessage = [20844, 21496, 24050, 23384, 22312]"

definition companyModifier :: "obj \<Rightarrow> actor" where
  "companyModifier user =
     (if truthy (field user ''displayName'') then ActorName (field user ''displayName'')
      else if truthy (field user ''username'') then ActorName (field user ''username'')
      else ActorUser user)"

definition invalidateCompanyList :: "companyService \<Rightarrow> unit effect" where
  "invalidateCompanyList svc =
     (if companyReaderInvalidateCache svc then ([InvalidateCache ''companyList''], Inr ())
      else pureE ())"

definition createCompany ::
  "runtime \<Rightarrow> companyService \<Rightarrow> jsstring \<Rightarrow> jsstring \<Rightarrow> obj \<Rightarrow> obj \<Rightarrow> createResult effect" where
  "createCompany rt svc generatedId companyName companyData user =
     (let modifier = companyModifier user in
      andThen (getCompanyByName rt svc companyName) (\<lambda>existing.
        case existing of
          Some ex \<Rightarrow>
            pureE (Existed \<lparr> res_success = True, res_id = field ex ''companyId'',
                             res_name = field ex ''companyName'',
                             res_message = companyExistsMessage, res_existed = True,
                             res_data = ex \<rparr>)
        | None \<Rightarrow>
            (let dataToWrite =
                   [''companyId'' \<mapsto> JStr generatedId, ''companyName'' \<mapsto> JStr companyName]
                   ++ companyData
             in case companySqlWriter svc of
                  None \<Rightarrow> throwE CompanySqlWriterNotInjected
                | Some w \<Rightarrow>
                    andThen (callOut (SqlCreateCompany dataToWrite modifier) w) (\<lambda>result.
                    andThen (invalidateCompanyList svc) (\<lambda>_.
                      pureE (Written result))))))"

section \<open>Announcement service\<close>

record announcementService =
  announcementSqlReader :: "rows reply option"
  announcementReader :: "rows reply"
  announcementWriterUpdate :: "result reply"
  announcementWriterDelete :: "result reply"

text \<open>
  \<open>_fetchInternal()\<close>: whatever the SQL reader returns is returned as it is; the sheet is
  read when no SQL reader is injected or the SQL reader throws.
\<close>

definition fetchInternal :: "announcementService \<Rightarrow> rows effect" where
  "fetchInternal svc =
     (case announcementSqlReader svc of
        None \<Rightarrow> callOut SheetGetAnnouncements (announcementReader svc)
      | Some (Returns v) \<Rightarrow> ([SqlGetAnnouncements], Inr v)
      | Some (Throws e) \<Rightarrow>
          andThen ([SqlGetAnnouncements], Inr ()) (\<lambda>_.
            callOut SheetGetAnnouncements (announcementReader svc)))"

text \<open>\<open>user.displayName || user.username || user.name || 'System'\<close>\<close>

definition announcementModifier :: "obj \<Rightarrow> jsval" where
  "announcementModifier user =
     or_js (or_js (or_js (field user ''displayName'') (field user ''username''))
              (field user ''name'')) (JStr systemName)"

text \<open>\<open>updateAnnouncement(id, data, user)\<close>\<close>

definition updateAnnouncement ::
  "announcementService \<Rightarrow> jsval \<Rightarrow> obj \<Rightarrow> obj \<Rightarrow> result effect" where
  "updateAnnouncement svc ident data user =
     (let modifierName = announcementModifier user in
      andThen (fetchInternal svc) (\<lambda>allAnnouncements.
      andThen (liftE (findInRows (\<lambda>a. strictEq (field a ''id'') ident) allAnnouncements)) (\<lambda>target.
        case target of
          None \<Rightarrow> throwE (AnnouncementNotFound ident)
        | Some t \<Rightarrow>
            if \<not> truthy (field t ''rowIndex'') then throwE ForbiddenUpdate
            else callOut (WriterUpdateAnnouncement (field t ''rowIndex'') data modifierName)
                   (announcementWriterUpdate svc))))"

text \<open>\<open>deleteAnnouncement(id)\<close>\<close>

definition deleteAnnouncement :: "announcementService \<Rightarrow> jsval \<Rightarrow> result effect" where
  "deleteAnnouncement svc ident =
     andThen (fetchInternal svc) (\<lambda>allAnnouncements.
     andThen (liftE (findInRows (\<lambda>a. strictEq (field a ''id'') ident) allAnnouncements)) (\<lambda>target.
       case target of
         None \<Rightarrow> throwE (AnnouncementNotFound ident)
       | Some t \<Rightarrow>
           if \<not> truthy (field t ''rowIndex'') then throwE ForbiddenDelete
           else callOut (WriterDeleteAnnouncement (field t ''rowIndex''))
                  (announcementWriterDelete svc)))"

section \<open>Event log service\<close>

record eventLogService =
  eventLogSqlReader :: "rows reply option"
  eventReader :: "rows reply"
  oppReader :: "rows reply"
  eventCompanyReader :: "rows reply"
  eventWriterDelete :: "result reply"
  eventWriterCreate :: "result reply"
  eventWriterUpdate :: "result reply"

text \<open>
  \<open>_invalidateEventCacheSafe()\<close> clears the reader's cache one way or another and swallows
  every error: one call that always returns.
\<close>

definition invalidateEventCacheSafe :: "unit effect" where
  "invalidateEventCacheSafe = ([InvalidateEventCache], Inr ())"

text \<open>
  The inner \<open>try\<close> of \<open>getAllEvents\<close>: the SQL reader's array is taken, empty or not; a
  missing SQL reader, a throw or a value that is not an array go to the sheet reader.
\<close>

definition sqlOrSheetEvents :: "eventLogService \<Rightarrow> rows effect" where
  "sqlOrSheetEvents svc =
     (case eventLogSqlReader svc of
        None \<Rightarrow> callOut SheetGetEventLogs (eventReader svc)
      | Some (Returns (Rows events)) \<Rightarrow> ([SqlGetEventLogs], Inr (Rows events))
      | Some other \<Rightarrow>
          andThen ([SqlGetEventLogs], Inr ()) (\<lambda>_.
            callOut SheetGetEventLogs (eventReader svc)))"

text \<open>\<open>new Map(entries).get(k)\<close>: the last entry under a key is the one kept.\<close>

definition mapGet :: "(jsval \<times> jsval) list \<Rightarrow> jsval \<Rightarrow> jsval" where
  "mapGet entries k =
     (case find (\<lambda>kv. fst kv = k) (rev entries) of None \<Rightarrow> JUndefined | Some kv \<Rightarrow> snd kv)"

text \<open>The callback of \<open>events.map\<close>: a clone with the \<open>id\<close> alias and the joined names.\<close>

definition joinEvent :: "(jsval \<times> jsval) list \<Rightarrow> (jsval \<times> jsval) list \<Rightarrow> obj \<Rightarrow> obj" where
  "joinEvent oppMap compMap raw =
     (let e0 = raw;
          e1 = (if \<not> truthy (field e0 ''id'') \<and> truthy (field e0 ''eventId'')
                then e0(''id'' \<mapsto> field e0 ''eventId'') else e0);
          e2 = (if truthy (field e1 ''opportunityId'')
                then e1(''opportunityName'' \<mapsto>
                          or_js (mapGet oppMap (field e1 ''opportunityId'')) (field e1 ''opportunityId''))
                else e1);
          e3 = (if truthy (field e2 ''companyId'')
                then e2(''companyName'' \<mapsto>
                          or_js (mapGet compMap (field e2 ''companyId'')) (field e2 ''companyId''))
                else e2)
      in e3)"

definition joinEvents :: "obj list \<Rightarrow> obj list \<Rightarrow> obj list \<Rightarrow> obj list" where
  "joinEvents opps comps events =
     (let oppMap = map (\<lambda>opp. (field opp ''opportunityId'', field opp ''opportunityName'')) opps;
          compMap = map (\<lambda>c. (field c ''companyId'', field c ''companyName'')) comps
      in map (joinEvent oppMap compMap) events)"

text \<open>
  \<open>getAllEvents()\<close>. The outer \<open>catch\<close> turns every error into the empty list, so the
  operation always returns a list.
\<close>

definition getAllEvents :: "eventLogService \<Rightarrow> call list \<times> obj list" where
  "getAllEvents svc =
     (case sqlOrSheetEvents svc of
        (t, Inl e) \<Rightarrow> (t, [])
      | (t, Inr events) \<Rightarrow>
          (t @ [SheetGetOpportunities, SheetGetCompanyList],
           case (oppReader svc, eventCompanyReader svc, events) of
             (Returns (Rows opps), Returns (Rows comps), Rows ev) \<Rightarrow> joinEvents opps comps ev
           | _ \<Rightarrow> []))"

text \<open>\<open>user?.displayName || user?.username || 'System'\<close>\<close>

definition eventModifier :: "obj option \<Rightarrow> jsval" where
  "eventModifier user =
     (case user of
        None \<Rightarrow> JStr systemName
      | Some u \<Rightarrow> or_js (or_js (field u ''displayName'') (field u ''username'')) (JStr systemName))"

text \<open>\<open>updateEvent(rowIndex, data, user)\<close>\<close>

definition updateEvent ::
  "eventLogService \<Rightarrow> jsval \<Rightarrow> obj option \<Rightarrow> obj option \<Rightarrow> result effect" where
  "updateEvent svc rowIndex data user =
     (let modifier = eventModifier user in
      andThen (callOut (WriterUpdateEventLog rowIndex data modifier) (eventWriterUpdate svc)) (\<lambda>result.
      andThen invalidateEventCacheSafe (\<lambda>_.
        pureE result)))"

text \<open>\<open>deleteEvent(rowIndex, eventType, user)\<close>\<close>

definition deleteEvent :: "eventLogService \<Rightarrow> jsval \<Rightarrow> jsval \<Rightarrow> result effect" where
  "deleteEvent svc rowIndex eventType =
     andThen (callOut (WriterDeleteEventLog rowIndex eventType) (eventWriterDelete svc)) (\<lambda>result.
     andThen invalidateEventCacheSafe (\<lambda>_.
       pureE result))"

text \<open>\<open>deleteEventLog(eventId, user)\<close>\<close>

definition deleteEventLog :: "eventLogService \<Rightarrow> jsval \<Rightarrow> result effect" where
  "deleteEventLog svc eventId =
     andThen (callOut SheetGetEventLogs (eventReader svc)) (\<lambda>logs.
     andThen (liftE (findInRows (\<lambda>l. strictEq (field l ''eventId'') eventId) logs)) (\<lambda>target.
       case target of
         None \<Rightarrow> throwE (DeleteEventIdNotFound eventId)
       | Some t \<Rightarrow> deleteEvent svc (field t ''rowIndex'') (field t ''eventType'')))"

text \<open>\<open>Number(v)\<close>, \<open>Number.isInteger\<close>, \<open>isNaN\<close> and \<open>typeof v === 'string'\<close>.\<close>

fun toNumber :: "runtime \<Rightarrow> jsval \<Rightarrow> jsnum" where
  "toNumber rt JUndefined = NaN"
| "toNumber rt JNull = Finite 0"
| "toNumber rt (JBool b) = Finite (if b then 1 else 0)"
| "toNumber rt (JNum n) = n"
| "toNumber rt (JStr s) = stringToNumber rt s"

fun isInteger :: "jsnum \<Rightarrow> bool" where
  "isInteger (Finite q) = (of_int \<lfloor>q\<rfloor> = q)"
| "isInteger n = False"

definition isNaN :: "jsnum \<Rightarrow> bool" where
  "isNaN n = (n = NaN)"

fun isString :: "jsval \<Rightarrow> bool" where
  "isString (JStr s) = True"
| "isString v = False"

text \<open>
  \<open>updateEventLog(idOrRowIndex, data, modifier)\<close>, step by step.
  Steps 1 and 2: the event id given in the data (\<open>data?.eventId || data?.id || null\<close>), and
  the original event, by that id first and by row index if that found nothing.
\<close>

definition optField :: "obj option \<Rightarrow> string \<Rightarrow> jsval" where
  "optField data k = (case data of None \<Rightarrow> JUndefined | Some d \<Rightarrow> field d k)"

definition inputEventIdOf :: "obj option \<Rightarrow> jsval" where
  "inputEventIdOf data = or_js (or_js (optField data ''eventId'') (optField data ''id'')) JNull"

definition locateOriginal ::
  "runtime \<Rightarrow> rows \<Rightarrow> jsval \<Rightarrow> obj option \<Rightarrow> error + obj option" where
  "locateOriginal rt logs idOrRowIndex data =
     (let inputEventId = inputEventIdOf data in
      case (if truthy inputEventId
            then findInRows (\<lambda>l. strictEq (field l ''eventId'') inputEventId) logs
            else Inr None) of
        Inl e \<Rightarrow> Inl e
      | Inr (Some l) \<Rightarrow> Inr (Some l)
      | Inr None \<Rightarrow>
          (let candidateRow = toNumber rt idOrRowIndex in
           if isInteger candidateRow
           then findInRows
                  (\<lambda>l. strictEq (JNum (toNumber rt (field l ''rowIndex''))) (JNum candidateRow)) logs
           else Inr None))"

text \<open>
  Step 3: the row index for the in-place update. A string that is not a number is taken
  for an event id and must name a logged event with a row index; the outcome must be an
  integer.
\<close>

definition resolveRowIndex :: "runtime \<Rightarrow> rows \<Rightarrow> jsval \<Rightarrow> error + jsnum" where
  "resolveRowIndex rt logs idOrRowIndex =
     (case (if isString idOrRowIndex \<and> isNaN (toNumber rt idOrRowIndex)
            then (case findInRows (\<lambda>l. strictEq (field l ''eventId'') idOrRowIndex) logs of
                    Inl e \<Rightarrow> Inl e
                  | Inr None \<Rightarrow> Inl (EventIdNotFound idOrRowIndex)
                  | Inr (Some target) \<Rightarrow>
                      if \<not> truthy (field target ''rowIndex'')
                      then Inl (EventIdNotFound idOrRowIndex)
                      else Inr (field target ''rowIndex''))
            else Inr idOrRowIndex) of
        Inl e \<Rightarrow> Inl e
      | Inr rowIndex \<Rightarrow>
          (let n = toNumber rt rowIndex in
           if \<not> isInteger n then Inl InvalidResolvedRowIndex else Inr n))"

text \<open>Step 4: the test for a move, the payload of the new record and the result of a move.\<close>

definition isMove :: "obj \<Rightarrow> obj \<Rightarrow> bool" where
  "isMove original data =
     (truthy (field data ''eventType'') \<and> truthy (field original ''eventType'') \<and>
      \<not> strictEq (field data ''eventType'') (field original ''eventType''))"

definition movePayload :: "obj \<Rightarrow> obj \<Rightarrow> obj" where
  "movePayload data original =
     (let payload = data(''eventId'' \<mapsto> field original ''eventId'',
                         ''id'' \<mapsto> field original ''eventId'')
      in if \<not> truthy (field payload ''createdTime'') \<and> truthy (field original ''createdTime'')
         then payload(''createdTime'' \<mapsto> field original ''createdTime'')
         else payload)"

definition markMoved :: "result \<Rightarrow> result" where
  "markMoved createResult =
     (case createResult of
        ObjResult r \<Rightarrow> ObjResult (r(''moved'' \<mapsto> JBool True))
      | PrimResult v \<Rightarrow> ObjResult [''success'' \<mapsto> JBool True, ''moved'' \<mapsto> JBool True])"

definition moveEvent :: "eventLogService \<Rightarrow> obj \<Rightarrow> obj \<Rightarrow> jsval \<Rightarrow> result effect" where
  "moveEvent svc original data modifier =
     andThen (callOut (WriterDeleteEventLog (field original ''rowIndex'') (field original ''eventType''))
                (eventWriterDelete svc)) (\<lambda>_.
     andThen (callOut (WriterCreateEventLog (movePayload data original) modifier)
                (eventWriterCreate svc)) (\<lambda>createResult.
     andThen invalidateEventCacheSafe (\<lambda>_.
       pureE (markMoved createResult))))"

definition updateEventLog ::
  "runtime \<Rightarrow> eventLogService \<Rightarrow> jsval \<Rightarrow> obj option \<Rightarrow> jsval \<Rightarrow> result effect" where
  "updateEventLog rt svc idOrRowIndex data modifier =
     andThen (callOut SheetGetEventLogs (eventReader svc)) (\<lambda>logs.
     andThen (liftE (locateOriginal rt logs idOrRowIndex data)) (\<lambda>original.
     andThen (liftE (resolveRowIndex rt logs idOrRowIndex)) (\<lambda>rowIndex.
       case (original, data) of
         (Some orig, Some d) \<Rightarrow>
           if isMove orig d then moveEvent svc orig d modifier
           else updateEvent svc (JNum rowIndex) data (Some [''displayName'' \<mapsto> modifier])
       | _ \<Rightarrow> updateEvent svc (JNum rowIndex) data (Some [''displayName'' \<mapsto> modifier]))))"

section \<open>Opportunity service\<close>

text \<open>
  The two tables of the system configuration that the update reads,
  \<open>systemConfig['...'] || []\<close> for the opportunity stages and for the team members.
\<close>

record systemConfig =
  opportunityStages :: "obj list"
  teamMembers :: "obj list"

record opportunityService =
  opportunitySqlReader :: "rows reply option"
  opportunityReader :: "rows reply"
  opportunityReaderInvalidateCache :: bool
  systemReader :: "systemConfig reply"
  opportunityWriterUpdate :: "result reply"
  opportunityWriterDelete :: "result reply"
  opportunityCompanyReader :: "rows reply"

text \<open>\<open>_fetchOpportunities(forceSheet)\<close>\<close>

definition sqlOpportunities :: "opportunityService \<Rightarrow> bool \<Rightarrow> call list \<times> rows option" where
  "sqlOpportunities svc forceSheet =
     (if \<not> forceSheet then
        (case opportunitySqlReader svc of
           None \<Rightarrow> ([], None)
         | Some r \<Rightarrow>
             ([SqlGetOpportunities],
              case r of
                Returns (Rows sqlData) \<Rightarrow> if length sqlData > 0 then Some (Rows sqlData) else None
              | _ \<Rightarrow> None))
      else ([], None))"

definition fetchOpportunities :: "opportunityService \<Rightarrow> bool \<Rightarrow> rows effect" where
  "fetchOpportunities svc forceSheet =
     (case sqlOpportunities svc forceSheet of
        (t, Some opportunities) \<Rightarrow> (t, Inr opportunities)
      | (t, None) \<Rightarrow>
          andThen (t, Inr ()) (\<lambda>_. callOut SheetGetOpportunities (opportunityReader svc)))"

text \<open>\<open>String(v)\<close> and \<open>parseInt(v)\<close>, which reads the string of its argument.\<close>

fun toStringJs :: "runtime \<Rightarrow> jsval \<Rightarrow> jsstring" where
  "toStringJs rt JUndefined = ascii ''undefined''"
| "toStringJs rt JNull = ascii ''null''"
| "toStringJs rt (JBool b) = (if b then ascii ''true'' else ascii ''false'')"
| "toStringJs rt (JNum n) = numberToString rt n"
| "toStringJs rt (JStr s) = s"

definition parseInt :: "runtime \<Rightarrow> jsval \<Rightarrow> jsnum" where
  "parseInt rt v = parseIntString rt (toStringJs rt v)"

text \<open>\<open>user.displayName || user.username || 'System'\<close>\<close>

definition opportunityModifier :: "obj \<Rightarrow> jsval" where
  "opportunityModifier user =
     or_js (or_js (field user ''displayName'') (field user ''username'')) (JStr systemName)"

definition invalidateOpportunities :: "opportunityService \<Rightarrow> unit effect" where
  "invalidateOpportunities svc =
     (if opportunityReaderInvalidateCache svc then ([InvalidateCache ''opportunities''], Inr ())
      else pureE ())"

text \<open>
  \<open>_logOpportunityInteraction\<close> and the company log after a deletion catch whatever the
  interaction writer throws.
\<close>

definition logInteraction :: "interaction \<Rightarrow> unit effect" where
  "logInteraction i = ([CreateInteraction i], Inr ())"

text \<open>The change lines of \<open>updateOpportunity\<close>, in the order of the four checks.\<close>

definition notSet :: jsval where
  "notSet = JStr [26410, 35373, 23450]"

definition stageName :: "obj list \<Rightarrow> jsval \<Rightarrow> jsval" where
  "stageName stages v =
     or_js (mapGet (map (\<lambda>item. (field item ''value'', field item ''note'')) stages) v) v"

definition getNote :: "obj list \<Rightarrow> jsval \<Rightarrow> jsval" where
  "getNote items v =
     or_js (or_js (case find (\<lambda>i. strictEq (field i ''value'') v) items of
                     None \<Rightarrow> JUndefined
                   | Some i \<Rightarrow> field i ''note'') v)
           (JStr (ascii ''N/A''))"

definition changed :: "obj \<Rightarrow> obj \<Rightarrow> string \<Rightarrow> bool" where
  "changed updateData original k =
     (field updateData k \<noteq> JUndefined \<and> \<not> strictEq (field updateData k) (field original k))"

definition changeLines :: "systemConfig \<Rightarrow> obj \<Rightarrow> obj \<Rightarrow> changeLine list" where
  "changeLines systemConfig original updateData =
     (let oldStage = field original ''currentStage'';
          newStage = field updateData ''currentStage''
      in (if truthy newStage \<and> truthy oldStage \<and> \<not> strictEq newStage oldStage
          then [StageChange (stageName (opportunityStages systemConfig) oldStage)
                            (stageName (opportunityStages systemConfig) newStage)]
          else [])
       @ (if changed updateData original ''opportunityValue''
          then [ValueChange (or_js (field original ''opportunityValue'') notSet)
                            (or_js (field updateData ''opportunityValue'') notSet)]
          else [])
       @ (if changed updateData original ''assignee''
          then [AssigneeChange (getNote (teamMembers systemConfig) (field original ''assignee''))
                               (getNote (teamMembers systemConfig) (field updateData ''assignee''))]
          else [])
       @ (if changed updateData original ''expectedCloseDate''
          then [CloseDateChange (or_js (field original ''expectedCloseDate'') notSet)
                                (or_js (field updateData ''expectedCloseDate'') notSet)]
          else []))"

text \<open>\<open>updateOpportunity(rowIndex, updateData, user)\<close>\<close>

definition updateOpportunity ::
  "runtime \<Rightarrow> opportunityService \<Rightarrow> jsval \<Rightarrow> obj \<Rightarrow> obj \<Rightarrow> result effect" where
  "updateOpportunity rt svc rowIndex updateData user =
     (let modifier = opportunityModifier user in
      andThen (fetchOpportunities svc True) (\<lambda>opportunities.
      andThen (liftE (findInRows (\<lambda>opp. strictEq (field opp ''rowIndex'') (JNum (parseInt rt rowIndex)))
                        opportunities)) (\<lambda>originalOpportunity.
        case originalOpportunity of
          None \<Rightarrow> throwE (OpportunityNotFound rowIndex)
        | Some original \<Rightarrow>
            andThen (callOut GetSystemConfig (systemReader svc)) (\<lambda>systemConfig.
            (let logs = changeLines systemConfig original updateData in
             andThen (callOut (WriterUpdateOpportunity rowIndex updateData modifier)
                        (opportunityWriterUpdate svc)) (\<lambda>updateResult.
             andThen (invalidateOpportunities svc) (\<lambda>_.
             andThen (if logs \<noteq> []
                      then logInteraction
                             (OpportunityUpdated (field original ''opportunityId'') logs modifier)
                      else pureE ()) (\<lambda>_.
               pureE updateResult))))))))"

text \<open>
  \<open>deleteOpportunity(rowIndex, user)\<close>. After the deletion a note is left with the company
  of the opportunity; the \<open>try\<close> around it swallows every error.
\<close>

definition lowerTrim :: "runtime \<Rightarrow> jsval \<Rightarrow> error + jsstring" where
  "lowerTrim rt v = (case v of JStr s \<Rightarrow> Inr (trim (toLowerCase rt s)) | _ \<Rightarrow> Inl TypeError)"

definition sameLowerTrimmedName :: "runtime \<Rightarrow> obj \<Rightarrow> obj \<Rightarrow> error + bool" where
  "sameLowerTrimmedName rt opportunity c =
     (case lowerTrim rt (field c ''companyName'') of
        Inl e \<Rightarrow> Inl e
      | Inr a \<Rightarrow>
          (case lowerTrim rt (field opportunity ''customerCompany'') of
             Inl e \<Rightarrow> Inl e
           | Inr b \<Rightarrow> Inr (a = b)))"

definition logDeletionToCompany ::
  "runtime \<Rightarrow> opportunityService \<Rightarrow> obj \<Rightarrow> jsval \<Rightarrow> unit effect" where
  "logDeletionToCompany rt svc opportunity modifier =
     ([SheetGetCompanyList] @
      (case opportunityCompanyReader svc of
         Returns (Rows allCompanies) \<Rightarrow>
           (case findFirst (sameLowerTrimmedName rt opportunity) allCompanies of
              Inr (Some company) \<Rightarrow>
                [CreateInteraction
                   (OpportunityDeleted (field company ''companyId'')
                      (field opportunity ''opportunityName'') (field opportunity ''opportunityId'')
                      modifier)]
            | _ \<Rightarrow> [])
       | _ \<Rightarrow> []),
      Inr ())"

text \<open>\<open>deleteResult.success\<close>: reading a property of \<open>undefined\<close> or \<open>null\<close> is a TypeError.\<close>

definition resultSuccess :: "result \<Rightarrow> error + jsval" where
  "resultSuccess r =
     (case r of
        ObjResult ob \<Rightarrow> Inr (field ob ''success'')
      | PrimResult JUndefined \<Rightarrow> Inl TypeError
      | PrimResult JNull \<Rightarrow> Inl TypeError
      | PrimResult v \<Rightarrow> Inr JUndefined)"

definition deleteOpportunity ::
  "runtime \<Rightarrow> opportunityService \<Rightarrow> jsval \<Rightarrow> obj \<Rightarrow> result effect" where
  "deleteOpportunity rt svc rowIndex user =
     (let modifier = opportunityModifier user in
      andThen (fetchOpportunities svc True) (\<lambda>opportunities.
      andThen (liftE (findInRows (\<lambda>opp. strictEq (field opp ''rowIndex'') (JNum (parseInt rt rowIndex)))
                        opportunities)) (\<lambda>found.
        case found of
          None \<Rightarrow> throwE (OpportunityNotFound rowIndex)
        | Some opportunity \<Rightarrow>
            andThen (callOut (WriterDeleteOpportunity rowIndex modifier)
                       (opportunityWriterDelete svc)) (\<lambda>deleteResult.
            andThen (invalidateOpportunities svc) (\<lambda>_.
            andThen (liftE (resultSuccess deleteResult)) (\<lambda>success.
            andThen (if truthy success \<and> truthy (field opportunity ''customerCompany'')
                     then logDeletionToCompany rt svc opportunity modifier
                     else pureE ()) (\<lambda>_.
              pureE deleteResult)))))))"

text \<open>
  The linked contacts of \<open>getOpportunityDetails(opportunityId)\<close>, computed from the link
  table and the official contacts that its reads delivered.
\<close>

definition safeGet :: "obj \<Rightarrow> string list \<Rightarrow> jsval" where
  "safeGet ob ks =
     (case find (\<lambda>k. field ob k \<noteq> JUndefined \<and> field ob k \<noteq> JNull \<and> field ob k \<noteq> JStr []) ks of
        None \<Rightarrow> JUndefined
      | Some k \<Rightarrow> field ob k)"

definition normalizeStr :: "runtime \<Rightarrow> jsval \<Rightarrow> jsstring" where
  "normalizeStr rt v = (if v = JUndefined \<or> v = JNull then [] else trim (toStringJs rt v))"

definition linkIsActiveFor :: "runtime \<Rightarrow> jsval \<Rightarrow> obj \<Rightarrow> bool" where
  "linkIsActiveFor rt opportunityId link =
     (let linkOppId = normalizeStr rt (safeGet link [''opportunityId'', ''oppId'', ''opportunity_id''])
      in if linkOppId = [] then False
         else
           (let statusVal =
                  toLowerCase rt (normalizeStr rt (safeGet link [''status'', ''linkStatus'', ''state'']));
                isActive = (statusVal = [] \<or> statusVal = ascii ''active'')
            in linkOppId = normalizeStr rt opportunityId \<and> isActive))"

definition linkedContactOf :: "runtime \<Rightarrow> obj list \<Rightarrow> obj \<Rightarrow> obj option" where
  "linkedContactOf rt allOfficialContacts link =
     (let linkContactId = normalizeStr rt (safeGet link [''contactId'', ''id'', ''contact_id''])
      in if linkContactId = [] then None
         else
           (case find (\<lambda>c. normalizeStr rt (field c ''contactId'') = linkContactId)
                   allOfficialContacts of
              None \<Rightarrow> None
            | Some contact \<Rightarrow>
                Some (contact(''linkId'' \<mapsto> safeGet link [''linkId'', ''id'', ''rowId'', ''rowIndex'']))))"

definition linkedContactsFromCache :: "runtime \<Rightarrow> obj list \<Rightarrow> obj list \<Rightarrow> jsval \<Rightarrow> obj list" where
  "linkedContactsFromCache rt allLinks allOfficialContacts opportunityId =
     List.map_filter (linkedContactOf rt allOfficialContacts)
       (filter (linkIsActiveFor rt opportunityId) allLinks)"

section \<open>Contact service\<close>

text \<open>
  The reads of the contact service have no effect on any store, and \<open>getLinkedContacts\<close>
  starts three of them at once, so they are modelled by their answers alone. The core
  reader serves the official contact list and the link table; it and the raw reader can
  be missing.
\<close>

record contactCoreReader =
  getContactList :: "rows reply"
  getAllOppContactLinks :: "rows reply"

record contactService =
  contactSqlReader :: "rows reply option"
  contactCoreReader :: "contactCoreReader option"
  contactRawReader :: "rows reply option"
  contactCompanyReader :: "rows reply"

definition mapSqlContact :: "obj \<Rightarrow> obj" where
  "mapSqlContact contact =
     contact(''position'' \<mapsto> or_js (field contact ''jobTitle'') (field contact ''position''))"

definition mapOfficialContact :: "(jsval \<times> jsval) list \<Rightarrow> obj \<Rightarrow> obj" where
  "mapOfficialContact companyNameMap contact =
     contact(''companyName'' \<mapsto>
       or_js (mapGet companyNameMap (field contact ''companyId'')) (field contact ''companyId''))"

text \<open>
  \<open>_fetchOfficialContactsWithCompanies(forceSheet)\<close>: SQL first; an empty, null or
  malformed SQL answer and a throw all lead to the core sheet reader.
\<close>

definition sqlContacts :: "contactService \<Rightarrow> bool \<Rightarrow> obj list option" where
  "sqlContacts svc forceSheet =
     (if \<not> forceSheet then
        (case contactSqlReader svc of
           Some (Returns (Rows cs)) \<Rightarrow> if cs = [] then None else Some (map mapSqlContact cs)
         | _ \<Rightarrow> None)
      else None)"

definition fetchOfficialContactsWithCompanies :: "contactService \<Rightarrow> bool \<Rightarrow> error + obj list" where
  "fetchOfficialContactsWithCompanies svc forceSheet =
     (case (case sqlContacts svc forceSheet of
              Some cs \<Rightarrow> Inr (Rows cs)
            | None \<Rightarrow>
                (case contactCoreReader svc of
                   None \<Rightarrow> Inl CoreReaderNotConfigured
                 | Some core \<Rightarrow>
                     (case getContactList core of Throws e \<Rightarrow> Inl e | Returns v \<Rightarrow> Inr v))) of
        Inl e \<Rightarrow> Inl e
      | Inr allContacts \<Rightarrow>
          (case contactCompanyReader svc of
             Throws e \<Rightarrow> Inl e
           | Returns NotArray \<Rightarrow> Inl TypeError
           | Returns (Rows allCompanies) \<Rightarrow>
               (case allContacts of
                  NotArray \<Rightarrow> Inl TypeError
                | Rows cs \<Rightarrow>
                    Inr (map (mapOfficialContact
                                (map (\<lambda>c. (field c ''companyId'', field c ''companyName'')) allCompanies))
                           cs))))"

text \<open>\<open>_normalizeKey(str = '')\<close>\<close>

definition normalizeKey :: "runtime \<Rightarrow> jsval \<Rightarrow> jsstring" where
  "normalizeKey rt v =
     trim (toLowerCase rt (toStringJs rt (if v = JUndefined then JStr [] else v)))"

definition cardKey :: "runtime \<Rightarrow> jsval \<Rightarrow> jsval \<Rightarrow> jsstring" where
  "cardKey rt name company = normalizeKey rt name @ [124] @ normalizeKey rt company"

text \<open>The body of \<open>getLinkedContacts\<close> behind its three reads.\<close>

definition linkedContactIds :: "obj list \<Rightarrow> jsval \<Rightarrow> jsval list" where
  "linkedContactIds allLinks opportunityId =
     map (\<lambda>link. field link ''contactId'')
       (filter (\<lambda>link. strictEq (field link ''opportunityId'') opportunityId \<and>
                        strictEq (field link ''status'') (JStr (ascii ''active''))) allLinks)"

definition potentialCardMap :: "runtime \<Rightarrow> obj list \<Rightarrow> (jsstring \<times> jsval) list" where
  "potentialCardMap rt allPotentialContacts =
     map (\<lambda>pc. (cardKey rt (field pc ''name'') (field pc ''company''), field pc ''driveLink''))
       (filter (\<lambda>pc. truthy (field pc ''name'') \<and> truthy (field pc ''company'') \<and>
                      truthy (field pc ''driveLink'')) allPotentialContacts)"

definition firstEntry :: "(jsstring \<times> jsval) list \<Rightarrow> jsstring \<Rightarrow> jsval" where
  "firstEntry entries k =
     (case find (\<lambda>kv. fst kv = k) entries of None \<Rightarrow> JUndefined | Some kv \<Rightarrow> snd kv)"

definition linkedContactDTO :: "runtime \<Rightarrow> (jsstring \<times> jsval) list \<Rightarrow> obj \<Rightarrow> obj" where
  "linkedContactDTO rt cards contact =
     (let companyName = or_js (field contact ''companyName'') (JStr []);
          driveLink =
            (if truthy (field contact ''name'') \<and> truthy companyName
             then or_js (firstEntry cards (cardKey rt (field contact ''name'') companyName)) (JStr [])
             else JStr [])
      in [ ''contactId'' \<mapsto> field contact ''contactId'',
           ''sourceId'' \<mapsto> field contact ''sourceId'',
           ''name'' \<mapsto> field contact ''name'',
           ''companyId'' \<mapsto> field contact ''companyId'',
           ''department'' \<mapsto> field contact ''department'',
           ''position'' \<mapsto> field contact ''position'',
           ''mobile'' \<mapsto> field contact ''mobile'',
           ''phone'' \<mapsto> field contact ''phone'',
           ''email'' \<mapsto> field contact ''email'',
           ''companyName'' \<mapsto> companyName,
           ''driveLink'' \<mapsto> driveLink ])"

definition linkedContactsOf :: "runtime \<Rightarrow> obj list \<Rightarrow> obj list \<Rightarrow> rows \<Rightarrow> jsval \<Rightarrow> obj list" where
  "linkedContactsOf rt allLinks officialContacts allPotentialContacts opportunityId =
     (let ids = linkedContactIds allLinks opportunityId in
      if ids = [] then []
      else
        (case allPotentialContacts of
           NotArray \<Rightarrow> []
         | Rows pcs \<Rightarrow>
             map (linkedContactDTO rt (potentialCardMap rt pcs))
               (filter (\<lambda>contact. field contact ''contactId'' \<in> set ids) officialContacts)))"

text \<open>\<open>getLinkedContacts(opportunityId)\<close>: every error ends in the empty list.\<close>

definition getLinkedContacts :: "runtime \<Rightarrow> contactService \<Rightarrow> jsval \<Rightarrow> obj list" where
  "getLinkedContacts rt svc opportunityId =
     (case (contactCoreReader svc, contactRawReader svc) of
        (Some core, Some raw) \<Rightarrow>
          (case (getAllOppContactLinks core, fetchOfficialContactsWithCompanies svc False, raw) of
             (Returns (Rows allLinks), Inr officialContacts, Returns allPotentialContacts) \<Rightarrow>
               linkedContactsOf rt allLinks officialContacts allPotentialContacts opportunityId
           | _ \<Rightarrow> [])
      | _ \<Rightarrow> [])"

section \<open>Example data\<close>

text \<open>
  A runtime for running examples. It lower-cases the Basic Latin letters, as \<open>toLowerCase\<close>
  does on strings of ASCII and uncased (CJK) characters; it reads a string of decimal
  digits as that integer and any other string as NaN, as \<open>Number\<close> and \<open>parseInt\<close> do on
  the strings of the examples (digit strings, and identifiers such as \<open>E9\<close>); it prints
  NaN, the infinities (\<open>Infinity True\<close> being the positive one) and the integers below
  \<open>10^21\<close> in magnitude as \<open>String\<close> does. Signs, fractions, exponents, radix prefixes and
  surrounding white space in the strings read, the printing of other numbers, and
  lower-casing outside Basic Latin are not covered: no example depends on them.
\<close>

definition lowerAscii :: "jsstring \<Rightarrow> jsstring" where
  "lowerAscii s = map (\<lambda>c. if 65 \<le> c \<and> c \<le> 90 then c + 32 else c) s"

definition isDigits :: "jsstring \<Rightarrow> bool" where
  "isDigits s = (s \<noteq> [] \<and> list_all (\<lambda>c. 48 \<le> c \<and> c \<le> 57) s)"

definition decimalValue :: "jsstring \<Rightarrow> int" where
  "decimalValue s = foldl (\<lambda>a c. 10 * a + (int c - 48)) 0 s"

definition decimalNumber :: "jsstring \<Rightarrow> jsnum" where
  "decimalNumber s = (if isDigits s then Finite (of_int (decimalValue s)) else NaN)"

fun decimalDigits :: "nat \<Rightarrow> jsstring" where
  "decimalDigits n = (if n < 10 then [48 + n] else decimalDigits (n div 10) @ [48 + n mod 10])"

declare decimalDigits.simps [simp del]

definition printNumber :: "jsnum \<Rightarrow> jsstring" where
  "printNumber n =
     (case n of
        NaN \<Rightarrow> ascii ''NaN''
      | Infinity positive \<Rightarrow> if positive then ascii ''Infinity'' else ascii ''-Infinity''
      | Finite q \<Rightarrow>
          if of_int \<lfloor>q\<rfloor> = q \<and> \<bar>q\<bar> < 10 ^ 21
          then (if q < 0 then 45 # decimalDigits (nat (- \<lfloor>q\<rfloor>))
                else decimalDigits (nat \<lfloor>q\<rfloor>))
          else [])"

definition exampleRuntime :: runtime where
  "exampleRuntime =
     \<lparr> toLowerCase = lowerAscii, stringToNumber = decimalNumber,
       parseIntString = decimalNumber, numberToString = printNumber \<rparr>"

text \<open>
  The company names of the specification's scenario, a company whose whole name is the
  suffix \<open>U+516C U+53F8\<close>, and rows, services and inputs for the examples below. The
  writers of the example services answer \<open>{success: true}\<close>.
\<close>

definition taiwanTechLtd :: jsstring where
  "taiwanTechLtd = [21488, 28771, 31185, 25216, 32929, 20221, 26377, 38480, 20844, 21496]"

definition taiwanTechParen :: jsstring where
  "taiwanTechParen = [21488, 28771, 31185, 25216, 40, 84, 97, 105, 119, 97, 110, 41]"

definition taiwanTech :: jsstring where
  "taiwanTech = [21488, 28771, 31185, 25216]"

definition sheetOnlyCompanies :: "obj list \<Rightarrow> companyService" where
  "sheetOnlyCompanies xs =
     \<lparr> companySqlReader = None, companyReader = Returns (Rows xs),
       companyReaderInvalidateCache = True,
       companySqlWriter = Some (Returns (ObjResult [''success'' \<mapsto> JBool True])) \<rparr>"

definition companyNamedCompany :: obj where
  "companyNamedCompany = [''companyId'' \<mapsto> JStr (ascii ''C1''), ''companyName'' \<mapsto> JStr [20844, 21496]]"

definition taiwanTechRow :: obj where
  "taiwanTechRow = [''companyId'' \<mapsto> JStr (ascii ''C7''), ''companyName'' \<mapsto> JStr taiwanTechLtd]"

definition taiwanTechParenRow :: obj where
  "taiwanTechParenRow = [''companyId'' \<mapsto> JStr (ascii ''C8''), ''companyName'' \<mapsto> JStr taiwanTechParen]"

definition someUser :: obj where
  "someUser = [''displayName'' \<mapsto> JStr (ascii ''amy'')]"

definition announcementA1 :: obj where
  "announcementA1 = [''id'' \<mapsto> JStr (ascii ''A1''), ''title'' \<mapsto> JStr (ascii ''Notice'')]"

definition sqlAnnouncements :: "obj list \<Rightarrow> obj list \<Rightarrow> announcementService" where
  "sqlAnnouncements sqlRows sheetRows =
     \<lparr> announcementSqlReader = Some (Returns (Rows sqlRows)),
       announcementReader = Returns (Rows sheetRows),
       announcementWriterUpdate = Returns (ObjResult [''success'' \<mapsto> JBool True]),
       announcementWriterDelete = Returns (ObjResult [''success'' \<mapsto> JBool True]) \<rparr>"

definition eventE1 :: obj where
  "eventE1 = [''eventId'' \<mapsto> JStr (ascii ''E1''), ''eventType'' \<mapsto> JStr (ascii ''Meeting''),
              ''rowIndex'' \<mapsto> JNum (Finite 5),
              ''createdTime'' \<mapsto> JStr (ascii ''2026-01-01T00:00:00Z'')]"

definition sheetEvents :: "obj list \<Rightarrow> eventLogService" where
  "sheetEvents logs =
     \<lparr> eventLogSqlReader = None, eventReader = Returns (Rows logs),
       oppReader = Returns (Rows []), eventCompanyReader = Returns (Rows []),
       eventWriterDelete = Returns (ObjResult [''success'' \<mapsto> JBool True]),
       eventWriterCreate = Returns (ObjResult [''success'' \<mapsto> JBool True]),
       eventWriterUpdate = Returns (ObjResult [''success'' \<mapsto> JBool True]) \<rparr>"

definition sheetEventsWith :: "obj list \<Rightarrow> result reply \<Rightarrow> result reply \<Rightarrow> eventLogService" where
  "sheetEventsWith logs deleted created =
     \<lparr> eventLogSqlReader = None, eventReader = Returns (Rows logs),
       oppReader = Returns (Rows []), eventCompanyReader = Returns (Rows []),
       eventWriterDelete = deleted, eventWriterCreate = created,
       eventWriterUpdate = Returns (ObjResult [''success'' \<mapsto> JBool True]) \<rparr>"

definition toCall :: obj where
  "toCall = [''eventType'' \<mapsto> JStr (ascii ''Call'')]"

definition misaddressed :: obj where
  "misaddressed = [''eventId'' \<mapsto> JStr (ascii ''E1''), ''eventType'' \<mapsto> JStr (ascii ''Call'')]"

definition sheetCompanyRow :: obj where
  "sheetCompanyRow = [''companyId'' \<mapsto> JStr (ascii ''C1''), ''companyName'' \<mapsto> JStr (ascii ''Acme''),
                      ''rowIndex'' \<mapsto> JNum (Finite 2)]"

definition sqlCompanyRow :: obj where
  "sqlCompanyRow = [''company_id'' \<mapsto> JStr (ascii ''C1''), ''company_name'' \<mapsto> JStr (ascii ''Acme'')]"

definition companiesWith :: "rows reply \<Rightarrow> rows reply \<Rightarrow> companyService" where
  "companiesWith sql sheet =
     \<lparr> companySqlReader = Some sql, companyReader = sheet,
       companyReaderInvalidateCache = True,
       companySqlWriter = Some (Returns (ObjResult [''success'' \<mapsto> JBool True])) \<rparr>"

definition eventsWith :: "rows reply \<Rightarrow> rows reply \<Rightarrow> eventLogService" where
  "eventsWith sql sheet =
     \<lparr> eventLogSqlReader = Some sql, eventReader = sheet,
       oppReader = Returns (Rows []), eventCompanyReader = Returns (Rows []),
       eventWriterDelete = Returns (ObjResult [''success'' \<mapsto> JBool True]),
       eventWriterCreate = Returns (ObjResult [''success'' \<mapsto> JBool True]),
       eventWriterUpdate = Returns (ObjResult [''success'' \<mapsto> JBool True]) \<rparr>"

definition opportunitiesWith :: "rows reply \<Rightarrow> rows reply \<Rightarrow> opportunityService" where
  "opportunitiesWith sql sheet =
     \<lparr> opportunitySqlReader = Some sql, opportunityReader = sheet,
       opportunityReaderInvalidateCache = True,
       systemReader = Returns \<lparr> opportunityStages = [], teamMembers = [] \<rparr>,
       opportunityWriterUpdate = Returns (ObjResult [''success'' \<mapsto> JBool True]),
       opportunityWriterDelete = Returns (ObjResult [''success'' \<mapsto> JBool True]),
       opportunityCompanyReader = Returns (Rows []) \<rparr>"

definition announcementRow3 :: obj where
  "announcementRow3 = [''id'' \<mapsto> JStr (ascii ''A1''), ''rowIndex'' \<mapsto> JNum (Finite 3)]"

definition opportunityRow4 :: obj where
  "opportunityRow4 = [''opportunityId'' \<mapsto> JStr (ascii ''O1''), ''rowIndex'' \<mapsto> JNum (Finite 4)]"

definition announcementRow7 :: obj where
  "announcementRow7 = [''id'' \<mapsto> JStr (ascii ''A1''), ''rowIndex'' \<mapsto> JNum (Finite 7)]"

definition linkNoStatus :: obj where
  "linkNoStatus = [''opportunityId'' \<mapsto> JStr (ascii ''O1''), ''contactId'' \<mapsto> JStr (ascii ''P1'')]"

definition linkActive :: obj where
  "linkActive = [''opportunityId'' \<mapsto> JStr (ascii ''O1''), ''contactId'' \<mapsto> JStr (ascii ''P1''),
                 ''status'' \<mapsto> JStr (ascii ''active'')]"

definition contactP1 :: obj where
  "contactP1 = [''contactId'' \<mapsto> JStr (ascii ''P1''), ''name'' \<mapsto> JStr (ascii ''Ann''),
                ''companyId'' \<mapsto> JStr (ascii ''C1'')]"

definition contactsWithLinks :: "obj list \<Rightarrow> contactService" where
  "contactsWithLinks links =
     \<lparr> contactSqlReader = None,
       contactCoreReader =
         Some \<lparr> getContactList = Returns (Rows [contactP1]),
                getAllOppContactLinks = Returns (Rows links) \<rparr>,
       contactRawReader = Some (Returns (Rows [])),
       contactCompanyReader = Returns (Rows []) \<rparr>"

section \<open>Normalisation\<close>

lemma or_js_falsy: "\<not> truthy b \<Longrightarrow> or_js (or_js a b) c = or_js a c"
  by (simp add: or_js_def)

lemma or_js_absorb: "or_js (or_js a (JStr [])) (JStr []) = or_js a (JStr [])"
  by (simp add: or_js_def)

lemma serviceDTO_alias:
  "field (serviceDTO raw) ''company_id'' = JUndefined"
  "field (serviceDTO raw) ''company_name'' = JUndefined"
  "field (serviceDTO raw) ''city'' = JUndefined"
  "field (serviceDTO raw) ''description'' = JUndefined"
  "field (serviceDTO raw) ''company_type'' = JUndefined"
  "field (serviceDTO raw) ''customer_stage'' = JUndefined"
  "field (serviceDTO raw) ''interactionRating'' = JUndefined"
  "field (serviceDTO raw) ''created_time'' = JUndefined"
  "field (serviceDTO raw) ''updatedTime'' = JUndefined"
  "field (serviceDTO raw) ''updated_time'' = JUndefined"
  "field (serviceDTO raw) ''createdBy'' = JUndefined"
  "field (serviceDTO raw) ''created_by'' = JUndefined"
  "field (serviceDTO raw) ''updatedBy'' = JUndefined"
  "field (serviceDTO raw) ''updated_by'' = JUndefined"
  by (simp_all add: serviceDTO_def field_def)

lemma serviceDTO_canonical:
  "field (serviceDTO raw) ''companyId'' =
     or_js (or_js (field raw ''companyId'') (field raw ''company_id'')) (JStr [])"
  "field (serviceDTO raw) ''companyName'' =
     or_js (or_js (field raw ''companyName'') (field raw ''company_name'')) (JStr [])"
  "field (serviceDTO raw) ''phone'' = or_js (field raw ''phone'') (JStr [])"
  "field (serviceDTO raw) ''address'' = or_js (field raw ''address'') (JStr [])"
  "field (serviceDTO raw) ''county'' =
     or_js (or_js (field raw ''county'') (field raw ''city'')) (JStr [])"
  "field (serviceDTO raw) ''introduction'' =
     or_js (or_js (field raw ''introduction'') (field raw ''description'')) (JStr [])"
  "field (serviceDTO raw) ''companyType'' =
     or_js (or_js (field raw ''companyType'') (field raw ''company_type'')) (JStr [])"
  "field (serviceDTO raw) ''customerStage'' =
     or_js (or_js (field raw ''customerStage'') (field raw ''customer_stage'')) (JStr [])"
  "field (serviceDTO raw) ''engagementRating'' =
     or_js (or_js (field raw ''engagementRating'') (field raw ''interactionRating'')) (JStr [])"
  "field (serviceDTO raw) ''createdTime'' =
     or_js (or_js (field raw ''createdTime'') (field raw ''created_time'')) (JStr [])"
  "field (serviceDTO raw) ''lastUpdateTime'' =
     or_js (or_js (or_js (field raw ''lastUpdateTime'') (field raw ''updatedTime''))
              (field raw ''updated_time'')) (JStr [])"
  "field (serviceDTO raw) ''creator'' =
     or_js (or_js (or_js (field raw ''creator'') (field raw ''createdBy''))
              (field raw ''created_by'')) (JStr [])"
  "field (serviceDTO raw) ''lastModifier'' =
     or_js (or_js (or_js (field raw ''lastModifier'') (field raw ''updatedBy''))
              (field raw ''updated_by'')) (JStr [])"
  "field (serviceDTO raw) ''rowIndex'' = field raw ''rowIndex''"
  by (simp_all add: serviceDTO_def field_def)

lemma serviceDTO_idem: "serviceDTO (serviceDTO raw) = serviceDTO raw"
proof -
  have f: "\<not> truthy JUndefined" by simp
  show ?thesis
    unfolding serviceDTO_def [of "serviceDTO raw"] serviceDTO_alias serviceDTO_canonical
      or_js_falsy [OF f] or_js_absorb
    by (simp add: serviceDTO_def)
qed

lemma trim_idem: "trim (trim s) = trim s"
proof -
  have b: "dropWhile isWhiteSpace (rev (dropWhile isWhiteSpace (rev ys))) =
             rev (dropWhile isWhiteSpace (rev ys))" if "dropWhile isWhiteSpace ys = ys" for ys
  proof (cases ys)
    case Nil
    then show ?thesis by simp
  next
    case (Cons y ys')
    with that have ny: "\<not> isWhiteSpace y"
      by (metis dropWhile_eq_Cons_conv)
    have "rev ys = rev ys' @ [y]" using Cons by simp
    then have "dropWhile isWhiteSpace (rev ys) = dropWhile isWhiteSpace (rev ys') @ [y] \<or>
               dropWhile isWhiteSpace (rev ys) = [y]"
      using ny by (simp add: dropWhile_append)
    then show ?thesis using ny by auto
  qed
  show ?thesis
    unfolding trim_def using b [of "dropWhile isWhiteSpace s"] by simp
qed

lemma trim_normalizeString: "trim (normalizeString rt s) = normalizeString rt s"
  by (simp add: normalizeString_def trim_idem)

lemma trim_Nil: "trim [] = []"
  by (simp add: trim_def)

lemma normalizeCompanyName_trimmed:
  "normalizeCompanyName rt name = Inr y \<Longrightarrow> trim y = y"
  by (auto simp: normalizeCompanyName_def trim_Nil trim_normalizeString
           split: if_splits jsval.splits)

lemmas normalize_eval =
  normalizeCompanyName_def normalizeString_def exampleRuntime_def lowerAscii_def trim_def
  isWhiteSpace_def suffixLimitedByShares_def suffixLimited_def suffixCompany_def
  isLineTerminator_def parenMatchLength_def

text \<open>
  Claim C7, as amended. The record-level mapping \<open>_toServiceDTO\<close> is idempotent on every
  raw row (and on a null row). The company-name normalisation is idempotent at every name
  whose normalised form is unchanged by lower-casing, by the removal of the legal-entity
  suffixes and by the removal of parenthesised text.
\<close>

theorem normalize_idempotent:
  "toServiceDTO (toServiceDTO raw) = toServiceDTO raw \<and>
   (normalizeCompanyName rt name = Inr y \<and> toLowerCase rt y = y \<and>
      removeSuffixes y = y \<and> removeParens y = y
    \<longrightarrow> normalizeCompanyName rt (JStr y) = Inr y)"
proof (intro conjI impI)
  show "toServiceDTO (toServiceDTO raw) = toServiceDTO raw"
    by (cases raw) (simp_all add: toServiceDTO_def serviceDTO_idem)
next
  assume a: "normalizeCompanyName rt name = Inr y \<and> toLowerCase rt y = y \<and>
      removeSuffixes y = y \<and> removeParens y = y"
  then have t: "trim y = y"
    using normalizeCompanyName_trimmed by blast
  show "normalizeCompanyName rt (JStr y) = Inr y"
  proof (cases "y = []")
    case True
    then show ?thesis by (simp add: normalizeCompanyName_def)
  next
    case False
    then show ?thesis
      using a t by (simp add: normalizeCompanyName_def normalizeString_def)
  qed
qed

theorem normalize_idempotent_witness:
  "toServiceDTO (toServiceDTO (Some [''company_name'' \<mapsto> JStr taiwanTechLtd])) =
     toServiceDTO (Some [''company_name'' \<mapsto> JStr taiwanTechLtd]) \<and>
   normalizeCompanyName exampleRuntime (JStr taiwanTechLtd) = Inr taiwanTech \<and>
   normalizeCompanyName exampleRuntime (JStr taiwanTech) = Inr taiwanTech"
proof -
  have h: "normalizeCompanyName exampleRuntime (JStr taiwanTechLtd) = Inr taiwanTech \<and>
      toLowerCase exampleRuntime taiwanTech = taiwanTech \<and>
      removeSuffixes taiwanTech = taiwanTech \<and> removeParens taiwanTech = taiwanTech"
    by (simp add: normalize_eval taiwanTechLtd_def taiwanTech_def)
  show ?thesis
    using h normalize_idempotent [of "Some [''company_name'' \<mapsto> JStr taiwanTechLtd]"
        exampleRuntime "JStr taiwanTechLtd" taiwanTech]
    by blast
qed

text \<open>
  In general the name normalisation is not idempotent: removing a suffix can bring the two
  halves of another suffix together. The name is \<open>U+516C U+516C U+53F8 U+53F8\<close>.
\<close>

theorem normalizeCompanyName_not_idempotent:
  "normalizeCompanyName exampleRuntime (JStr [20844, 20844, 21496, 21496]) = Inr [20844, 21496] \<and>
   normalizeCompanyName exampleRuntime (JStr [20844, 21496]) \<noteq> Inr [20844, 21496]"
  by (simp add: normalize_eval)

section \<open>Lookup by name and duplicate creation\<close>

lemmas effect_defs = pureE_def throwE_def liftE_def callOut_def andThen_def

lemma getAllCompanies_sheetOnly:
  "getAllCompanies (sheetOnlyCompanies xs) = ([SheetGetCompanyList], Inr (map serviceDTO xs))"
  by (simp add: getAllCompanies_def sqlCompanies_def sheetOnlyCompanies_def effect_defs)

text \<open>
  Claim C8, as amended. Two non-empty names with the same normalised form give the same
  lookup: the same calls and the same outcome. The names \<open>taiwanTechLtd\<close> and
  \<open>taiwanTechParen\<close> both normalise to \<open>taiwanTech\<close>, and a company stored under the
  first is found under the second.
\<close>

theorem lookup_by_equivalent_names:
  "(n1 \<noteq> [] \<and> n2 \<noteq> [] \<and>
      normalizeCompanyName rt (JStr n1) = normalizeCompanyName rt (JStr n2)
    \<longrightarrow> getCompanyByName rt svc n1 = getCompanyByName rt svc n2) \<and>
   normalizeCompanyName exampleRuntime (JStr taiwanTechLtd) = Inr taiwanTech \<and>
   normalizeCompanyName exampleRuntime (JStr taiwanTechParen) = Inr taiwanTech \<and>
   (field c ''companyName'' = JStr taiwanTechLtd
    \<longrightarrow> getCompanyByName exampleRuntime (sheetOnlyCompanies [c]) taiwanTechParen =
          ([SheetGetCompanyList], Inr (Some (serviceDTO c))))"
proof (intro conjI impI)
  assume "n1 \<noteq> [] \<and> n2 \<noteq> [] \<and>
      normalizeCompanyName rt (JStr n1) = normalizeCompanyName rt (JStr n2)"
  then show "getCompanyByName rt svc n1 = getCompanyByName rt svc n2"
    by (simp add: getCompanyByName_def)
next
  show l: "normalizeCompanyName exampleRuntime (JStr taiwanTechLtd) = Inr taiwanTech"
    by (simp add: normalize_eval taiwanTechLtd_def taiwanTech_def)
  show p: "normalizeCompanyName exampleRuntime (JStr taiwanTechParen) = Inr taiwanTech"
    by (simp add: normalize_eval taiwanTechParen_def taiwanTech_def)
  assume c: "field c ''companyName'' = JStr taiwanTechLtd"
  have ne: "taiwanTechParen \<noteq> []"
    by (simp add: taiwanTechParen_def)
  have dto: "field (serviceDTO c) ''companyName'' = JStr taiwanTechLtd"
    using c by (simp add: serviceDTO_canonical or_js_def taiwanTechLtd_def)
  show "getCompanyByName exampleRuntime (sheetOnlyCompanies [c]) taiwanTechParen =
          ([SheetGetCompanyList], Inr (Some (serviceDTO c)))"
    using ne by (simp add: getCompanyByName_def getAllCompanies_sheetOnly p l dto
        sameNormalizedName_def effect_defs)
qed

theorem lookup_by_equivalent_names_witness:
  "getCompanyByName exampleRuntime
      (sheetOnlyCompanies [[''companyName'' \<mapsto> JStr taiwanTechLtd]]) taiwanTechLtd =
   getCompanyByName exampleRuntime
      (sheetOnlyCompanies [[''companyName'' \<mapsto> JStr taiwanTechLtd]]) taiwanTechParen \<and>
   getCompanyByName exampleRuntime
      (sheetOnlyCompanies [[''companyName'' \<mapsto> JStr taiwanTechLtd]]) taiwanTechParen =
     ([SheetGetCompanyList], Inr (Some (serviceDTO [''companyName'' \<mapsto> JStr taiwanTechLtd])))"
proof -
  let ?c = "[''companyName'' \<mapsto> JStr taiwanTechLtd]"
  have n: "taiwanTechLtd \<noteq> [] \<and> taiwanTechParen \<noteq> []"
    by (simp add: taiwanTechLtd_def taiwanTechParen_def)
  have f: "field ?c ''companyName'' = JStr taiwanTechLtd"
    by (simp add: field_def)
  show ?thesis
    using n f lookup_by_equivalent_names [of taiwanTechLtd taiwanTechParen exampleRuntime
        "sheetOnlyCompanies [?c]" ?c]
    by simp
qed

text \<open>
  The empty name is not looked up at all: it normalises to the empty string, as the name
  \<open>U+516C U+53F8\<close> does, and yet finds nothing where that name finds a company.
\<close>

theorem lookup_empty_name_differs:
  "normalizeCompanyName exampleRuntime (JStr []) =
     normalizeCompanyName exampleRuntime (JStr [20844, 21496]) \<and>
   getCompanyByName exampleRuntime (sheetOnlyCompanies [companyNamedCompany]) [] = ([], Inr None) \<and>
   getCompanyByName exampleRuntime (sheetOnlyCompanies [companyNamedCompany]) [20844, 21496] =
     ([SheetGetCompanyList], Inr (Some (serviceDTO companyNamedCompany)))"
proof -
  have e: "normalizeCompanyName exampleRuntime (JStr []) = Inr []"
    by (simp add: normalizeCompanyName_def)
  have k: "normalizeCompanyName exampleRuntime (JStr [20844, 21496]) = Inr []"
    by (simp add: normalize_eval)
  have fs: "field companyNamedCompany ''companyName'' = JStr [20844, 21496]"
    by (simp add: field_def companyNamedCompany_def)
  have dto: "field (serviceDTO companyNamedCompany) ''companyName'' = JStr [20844, 21496]"
    by (simp add: serviceDTO_canonical or_js_def fs)
  show ?thesis
    by (simp add: e k getCompanyByName_def getAllCompanies_sheetOnly dto
        sameNormalizedName_def effect_defs)
qed

lemma getAllCompanies_reads: "getAllCompanies svc = (t, r) \<Longrightarrow> \<not> list_ex isWriteCall t"
  by (auto simp: getAllCompanies_def sqlCompanies_def effect_defs
           split: option.splits reply.splits rows.splits if_splits sum.splits)

lemma getAllCompanies_calls:
  "getAllCompanies svc = (t, r) \<Longrightarrow> set t \<subseteq> {SqlGetCompanies, SheetGetCompanyList}"
  by (auto simp: getAllCompanies_def sqlCompanies_def effect_defs
           split: option.splits reply.splits rows.splits if_splits sum.splits)

lemma normalizeCompanyName_cases:
  "normalizeCompanyName rt v = Inl TypeError \<or> (\<exists>n. normalizeCompanyName rt v = Inr n)"
  by (simp add: normalizeCompanyName_def split: jsval.splits)

lemma findFirst_first:
  assumes "\<forall>b\<in>set before. p b = Inr False" and "p x = Inr True"
  shows "findFirst p (before @ x # after) = Inr (Some x)"
  using assms by (induction before) simp_all

text \<open>
  Claim C10, as amended. Creating a company under a non-empty name whose normalised form
  is that of a company of the list the read serves (company names being strings) returns
  the object built for the first such company of that list, the one that no company with
  the same normalised name precedes, with \<open>existed: true\<close>, its id, its name and its data;
  the only calls made are those of the read of the lookup, to the SQL reader and the sheet
  reader, so nothing is written and no cache is invalidated.
\<close>

theorem createCompany_existing:
  assumes "companyName \<noteq> []"
    and "getAllCompanies svc = (t, Inr companies)"
    and "\<forall>c\<in>set companies. normalizeCompanyName rt (field c ''companyName'') \<noteq> Inl TypeError"
    and "\<exists>c\<in>set companies.
           normalizeCompanyName rt (field c ''companyName'') =
           normalizeCompanyName rt (JStr companyName)"
  shows "\<exists>before existing after.
           companies = before @ existing # after \<and>
           (\<forall>b\<in>set before.
              normalizeCompanyName rt (field b ''companyName'') \<noteq>
              normalizeCompanyName rt (JStr companyName)) \<and>
           normalizeCompanyName rt (field existing ''companyName'') =
             normalizeCompanyName rt (JStr companyName) \<and>
           createCompany rt svc generatedId companyName companyData user =
             (t, Inr (Existed \<lparr> res_success = True, res_id = field existing ''companyId'',
                                 res_name = field existing ''companyName'',
                                 res_message = companyExistsMessage, res_existed = True,
                                 res_data = existing \<rparr>)) \<and>
           fst (createCompany rt svc generatedId companyName companyData user) =
             fst (getAllCompanies svc) \<and>
           set t \<subseteq> {SqlGetCompanies, SheetGetCompanyList} \<and>
           \<not> list_ex isWriteCall t"
proof -
  let ?target = "normalizeString rt companyName"
  let ?same = "\<lambda>c. normalizeCompanyName rt (field c ''companyName'') =
      normalizeCompanyName rt (JStr companyName)"
  have tgt: "normalizeCompanyName rt (JStr companyName) = Inr ?target"
    using assms(1) by (simp add: normalizeCompanyName_def)
  from split_list_first_prop [OF assms(4)] obtain before ex after where
    split: "companies = before @ ex # after" and same: "?same ex"
    and first: "\<forall>b\<in>set before. \<not> ?same b"
    by blast
  have a: "\<forall>b\<in>set before. sameNormalizedName rt ?target b = Inr False"
  proof
    fix b assume b: "b \<in> set before"
    with split assms(3) have "normalizeCompanyName rt (field b ''companyName'') \<noteq> Inl TypeError"
      by simp
    with normalizeCompanyName_cases [of rt "field b ''companyName''"] first b tgt
    show "sameNormalizedName rt ?target b = Inr False"
      by (auto simp: sameNormalizedName_def)
  qed
  have "sameNormalizedName rt ?target ex = Inr True"
    using same by (simp add: sameNormalizedName_def tgt)
  with a have found: "findFirst (sameNormalizedName rt ?target) companies = Inr (Some ex)"
    unfolding split by (simp add: findFirst_first)
  have look: "getCompanyByName rt svc companyName = (t, Inr (Some ex))"
    using assms(1,2) tgt found by (simp add: getCompanyByName_def effect_defs)
  have run: "createCompany rt svc generatedId companyName companyData user =
      (t, Inr (Existed \<lparr> res_success = True, res_id = field ex ''companyId'',
                          res_name = field ex ''companyName'',
                          res_message = companyExistsMessage, res_existed = True,
                          res_data = ex \<rparr>))"
    by (simp add: createCompany_def look effect_defs)
  then have calls: "fst (createCompany rt svc generatedId companyName companyData user) =
      fst (getAllCompanies svc)"
    by (simp add: assms(2))
  from split first same run calls getAllCompanies_calls [OF assms(2)]
    getAllCompanies_reads [OF assms(2)]
  show ?thesis
    by blast
qed

lemma serviceDTO_taiwanTechRow:
  "field (serviceDTO taiwanTechRow) ''companyName'' = JStr taiwanTechLtd"
  "field (serviceDTO taiwanTechRow) ''companyId'' = JStr (ascii ''C7'')"
proof -
  have fs: "field taiwanTechRow ''companyName'' = JStr taiwanTechLtd"
    "field taiwanTechRow ''companyId'' = JStr (ascii ''C7'')"
    by (simp_all add: field_def taiwanTechRow_def)
  show "field (serviceDTO taiwanTechRow) ''companyName'' = JStr taiwanTechLtd"
    "field (serviceDTO taiwanTechRow) ''companyId'' = JStr (ascii ''C7'')"
    by (simp_all add: serviceDTO_canonical or_js_def fs taiwanTechLtd_def ascii_def)
qed

lemma serviceDTO_taiwanTechParenRow:
  "field (serviceDTO taiwanTechParenRow) ''companyName'' = JStr taiwanTechParen"
  "field (serviceDTO taiwanTechParenRow) ''companyId'' = JStr (ascii ''C8'')"
proof -
  have fs: "field taiwanTechParenRow ''companyName'' = JStr taiwanTechParen"
    "field taiwanTechParenRow ''companyId'' = JStr (ascii ''C8'')"
    by (simp_all add: field_def taiwanTechParenRow_def)
  show "field (serviceDTO taiwanTechParenRow) ''companyName'' = JStr taiwanTechParen"
    "field (serviceDTO taiwanTechParenRow) ''companyId'' = JStr (ascii ''C8'')"
    by (simp_all add: serviceDTO_canonical or_js_def fs taiwanTechParen_def ascii_def)
qed

text \<open>
  Two stored companies have the normalised name of the requested one; the first of the
  list, \<open>C7\<close>, is the one returned, whichever of the two comes first.
\<close>

theorem createCompany_existing_witness:
  "createCompany exampleRuntime (sheetOnlyCompanies [taiwanTechRow, taiwanTechParenRow])
      (ascii ''COMP_1_1'') taiwanTechParen Map.empty someUser =
     ([SheetGetCompanyList],
      Inr (Existed \<lparr> res_success = True, res_id = JStr (ascii ''C7''),
                       res_name = JStr taiwanTechLtd,
                       res_message = companyExistsMessage, res_existed = True,
                       res_data = serviceDTO taiwanTechRow \<rparr>)) \<and>
   createCompany exampleRuntime (sheetOnlyCompanies [taiwanTechParenRow, taiwanTechRow])
      (ascii ''COMP_1_1'') taiwanTechParen Map.empty someUser =
     ([SheetGetCompanyList],
      Inr (Existed \<lparr> res_success = True, res_id = JStr (ascii ''C8''),
                       res_name = JStr taiwanTechParen,
                       res_message = companyExistsMessage, res_existed = True,
                       res_data = serviceDTO taiwanTechParenRow \<rparr>))"
proof -
  let ?a = "serviceDTO taiwanTechRow" and ?b = "serviceDTO taiwanTechParenRow"
  have l: "normalizeCompanyName exampleRuntime (JStr taiwanTechLtd) = Inr taiwanTech"
    by (simp add: normalize_eval taiwanTechLtd_def taiwanTech_def)
  have p: "normalizeCompanyName exampleRuntime (JStr taiwanTechParen) = Inr taiwanTech"
    by (simp add: normalize_eval taiwanTechParen_def taiwanTech_def)
  have 1: "taiwanTechParen \<noteq> []"
    by (simp add: taiwanTechParen_def)
  have same: "normalizeCompanyName exampleRuntime (field ?a ''companyName'') =
      normalizeCompanyName exampleRuntime (JStr taiwanTechParen)"
    "normalizeCompanyName exampleRuntime (field ?b ''companyName'') =
      normalizeCompanyName exampleRuntime (JStr taiwanTechParen)"
    by (simp_all add: serviceDTO_taiwanTechRow serviceDTO_taiwanTechParenRow l p)
  have 3: "\<forall>c\<in>set [x, y].
      normalizeCompanyName exampleRuntime (field c ''companyName'') \<noteq> Inl TypeError"
    if "x \<in> {?a, ?b}" "y \<in> {?a, ?b}" for x y
    using that same p by auto
  have 4: "\<exists>c\<in>set [x, y].
      normalizeCompanyName exampleRuntime (field c ''companyName'') =
      normalizeCompanyName exampleRuntime (JStr taiwanTechParen)"
    if "x \<in> {?a, ?b}" for x y
    using that same by auto
  have first: "before = [] \<and> existing = x"
    if "[x, y] = before @ existing # after"
      and "\<forall>b\<in>set before.
        normalizeCompanyName exampleRuntime (field b ''companyName'') \<noteq>
        normalizeCompanyName exampleRuntime (JStr taiwanTechParen)"
      and "normalizeCompanyName exampleRuntime (field x ''companyName'') =
        normalizeCompanyName exampleRuntime (JStr taiwanTechParen)"
    for x y :: obj and before existing after
    using that by (cases before) auto
  have 2: "getAllCompanies (sheetOnlyCompanies [taiwanTechRow, taiwanTechParenRow]) =
      ([SheetGetCompanyList], Inr [?a, ?b])"
    "getAllCompanies (sheetOnlyCompanies [taiwanTechParenRow, taiwanTechRow]) =
      ([SheetGetCompanyList], Inr [?b, ?a])"
    by (simp_all add: getAllCompanies_sheetOnly)
  from createCompany_existing [OF 1 2(1) 3 4, of "ascii ''COMP_1_1''" Map.empty someUser]
  have ab: "createCompany exampleRuntime (sheetOnlyCompanies [taiwanTechRow, taiwanTechParenRow])
      (ascii ''COMP_1_1'') taiwanTechParen Map.empty someUser =
     ([SheetGetCompanyList],
      Inr (Existed \<lparr> res_success = True, res_id = field ?a ''companyId'',
                       res_name = field ?a ''companyName'',
                       res_message = companyExistsMessage, res_existed = True,
                       res_data = ?a \<rparr>))"
    using first [OF _ _ same(1)] by fastforce
  from createCompany_existing [OF 1 2(2) 3 4, of "ascii ''COMP_1_1''" Map.empty someUser]
  have ba: "createCompany exampleRuntime (sheetOnlyCompanies [taiwanTechParenRow, taiwanTechRow])
      (ascii ''COMP_1_1'') taiwanTechParen Map.empty someUser =
     ([SheetGetCompanyList],
      Inr (Existed \<lparr> res_success = True, res_id = field ?b ''companyId'',
                       res_name = field ?b ''companyName'',
                       res_message = companyExistsMessage, res_existed = True,
                       res_data = ?b \<rparr>))"
    using first [OF _ _ same(2)] by fastforce
  show ?thesis
    using ab ba by (simp add: serviceDTO_taiwanTechRow serviceDTO_taiwanTechParenRow)
qed

text \<open>
  Under the empty name the duplicate check is skipped and the company is written, although
  the empty name normalises to the same value as the name of a stored company.
\<close>

theorem createCompany_empty_name_creates:
  "normalizeCompanyName exampleRuntime (JStr []) =
     normalizeCompanyName exampleRuntime (field (serviceDTO companyNamedCompany) ''companyName'') \<and>
   createCompany exampleRuntime (sheetOnlyCompanies [companyNamedCompany]) (ascii ''COMP_1_1'')
      [] Map.empty someUser =
     ([SqlCreateCompany [''companyId'' \<mapsto> JStr (ascii ''COMP_1_1''), ''companyName'' \<mapsto> JStr []]
         (ActorName (JStr (ascii ''amy''))),
       InvalidateCache ''companyList''],
      Inr (Written (ObjResult [''success'' \<mapsto> JBool True])))"
proof -
  have e: "normalizeCompanyName exampleRuntime (JStr []) = Inr []"
    by (simp add: normalizeCompanyName_def)
  have k: "normalizeCompanyName exampleRuntime (JStr [20844, 21496]) = Inr []"
    by (simp add: normalize_eval)
  have fs: "field companyNamedCompany ''companyName'' = JStr [20844, 21496]"
    by (simp add: field_def companyNamedCompany_def)
  have dto: "field (serviceDTO companyNamedCompany) ''companyName'' = JStr [20844, 21496]"
    by (simp add: serviceDTO_canonical or_js_def fs)
  have m: "companyModifier someUser = ActorName (JStr (ascii ''amy''))"
    by (simp add: companyModifier_def someUser_def field_def ascii_def)
  have look: "getCompanyByName exampleRuntime (sheetOnlyCompanies [companyNamedCompany]) [] =
      ([], Inr None)"
    by (simp add: getCompanyByName_def effect_defs)
  have w: "companySqlWriter (sheetOnlyCompanies [companyNamedCompany]) =
      Some (Returns (ObjResult [''success'' \<mapsto> JBool True]))"
    "companyReaderInvalidateCache (sheetOnlyCompanies [companyNamedCompany])"
    by (simp_all add: sheetOnlyCompanies_def)
  show ?thesis
    by (simp add: e k dto createCompany_def look m invalidateCompanyList_def w effect_defs)
qed

section \<open>Write protection of announcements\<close>

lemma fetchInternal_reads: "fetchInternal svc = (t, r) \<Longrightarrow> \<not> list_ex isWriteCall t"
  by (auto simp: fetchInternal_def effect_defs split: option.splits reply.splits)

text \<open>
  Claim C3. An announcement that the lookup finds and whose \<open>rowIndex\<close> is absent (or
  otherwise falsy) makes both the update and the delete throw their Forbidden error; the
  calls made are those of the lookup, none of them a write.
\<close>

theorem announcement_write_protection:
  assumes "fetchInternal svc = (t, Inr (Rows anns))"
    and "find (\<lambda>a. strictEq (field a ''id'') ident) anns = Some target"
    and "\<not> truthy (field target ''rowIndex'')"
  shows "updateAnnouncement svc ident data user = (t, Inl ForbiddenUpdate) \<and>
         deleteAnnouncement svc ident = (t, Inl ForbiddenDelete) \<and>
         \<not> list_ex isWriteCall t"
  using assms fetchInternal_reads [OF assms(1)]
  by (simp add: updateAnnouncement_def deleteAnnouncement_def findInRows_def effect_defs)

lemma fetchInternal_sql:
  "fetchInternal (sqlAnnouncements xs ys) = ([SqlGetAnnouncements], Inr (Rows xs))"
  by (simp add: fetchInternal_def sqlAnnouncements_def)

lemma announcementA1_fields:
  "field announcementA1 ''id'' = JStr (ascii ''A1'')"
  "field announcementA1 ''rowIndex'' = JUndefined"
  by (simp_all add: announcementA1_def field_def)

theorem announcement_write_protection_witness:
  "updateAnnouncement (sqlAnnouncements [announcementA1] []) (JStr (ascii ''A1'')) Map.empty someUser =
     ([SqlGetAnnouncements], Inl ForbiddenUpdate) \<and>
   deleteAnnouncement (sqlAnnouncements [announcementA1] []) (JStr (ascii ''A1'')) =
     ([SqlGetAnnouncements], Inl ForbiddenDelete) \<and>
   \<not> list_ex isWriteCall [SqlGetAnnouncements]"
proof -
  have 2: "find (\<lambda>a. strictEq (field a ''id'') (JStr (ascii ''A1''))) [announcementA1] =
      Some announcementA1"
    by (simp add: announcementA1_fields)
  have 3: "\<not> truthy (field announcementA1 ''rowIndex'')"
    by (simp add: announcementA1_fields)
  show ?thesis
    using announcement_write_protection [OF fetchInternal_sql 2 3] by simp
qed

section \<open>Event log update: move and resolution of the original\<close>

lemma strictEq_truthy: "truthy a \<Longrightarrow> strictEq a b = (a = b)"
  by (cases a rule: truthy.cases) simp_all

lemma movePayload_eventId: "field (movePayload d orig) ''eventId'' = field orig ''eventId''"
  by (simp add: movePayload_def field_def Let_def)

lemma movePayload_createdTime:
  "\<not> truthy (field d ''createdTime'') \<Longrightarrow> truthy (field orig ''createdTime'') \<Longrightarrow>
   field (movePayload d orig) ''createdTime'' = field orig ''createdTime''"
  by (simp add: movePayload_def field_def Let_def)

lemma markMoved_flag: "\<exists>r. markMoved r2 = ObjResult r \<and> field r ''moved'' = JBool True"
  by (cases r2) (simp_all add: markMoved_def field_def)

lemma find_in_set: "find P xs = Some x \<Longrightarrow> x \<in> set xs \<and> P x"
  by (auto simp: find_Some_iff)

lemma locateOriginal_in_logs:
  "locateOriginal rt logs x data = Inr (Some l) \<Longrightarrow> \<exists>xs. logs = Rows xs \<and> l \<in> set xs"
  by (cases logs)
     (auto simp: locateOriginal_def findInRows_def Let_def
           split: if_splits sum.splits option.splits dest: find_in_set)

lemma findInRows_find:
  "findInRows P rs = Inr (Some x) \<Longrightarrow> \<exists>xs. rs = Rows xs \<and> find P xs = Some x"
  by (cases rs) (simp_all add: findInRows_def)

lemma resolveRowIndex_source:
  assumes "resolveRowIndex rt logs x = Inr n"
  shows "isInteger n \<and>
         (if isString x \<and> isNaN (toNumber rt x)
          then \<exists>xs l. logs = Rows xs \<and> find (\<lambda>l. strictEq (field l ''eventId'') x) xs = Some l \<and>
                 truthy (field l ''rowIndex'') \<and> n = toNumber rt (field l ''rowIndex'')
          else n = toNumber rt x)"
  using assms
  by (auto simp: resolveRowIndex_def Let_def
      split: if_splits sum.splits option.splits dest!: findInRows_find)

lemma movePayload_id: "field (movePayload d orig) ''id'' = field orig ''eventId''"
  by (simp add: movePayload_def field_def Let_def)

lemma movePayload_other:
  "k \<noteq> ''eventId'' \<Longrightarrow> k \<noteq> ''id'' \<Longrightarrow> k \<noteq> ''createdTime'' \<Longrightarrow>
   field (movePayload d orig) k = field d k"
  by (simp add: movePayload_def field_def Let_def)

lemma movePayload_keeps_createdTime:
  "truthy (field d ''createdTime'') \<or> \<not> truthy (field orig ''createdTime'') \<Longrightarrow>
   field (movePayload d orig) ''createdTime'' = field d ''createdTime''"
  by (auto simp: movePayload_def field_def Let_def)

lemma updateEventLog_move_eq:
  assumes "eventReader svc = Returns (Rows logs)"
    and "locateOriginal rt (Rows logs) idOrRowIndex (Some d) = Inr (Some orig)"
    and "resolveRowIndex rt (Rows logs) idOrRowIndex = Inr n"
    and "isMove orig d"
  shows "updateEventLog rt svc idOrRowIndex (Some d) modifier =
         andThen ([SheetGetEventLogs], Inr ()) (\<lambda>_. moveEvent svc orig d modifier)"
  using assms by (simp add: updateEventLog_def effect_defs)

text \<open>
  Claim C2, as amended. When the original event is found (by the id in the data first, by
  row index otherwise), the first argument resolves to an integer row index, both event
  types are non-empty and they differ, the update reads the sheet's logs and deletes the
  original row under the original event type and row index. If the delete returns, it
  creates a record that is the update data with the original's event id and, when the
  data has no createdTime and the original has one, the original's createdTime. If the
  create returns too, the cache is invalidated and the result carries \<open>moved: true\<close>.
  An error thrown by the store's delete is the outcome of the update, and nothing is
  created; an error thrown by the store's create, after the delete returned, is the
  outcome too, and no cache is invalidated. The other properties of the new record are
  those of the update data (its createdTime too, in every other case), and its \<open>id\<close> is
  the original's event id. The original is one
  of the sheet's logs; the row index that the first argument resolves to is its number
  or, when it is a string that is not a number, the number of the truthy \<open>rowIndex\<close> of
  the first log with that event id.
\<close>

theorem updateEventLog_move:
  assumes "eventReader svc = Returns (Rows logs)"
    and "locateOriginal rt (Rows logs) idOrRowIndex (Some d) = Inr (Some orig)"
    and "resolveRowIndex rt (Rows logs) idOrRowIndex = Inr n"
    and "truthy (field orig ''eventType'')"
    and "truthy (field d ''eventType'')"
    and "field d ''eventType'' \<noteq> field orig ''eventType''"
  shows "take 2 (fst (updateEventLog rt svc idOrRowIndex (Some d) modifier)) =
           [SheetGetEventLogs,
            WriterDeleteEventLog (field orig ''rowIndex'') (field orig ''eventType'')] \<and>
         (\<forall>r1. eventWriterDelete svc = Returns r1 \<longrightarrow>
            take 3 (fst (updateEventLog rt svc idOrRowIndex (Some d) modifier)) =
              [SheetGetEventLogs,
               WriterDeleteEventLog (field orig ''rowIndex'') (field orig ''eventType''),
               WriterCreateEventLog (movePayload d orig) modifier]) \<and>
         field (movePayload d orig) ''eventId'' = field orig ''eventId'' \<and>
         (\<not> truthy (field d ''createdTime'') \<and> truthy (field orig ''createdTime'') \<longrightarrow>
            field (movePayload d orig) ''createdTime'' = field orig ''createdTime'') \<and>
         field (movePayload d orig) ''id'' = field orig ''eventId'' \<and>
         (truthy (field d ''createdTime'') \<or> \<not> truthy (field orig ''createdTime'') \<longrightarrow>
            field (movePayload d orig) ''createdTime'' = field d ''createdTime'') \<and>
         (\<forall>k. k \<noteq> ''eventId'' \<and> k \<noteq> ''id'' \<and> k \<noteq> ''createdTime'' \<longrightarrow>
            field (movePayload d orig) k = field d k) \<and>
         orig \<in> set logs \<and> isInteger n \<and>
         (if isString idOrRowIndex \<and> isNaN (toNumber rt idOrRowIndex)
          then \<exists>l. find (\<lambda>l. strictEq (field l ''eventId'') idOrRowIndex) logs = Some l \<and>
                 truthy (field l ''rowIndex'') \<and> n = toNumber rt (field l ''rowIndex'')
          else n = toNumber rt idOrRowIndex) \<and>
         (\<forall>r1 r2. eventWriterDelete svc = Returns r1 \<and> eventWriterCreate svc = Returns r2 \<longrightarrow>
            updateEventLog rt svc idOrRowIndex (Some d) modifier =
              ([SheetGetEventLogs,
                WriterDeleteEventLog (field orig ''rowIndex'') (field orig ''eventType''),
                WriterCreateEventLog (movePayload d orig) modifier,
                InvalidateEventCache],
               Inr (markMoved r2)) \<and>
            (\<exists>r. markMoved r2 = ObjResult r \<and> field r ''moved'' = JBool True)) \<and>
         (\<forall>e. eventWriterDelete svc = Throws e \<longrightarrow>
            updateEventLog rt svc idOrRowIndex (Some d) modifier =
              ([SheetGetEventLogs,
                WriterDeleteEventLog (field orig ''rowIndex'') (field orig ''eventType'')],
               Inl e)) \<and>
         (\<forall>r1 e. eventWriterDelete svc = Returns r1 \<and> eventWriterCreate svc = Throws e \<longrightarrow>
            updateEventLog rt svc idOrRowIndex (Some d) modifier =
              ([SheetGetEventLogs,
                WriterDeleteEventLog (field orig ''rowIndex'') (field orig ''eventType''),
                WriterCreateEventLog (movePayload d orig) modifier],
               Inl e))"
proof -
  have mv: "isMove orig d"
    using assms(4-6) by (simp add: isMove_def strictEq_truthy)
  note eq = updateEventLog_move_eq [OF assms(1-3) mv, of modifier]
  have 1: "take 2 (fst (updateEventLog rt svc idOrRowIndex (Some d) modifier)) =
           [SheetGetEventLogs,
            WriterDeleteEventLog (field orig ''rowIndex'') (field orig ''eventType'')]"
    unfolding eq
    by (cases "eventWriterDelete svc"; cases "eventWriterCreate svc")
       (simp_all add: moveEvent_def invalidateEventCacheSafe_def effect_defs)
  have 2: "take 3 (fst (updateEventLog rt svc idOrRowIndex (Some d) modifier)) =
              [SheetGetEventLogs,
               WriterDeleteEventLog (field orig ''rowIndex'') (field orig ''eventType''),
               WriterCreateEventLog (movePayload d orig) modifier]"
    if "eventWriterDelete svc = Returns r1" for r1
    unfolding eq using that
    by (cases "eventWriterCreate svc")
       (simp_all add: moveEvent_def invalidateEventCacheSafe_def effect_defs)
  have 3: "updateEventLog rt svc idOrRowIndex (Some d) modifier =
              ([SheetGetEventLogs,
                WriterDeleteEventLog (field orig ''rowIndex'') (field orig ''eventType''),
                WriterCreateEventLog (movePayload d orig) modifier,
                InvalidateEventCache],
               Inr (markMoved r2))"
    if "eventWriterDelete svc = Returns r1" "eventWriterCreate svc = Returns r2" for r1 r2
    unfolding eq using that
    by (simp add: moveEvent_def invalidateEventCacheSafe_def effect_defs)
  have 4: "updateEventLog rt svc idOrRowIndex (Some d) modifier =
              ([SheetGetEventLogs,
                WriterDeleteEventLog (field orig ''rowIndex'') (field orig ''eventType'')],
               Inl e)"
    if "eventWriterDelete svc = Throws e" for e
    unfolding eq using that
    by (simp add: moveEvent_def effect_defs)
  have 5: "updateEventLog rt svc idOrRowIndex (Some d) modifier =
              ([SheetGetEventLogs,
                WriterDeleteEventLog (field orig ''rowIndex'') (field orig ''eventType''),
                WriterCreateEventLog (movePayload d orig) modifier],
               Inl e)"
    if "eventWriterDelete svc = Returns r1" "eventWriterCreate svc = Throws e" for r1 e
    unfolding eq using that
    by (simp add: moveEvent_def effect_defs)
  have moved: "\<forall>r1 r2. eventWriterDelete svc = Returns r1 \<and> eventWriterCreate svc = Returns r2 \<longrightarrow>
            updateEventLog rt svc idOrRowIndex (Some d) modifier =
              ([SheetGetEventLogs,
                WriterDeleteEventLog (field orig ''rowIndex'') (field orig ''eventType''),
                WriterCreateEventLog (movePayload d orig) modifier,
                InvalidateEventCache],
               Inr (markMoved r2)) \<and>
            (\<exists>r. markMoved r2 = ObjResult r \<and> field r ''moved'' = JBool True)"
    using 3 markMoved_flag by blast
  have created: "\<not> truthy (field d ''createdTime'') \<and> truthy (field orig ''createdTime'') \<longrightarrow>
            field (movePayload d orig) ''createdTime'' = field orig ''createdTime''"
    using movePayload_createdTime by blast
  have others: "\<forall>k. k \<noteq> ''eventId'' \<and> k \<noteq> ''id'' \<and> k \<noteq> ''createdTime'' \<longrightarrow>
            field (movePayload d orig) k = field d k"
    using movePayload_other by blast
  have kept: "truthy (field d ''createdTime'') \<or> \<not> truthy (field orig ''createdTime'') \<longrightarrow>
            field (movePayload d orig) ''createdTime'' = field d ''createdTime''"
    using movePayload_keeps_createdTime by blast
  have located: "orig \<in> set logs"
    using locateOriginal_in_logs [OF assms(2)] by simp
  have row: "isInteger n"
    "if isString idOrRowIndex \<and> isNaN (toNumber rt idOrRowIndex)
     then \<exists>l. find (\<lambda>l. strictEq (field l ''eventId'') idOrRowIndex) logs = Some l \<and>
            truthy (field l ''rowIndex'') \<and> n = toNumber rt (field l ''rowIndex'')
     else n = toNumber rt idOrRowIndex"
    using resolveRowIndex_source [OF assms(3)] by (auto split: if_splits)
  have moves: "take 2 (fst (updateEventLog rt svc idOrRowIndex (Some d) modifier)) =
           [SheetGetEventLogs,
            WriterDeleteEventLog (field orig ''rowIndex'') (field orig ''eventType'')] \<and>
         (\<forall>r1. eventWriterDelete svc = Returns r1 \<longrightarrow>
            take 3 (fst (updateEventLog rt svc idOrRowIndex (Some d) modifier)) =
              [SheetGetEventLogs,
               WriterDeleteEventLog (field orig ''rowIndex'') (field orig ''eventType''),
               WriterCreateEventLog (movePayload d orig) modifier])"
    using 1 2 by blast
  have fails: "(\<forall>e. eventWriterDelete svc = Throws e \<longrightarrow>
            updateEventLog rt svc idOrRowIndex (Some d) modifier =
              ([SheetGetEventLogs,
                WriterDeleteEventLog (field orig ''rowIndex'') (field orig ''eventType'')],
               Inl e)) \<and>
         (\<forall>r1 e. eventWriterDelete svc = Returns r1 \<and> eventWriterCreate svc = Throws e \<longrightarrow>
            updateEventLog rt svc idOrRowIndex (Some d) modifier =
              ([SheetGetEventLogs,
                WriterDeleteEventLog (field orig ''rowIndex'') (field orig ''eventType''),
                WriterCreateEventLog (movePayload d orig) modifier],
               Inl e))"
    using 4 5 by blast
  show ?thesis
    using moves movePayload_eventId [of d orig] created movePayload_id [of d orig] kept others
      located row moved fails
    by simp
qed

lemmas number_eval = exampleRuntime_def decimalNumber_def isDigits_def decimalValue_def ascii_def

lemma eventE1_fields:
  "field eventE1 ''eventId'' = JStr (ascii ''E1'')"
  "field eventE1 ''eventType'' = JStr (ascii ''Meeting'')"
  "field eventE1 ''rowIndex'' = JNum (Finite 5)"
  "field eventE1 ''createdTime'' = JStr (ascii ''2026-01-01T00:00:00Z'')"
  by (simp_all add: eventE1_def field_def)

lemma sheetEvents_simps:
  "eventReader (sheetEvents logs) = Returns (Rows logs)"
  "eventWriterDelete (sheetEvents logs) = Returns (ObjResult [''success'' \<mapsto> JBool True])"
  "eventWriterCreate (sheetEvents logs) = Returns (ObjResult [''success'' \<mapsto> JBool True])"
  "eventWriterUpdate (sheetEvents logs) = Returns (ObjResult [''success'' \<mapsto> JBool True])"
  by (simp_all add: sheetEvents_def)

lemma toCall_fields:
  "field toCall ''eventType'' = JStr (ascii ''Call'')"
  "field toCall ''eventId'' = JUndefined"
  "field toCall ''id'' = JUndefined"
  "field toCall ''createdTime'' = JUndefined"
  by (simp_all add: toCall_def field_def)

lemma sheetEventsWith_simps:
  "eventReader (sheetEventsWith logs deleted created) = Returns (Rows logs)"
  "eventWriterDelete (sheetEventsWith logs deleted created) = deleted"
  "eventWriterCreate (sheetEventsWith logs deleted created) = created"
  by (simp_all add: sheetEventsWith_def)

text \<open>
  The scenario of the specification: event \<open>E1\<close> of type Meeting at row 5, updated with
  \<open>{eventType: 'Call'}\<close>. Then the same update against a store whose delete throws, and
  against a store whose create throws.
\<close>

theorem updateEventLog_move_witness:
  "updateEventLog exampleRuntime (sheetEvents [eventE1]) (JNum (Finite 5)) (Some toCall)
      (JStr (ascii ''amy'')) =
     ([SheetGetEventLogs,
       WriterDeleteEventLog (JNum (Finite 5)) (JStr (ascii ''Meeting'')),
       WriterCreateEventLog (movePayload toCall eventE1) (JStr (ascii ''amy'')),
       InvalidateEventCache],
      Inr (ObjResult [''success'' \<mapsto> JBool True, ''moved'' \<mapsto> JBool True])) \<and>
   field (movePayload toCall eventE1) ''eventId'' = JStr (ascii ''E1'') \<and>
   field (movePayload toCall eventE1) ''createdTime'' = JStr (ascii ''2026-01-01T00:00:00Z'') \<and>
   field (movePayload toCall eventE1) ''eventType'' = JStr (ascii ''Call'') \<and>
   updateEventLog exampleRuntime
      (sheetEventsWith [eventE1] (Throws (External 1)) (Returns (ObjResult [''success'' \<mapsto> JBool True])))
      (JNum (Finite 5)) (Some toCall) (JStr (ascii ''amy'')) =
     ([SheetGetEventLogs,
       WriterDeleteEventLog (JNum (Finite 5)) (JStr (ascii ''Meeting''))],
      Inl (External 1)) \<and>
   updateEventLog exampleRuntime
      (sheetEventsWith [eventE1] (Returns (ObjResult [''success'' \<mapsto> JBool True])) (Throws (External 2)))
      (JNum (Finite 5)) (Some toCall) (JStr (ascii ''amy'')) =
     ([SheetGetEventLogs,
       WriterDeleteEventLog (JNum (Finite 5)) (JStr (ascii ''Meeting'')),
       WriterCreateEventLog (movePayload toCall eventE1) (JStr (ascii ''amy''))],
      Inl (External 2))"
proof -
  let ?ok = "Returns (ObjResult [''success'' \<mapsto> JBool True])"
  have 2: "locateOriginal exampleRuntime (Rows [eventE1]) (JNum (Finite 5)) (Some toCall) =
      Inr (Some eventE1)"
    by (simp add: locateOriginal_def inputEventIdOf_def optField_def toCall_fields or_js_def
        findInRows_def eventE1_fields)
  have 3: "resolveRowIndex exampleRuntime (Rows [eventE1]) (JNum (Finite 5)) = Inr (Finite 5)"
    by (simp add: resolveRowIndex_def)
  have 4: "truthy (field eventE1 ''eventType'')" "truthy (field toCall ''eventType'')"
    "field toCall ''eventType'' \<noteq> field eventE1 ''eventType''"
    "\<not> truthy (field toCall ''createdTime'')" "truthy (field eventE1 ''createdTime'')"
    by (simp_all add: eventE1_fields toCall_fields ascii_def)
  have 5: "field (movePayload toCall eventE1) ''eventType'' = JStr (ascii ''Call'')"
    by (simp add: movePayload_def Let_def field_def toCall_def)
  have moved: "updateEventLog exampleRuntime (sheetEvents [eventE1]) (JNum (Finite 5)) (Some toCall)
      (JStr (ascii ''amy'')) =
     ([SheetGetEventLogs,
       WriterDeleteEventLog (JNum (Finite 5)) (JStr (ascii ''Meeting'')),
       WriterCreateEventLog (movePayload toCall eventE1) (JStr (ascii ''amy'')),
       InvalidateEventCache],
      Inr (ObjResult [''success'' \<mapsto> JBool True, ''moved'' \<mapsto> JBool True])) \<and>
   field (movePayload toCall eventE1) ''eventId'' = JStr (ascii ''E1'') \<and>
   field (movePayload toCall eventE1) ''createdTime'' = JStr (ascii ''2026-01-01T00:00:00Z'') \<and>
   field (movePayload toCall eventE1) ''eventType'' = JStr (ascii ''Call'')"
    using updateEventLog_move [OF sheetEvents_simps(1) 2 3 4(1-3), of "JStr (ascii ''amy'')"] 4 5
    by (simp add: sheetEvents_simps eventE1_fields markMoved_def)
  have deleteThrows: "updateEventLog exampleRuntime (sheetEventsWith [eventE1] (Throws (External 1)) ?ok)
      (JNum (Finite 5)) (Some toCall) (JStr (ascii ''amy'')) =
     ([SheetGetEventLogs,
       WriterDeleteEventLog (JNum (Finite 5)) (JStr (ascii ''Meeting''))],
      Inl (External 1))"
    using updateEventLog_move [OF sheetEventsWith_simps(1) 2 3 4(1-3), of "Throws (External 1)" ?ok
        "JStr (ascii ''amy'')"]
    by (simp add: sheetEventsWith_simps eventE1_fields)
  have createThrows: "updateEventLog exampleRuntime (sheetEventsWith [eventE1] ?ok (Throws (External 2)))
      (JNum (Finite 5)) (Some toCall) (JStr (ascii ''amy'')) =
     ([SheetGetEventLogs,
       WriterDeleteEventLog (JNum (Finite 5)) (JStr (ascii ''Meeting'')),
       WriterCreateEventLog (movePayload toCall eventE1) (JStr (ascii ''amy''))],
      Inl (External 2))"
    using updateEventLog_move [OF sheetEventsWith_simps(1) 2 3 4(1-3), of ?ok "Throws (External 2)"
        "JStr (ascii ''amy'')"]
    by (simp add: sheetEventsWith_simps eventE1_fields)
  show ?thesis
    using moved deleteThrows createThrows by simp
qed

text \<open>
  The original is found by the id in the data, both event types are non-empty and differ,
  but the first argument names no event and is no number: the update throws before any
  delete.
\<close>

theorem updateEventLog_guard_before_move:
  "locateOriginal exampleRuntime (Rows [eventE1]) (JStr (ascii ''E9'')) (Some misaddressed) =
     Inr (Some eventE1) \<and>
   truthy (field eventE1 ''eventType'') \<and> truthy (field misaddressed ''eventType'') \<and>
   field misaddressed ''eventType'' \<noteq> field eventE1 ''eventType'' \<and>
   updateEventLog exampleRuntime (sheetEvents [eventE1]) (JStr (ascii ''E9'')) (Some misaddressed)
      (JStr (ascii ''amy'')) =
     ([SheetGetEventLogs], Inl (EventIdNotFound (JStr (ascii ''E9''))))"
proof -
  have f: "field misaddressed ''eventId'' = JStr (ascii ''E1'')"
    "field misaddressed ''eventType'' = JStr (ascii ''Call'')"
    by (simp_all add: misaddressed_def field_def)
  have n: "stringToNumber exampleRuntime (ascii ''E9'') = NaN"
    by (simp add: number_eval)
  have 1: "locateOriginal exampleRuntime (Rows [eventE1]) (JStr (ascii ''E9'')) (Some misaddressed) =
     Inr (Some eventE1)"
    by (simp add: locateOriginal_def inputEventIdOf_def optField_def f or_js_def
        findInRows_def eventE1_fields ascii_def)
  have 2: "resolveRowIndex exampleRuntime (Rows [eventE1]) (JStr (ascii ''E9'')) =
     Inl (EventIdNotFound (JStr (ascii ''E9'')))"
    by (simp add: resolveRowIndex_def n isNaN_def findInRows_def eventE1_fields)
       (simp add: ascii_def)
  show ?thesis
    by (simp add: 1 2 updateEventLog_def sheetEvents_simps effect_defs f eventE1_fields)
       (simp add: ascii_def)
qed













text \<open>
  An event id given as the first argument, with no id in the data, is used for the row
  index only: the original is not located, so a changed event type is written in place by
  the store's update at the event's row, with no delete and no create.
\<close>

lemma updateEventLog_id_as_first_argument:
  "locateOriginal exampleRuntime (Rows [eventE1]) (JStr (ascii ''E1'')) (Some toCall) = Inr None \<and>
   field toCall ''eventType'' \<noteq> field eventE1 ''eventType'' \<and>
   updateEventLog exampleRuntime (sheetEvents [eventE1]) (JStr (ascii ''E1'')) (Some toCall)
      (JStr (ascii ''amy'')) =
     ([SheetGetEventLogs,
       WriterUpdateEventLog (JNum (Finite 5)) (Some toCall) (JStr (ascii ''amy'')),
       InvalidateEventCache],
      Inr (ObjResult [''success'' \<mapsto> JBool True]))"
proof -
  have n: "stringToNumber exampleRuntime (ascii ''E1'') = NaN"
    by (simp add: number_eval)
  have i: "inputEventIdOf (Some toCall) = JNull"
    by (simp add: inputEventIdOf_def optField_def toCall_fields or_js_def)
  have 1: "locateOriginal exampleRuntime (Rows [eventE1]) (JStr (ascii ''E1'')) (Some toCall) =
      Inr None"
    by (simp add: locateOriginal_def i n findInRows_def eventE1_fields)
  have 2: "resolveRowIndex exampleRuntime (Rows [eventE1]) (JStr (ascii ''E1'')) = Inr (Finite 5)"
    by (simp add: resolveRowIndex_def n isNaN_def findInRows_def eventE1_fields)
  have 3: "eventModifier (Some [''displayName'' \<mapsto> JStr (ascii ''amy'')]) = JStr (ascii ''amy'')"
    by (simp add: eventModifier_def field_def or_js_def ascii_def)
  have 4: "field toCall ''eventType'' \<noteq> field eventE1 ''eventType''"
    by (simp add: eventE1_fields toCall_fields ascii_def)
  show ?thesis
    by (simp add: 1 2 3 4 updateEventLog_def updateEvent_def invalidateEventCacheSafe_def
        sheetEvents_simps effect_defs)
qed

section \<open>Read convergence and failure of the fallback read\<close>

lemma getAllCompanies_fallback:
  assumes "companySqlReader svc = Some (Throws e) \<or> companySqlReader svc = Some (Returns NotArray) \<or>
           companySqlReader svc = Some (Returns (Rows []))"
  shows "getAllCompanies svc =
         ([SqlGetCompanies, SheetGetCompanyList],
          case companyReader svc of
            Throws e' \<Rightarrow> Inl e'
          | Returns NotArray \<Rightarrow> Inl TypeError
          | Returns (Rows ys) \<Rightarrow> Inr (map serviceDTO ys))"
  using assms
  by (auto simp: getAllCompanies_def sqlCompanies_def effect_defs split: reply.splits rows.splits)

lemma getAllCompanies_sql:
  assumes "companySqlReader svc = Some (Returns (Rows xs))" "xs \<noteq> []"
  shows "getAllCompanies svc = ([SqlGetCompanies], Inr (map serviceDTO xs))"
  using assms by (simp add: getAllCompanies_def sqlCompanies_def)

lemma fetchOpportunities_fallback:
  assumes "opportunitySqlReader svc = Some (Throws e) \<or>
           opportunitySqlReader svc = Some (Returns NotArray) \<or>
           opportunitySqlReader svc = Some (Returns (Rows []))"
  shows "fetchOpportunities svc False =
         ([SqlGetOpportunities, SheetGetOpportunities],
          case opportunityReader svc of Throws e' \<Rightarrow> Inl e' | Returns v \<Rightarrow> Inr v)"
  using assms
  by (auto simp: fetchOpportunities_def sqlOpportunities_def effect_defs split: reply.splits)

lemma fetchOpportunities_sql:
  assumes "opportunitySqlReader svc = Some (Returns (Rows xs))" "xs \<noteq> []"
  shows "fetchOpportunities svc False = ([SqlGetOpportunities], Inr (Rows xs))"
  using assms by (simp add: fetchOpportunities_def sqlOpportunities_def)

lemma sqlOrSheetEvents_fallback:
  assumes "eventLogSqlReader svc = Some (Throws e) \<or> eventLogSqlReader svc = Some (Returns NotArray)"
  shows "sqlOrSheetEvents svc =
         ([SqlGetEventLogs, SheetGetEventLogs],
          case eventReader svc of Throws e' \<Rightarrow> Inl e' | Returns v \<Rightarrow> Inr v)"
  using assms by (auto simp: sqlOrSheetEvents_def effect_defs)

lemma sqlOrSheetEvents_sql:
  assumes "eventLogSqlReader svc = Some (Returns (Rows xs))"
  shows "sqlOrSheetEvents svc = ([SqlGetEventLogs], Inr (Rows xs))"
  using assms by (simp add: sqlOrSheetEvents_def)

lemma getAllEvents_fallback:
  assumes "eventLogSqlReader svc = Some (Throws e) \<or> eventLogSqlReader svc = Some (Returns NotArray)"
    and "eventReader svc = Returns (Rows ys)"
    and "oppReader svc = Returns (Rows opps)" "eventCompanyReader svc = Returns (Rows comps)"
  shows "getAllEvents svc =
         ([SqlGetEventLogs, SheetGetEventLogs, SheetGetOpportunities, SheetGetCompanyList],
          joinEvents opps comps ys)"
  using assms(2-4) by (simp add: getAllEvents_def sqlOrSheetEvents_fallback [OF assms(1)])

lemma getAllEvents_sql:
  assumes "eventLogSqlReader svc = Some (Returns (Rows xs))"
    and "oppReader svc = Returns (Rows opps)" "eventCompanyReader svc = Returns (Rows comps)"
  shows "getAllEvents svc =
         ([SqlGetEventLogs, SheetGetOpportunities, SheetGetCompanyList], joinEvents opps comps xs)"
  using assms(2-3) by (simp add: getAllEvents_def sqlOrSheetEvents_sql [OF assms(1)])

lemma getAllEvents_swallows:
  assumes "eventLogSqlReader svc = Some (Throws e) \<or> eventLogSqlReader svc = Some (Returns NotArray)"
    and "eventReader svc = Throws e'"
  shows "getAllEvents svc = ([SqlGetEventLogs, SheetGetEventLogs], [])"
  using assms(2) by (simp add: getAllEvents_def sqlOrSheetEvents_fallback [OF assms(1)])

lemma fetchInternal_fallback:
  assumes "announcementSqlReader svc = Some (Throws e)"
  shows "fetchInternal svc =
         ([SqlGetAnnouncements, SheetGetAnnouncements],
          case announcementReader svc of Throws e' \<Rightarrow> Inl e' | Returns v \<Rightarrow> Inr v)"
  using assms by (simp add: fetchInternal_def effect_defs)

lemma fetchInternal_served:
  assumes "announcementSqlReader svc = Some (Returns v)"
  shows "fetchInternal svc = ([SqlGetAnnouncements], Inr v)"
  using assms by (simp add: fetchInternal_def)

text \<open>
  Claim C1, as amended. Company reads (\<open>_getAllCompanies\<close>) and opportunity reads
  (\<open>_fetchOpportunities\<close>): when the SQL reader throws or returns an empty array, the
  sheet reader is read and its rows are the result (mapped to DTOs for companies); when
  the SQL reader returns a non-empty array, that array is the result (mapped likewise)
  and the sheet reader is not called. Event log reads (\<open>getAllEvents\<close>) and announcement
  reads (\<open>_fetchInternal\<close>) go to the sheet reader when the SQL reader throws; an array
  returned by the SQL reader, empty or not, is what they serve, without a call of the
  entity's sheet reader.
\<close>

theorem read_convergence:
  "((companySqlReader csvc = Some (Throws e) \<or> companySqlReader csvc = Some (Returns (Rows []))) \<and>
      companyReader csvc = Returns (Rows ys)
    \<longrightarrow> getAllCompanies csvc =
          ([SqlGetCompanies, SheetGetCompanyList], Inr (map serviceDTO ys))) \<and>
   (companySqlReader csvc = Some (Returns (Rows xs)) \<and> xs \<noteq> []
    \<longrightarrow> getAllCompanies csvc = ([SqlGetCompanies], Inr (map serviceDTO xs))) \<and>
   ((opportunitySqlReader osvc = Some (Throws e) \<or>
       opportunitySqlReader osvc = Some (Returns (Rows []))) \<and>
      opportunityReader osvc = Returns (Rows ys)
    \<longrightarrow> fetchOpportunities osvc False =
          ([SqlGetOpportunities, SheetGetOpportunities], Inr (Rows ys))) \<and>
   (opportunitySqlReader osvc = Some (Returns (Rows xs)) \<and> xs \<noteq> []
    \<longrightarrow> fetchOpportunities osvc False = ([SqlGetOpportunities], Inr (Rows xs))) \<and>
   (eventLogSqlReader esvc = Some (Throws e) \<and> eventReader esvc = Returns (Rows ys) \<and>
      oppReader esvc = Returns (Rows opps) \<and> eventCompanyReader esvc = Returns (Rows comps)
    \<longrightarrow> getAllEvents esvc =
          ([SqlGetEventLogs, SheetGetEventLogs, SheetGetOpportunities, SheetGetCompanyList],
           joinEvents opps comps ys)) \<and>
   (eventLogSqlReader esvc = Some (Returns (Rows xs)) \<and>
      oppReader esvc = Returns (Rows opps) \<and> eventCompanyReader esvc = Returns (Rows comps)
    \<longrightarrow> getAllEvents esvc =
          ([SqlGetEventLogs, SheetGetOpportunities, SheetGetCompanyList],
           joinEvents opps comps xs)) \<and>
   (announcementSqlReader asvc = Some (Throws e) \<and> announcementReader asvc = Returns (Rows ys)
    \<longrightarrow> fetchInternal asvc = ([SqlGetAnnouncements, SheetGetAnnouncements], Inr (Rows ys))) \<and>
   (announcementSqlReader asvc = Some (Returns (Rows xs))
    \<longrightarrow> fetchInternal asvc = ([SqlGetAnnouncements], Inr (Rows xs)))"
proof (intro conjI impI)
  assume a: "(companySqlReader csvc = Some (Throws e) \<or>
      companySqlReader csvc = Some (Returns (Rows []))) \<and> companyReader csvc = Returns (Rows ys)"
  then have "companySqlReader csvc = Some (Throws e) \<or> companySqlReader csvc = Some (Returns NotArray) \<or>
           companySqlReader csvc = Some (Returns (Rows []))"
    by blast
  from getAllCompanies_fallback [OF this] a
  show "getAllCompanies csvc = ([SqlGetCompanies, SheetGetCompanyList], Inr (map serviceDTO ys))"
    by simp
next
  assume "companySqlReader csvc = Some (Returns (Rows xs)) \<and> xs \<noteq> []"
  then show "getAllCompanies csvc = ([SqlGetCompanies], Inr (map serviceDTO xs))"
    using getAllCompanies_sql by blast
next
  assume a: "(opportunitySqlReader osvc = Some (Throws e) \<or>
       opportunitySqlReader osvc = Some (Returns (Rows []))) \<and>
      opportunityReader osvc = Returns (Rows ys)"
  then have "opportunitySqlReader osvc = Some (Throws e) \<or>
           opportunitySqlReader osvc = Some (Returns NotArray) \<or>
           opportunitySqlReader osvc = Some (Returns (Rows []))"
    by blast
  from fetchOpportunities_fallback [OF this] a
  show "fetchOpportunities osvc False =
          ([SqlGetOpportunities, SheetGetOpportunities], Inr (Rows ys))"
    by simp
next
  assume "opportunitySqlReader osvc = Some (Returns (Rows xs)) \<and> xs \<noteq> []"
  then show "fetchOpportunities osvc False = ([SqlGetOpportunities], Inr (Rows xs))"
    using fetchOpportunities_sql by blast
next
  assume "eventLogSqlReader esvc = Some (Throws e) \<and> eventReader esvc = Returns (Rows ys) \<and>
      oppReader esvc = Returns (Rows opps) \<and> eventCompanyReader esvc = Returns (Rows comps)"
  then show "getAllEvents esvc =
          ([SqlGetEventLogs, SheetGetEventLogs, SheetGetOpportunities, SheetGetCompanyList],
           joinEvents opps comps ys)"
    using getAllEvents_fallback [of esvc e ys opps comps] by blast
next
  assume "eventLogSqlReader esvc = Some (Returns (Rows xs)) \<and>
      oppReader esvc = Returns (Rows opps) \<and> eventCompanyReader esvc = Returns (Rows comps)"
  then show "getAllEvents esvc =
          ([SqlGetEventLogs, SheetGetOpportunities, SheetGetCompanyList],
           joinEvents opps comps xs)"
    using getAllEvents_sql by blast
next
  assume "announcementSqlReader asvc = Some (Throws e) \<and> announcementReader asvc = Returns (Rows ys)"
  then show "fetchInternal asvc = ([SqlGetAnnouncements, SheetGetAnnouncements], Inr (Rows ys))"
    using fetchInternal_fallback [of asvc e] by simp
next
  assume "announcementSqlReader asvc = Some (Returns (Rows xs))"
  then show "fetchInternal asvc = ([SqlGetAnnouncements], Inr (Rows xs))"
    by (rule fetchInternal_served)
qed

lemma companiesWith_simps:
  "companySqlReader (companiesWith sql sheet) = Some sql"
  "companyReader (companiesWith sql sheet) = sheet"
  by (simp_all add: companiesWith_def)

lemma eventsWith_simps:
  "eventLogSqlReader (eventsWith sql sheet) = Some sql"
  "eventReader (eventsWith sql sheet) = sheet"
  "oppReader (eventsWith sql sheet) = Returns (Rows [])"
  "eventCompanyReader (eventsWith sql sheet) = Returns (Rows [])"
  by (simp_all add: eventsWith_def)

lemma opportunitiesWith_simps:
  "opportunitySqlReader (opportunitiesWith sql sheet) = Some sql"
  "opportunityReader (opportunitiesWith sql sheet) = sheet"
  by (simp_all add: opportunitiesWith_def)

lemma sqlAnnouncements_simps:
  "announcementSqlReader (sqlAnnouncements xs ys) = Some (Returns (Rows xs))"
  "announcementReader (sqlAnnouncements xs ys) = Returns (Rows ys)"
  "announcementWriterUpdate (sqlAnnouncements xs ys) = Returns (ObjResult [''success'' \<mapsto> JBool True])"
  "announcementWriterDelete (sqlAnnouncements xs ys) = Returns (ObjResult [''success'' \<mapsto> JBool True])"
  by (simp_all add: sqlAnnouncements_def)

theorem read_convergence_witness:
  "getAllCompanies (companiesWith (Returns (Rows [])) (Returns (Rows [sheetCompanyRow]))) =
     ([SqlGetCompanies, SheetGetCompanyList], Inr [serviceDTO sheetCompanyRow]) \<and>
   getAllCompanies (companiesWith (Returns (Rows [sqlCompanyRow])) (Returns (Rows [sheetCompanyRow]))) =
     ([SqlGetCompanies], Inr [serviceDTO sqlCompanyRow]) \<and>
   getAllEvents (eventsWith (Throws (External 1)) (Returns (Rows [eventE1]))) =
     ([SqlGetEventLogs, SheetGetEventLogs, SheetGetOpportunities, SheetGetCompanyList],
      joinEvents [] [] [eventE1]) \<and>
   getAllEvents (eventsWith (Returns (Rows [eventE1])) (Returns (Rows []))) =
     ([SqlGetEventLogs, SheetGetOpportunities, SheetGetCompanyList], joinEvents [] [] [eventE1])"
proof -
  have 1: "getAllCompanies (companiesWith (Returns (Rows [])) (Returns (Rows [sheetCompanyRow]))) =
     ([SqlGetCompanies, SheetGetCompanyList], Inr [serviceDTO sheetCompanyRow])"
    using read_convergence [of "companiesWith (Returns (Rows [])) (Returns (Rows [sheetCompanyRow]))"
        _ "[sheetCompanyRow]"]
    by (simp add: companiesWith_simps)
  have 2: "getAllCompanies
      (companiesWith (Returns (Rows [sqlCompanyRow])) (Returns (Rows [sheetCompanyRow]))) =
     ([SqlGetCompanies], Inr [serviceDTO sqlCompanyRow])"
    using read_convergence [of
        "companiesWith (Returns (Rows [sqlCompanyRow])) (Returns (Rows [sheetCompanyRow]))"
        _ _ "[sqlCompanyRow]"]
    by (simp add: companiesWith_simps)
  have 3: "getAllEvents (eventsWith (Throws (External 1)) (Returns (Rows [eventE1]))) =
     ([SqlGetEventLogs, SheetGetEventLogs, SheetGetOpportunities, SheetGetCompanyList],
      joinEvents [] [] [eventE1])"
    using read_convergence [of _ "External 1" "[eventE1]" _ _
        "eventsWith (Throws (External 1)) (Returns (Rows [eventE1]))" "[]" "[]"]
    by (simp add: eventsWith_simps)
  have 4: "getAllEvents (eventsWith (Returns (Rows [eventE1])) (Returns (Rows []))) =
     ([SqlGetEventLogs, SheetGetOpportunities, SheetGetCompanyList], joinEvents [] [] [eventE1])"
    using read_convergence [of _ _ _ "[eventE1]" _
        "eventsWith (Returns (Rows [eventE1])) (Returns (Rows []))" "[]" "[]"]
    by (simp add: eventsWith_simps)
  show ?thesis
    using 1 2 3 4 by simp
qed

text \<open>
  The SQL reader returns an empty array while the sheet holds a record: the announcement
  read and the event log read both serve the empty array, not the sheet's record.
\<close>

theorem empty_sql_array_is_served:
  "fetchInternal (sqlAnnouncements [] [announcementRow3]) = ([SqlGetAnnouncements], Inr (Rows [])) \<and>
   getAllEvents (eventsWith (Returns (Rows [])) (Returns (Rows [eventE1]))) =
     ([SqlGetEventLogs, SheetGetOpportunities, SheetGetCompanyList], [])"
  by (simp add: fetchInternal_served sqlAnnouncements_simps getAllEvents_sql eventsWith_simps
      joinEvents_def)

text \<open>
  Claim C5, as amended. In company reads (\<open>_getAllCompanies\<close>) and opportunity reads
  (\<open>_fetchOpportunities\<close>), when the SQL reader has thrown, returned no array or returned
  an empty array, an error thrown by the sheet reader is the outcome of the read. In the
  event log read (\<open>getAllEvents\<close>) the same failure of the sheet reader is caught and the
  read returns the empty list.
\<close>

theorem fallback_failure:
  "((companySqlReader csvc = Some (Throws e1) \<or> companySqlReader csvc = Some (Returns NotArray) \<or>
       companySqlReader csvc = Some (Returns (Rows []))) \<and> companyReader csvc = Throws e
    \<longrightarrow> getAllCompanies csvc = ([SqlGetCompanies, SheetGetCompanyList], Inl e)) \<and>
   ((opportunitySqlReader osvc = Some (Throws e1) \<or>
       opportunitySqlReader osvc = Some (Returns NotArray) \<or>
       opportunitySqlReader osvc = Some (Returns (Rows []))) \<and> opportunityReader osvc = Throws e
    \<longrightarrow> fetchOpportunities osvc False = ([SqlGetOpportunities, SheetGetOpportunities], Inl e)) \<and>
   ((eventLogSqlReader esvc = Some (Throws e1) \<or> eventLogSqlReader esvc = Some (Returns NotArray)) \<and>
       eventReader esvc = Throws e
    \<longrightarrow> getAllEvents esvc = ([SqlGetEventLogs, SheetGetEventLogs], []))"
proof (intro conjI impI)
  assume a: "(companySqlReader csvc = Some (Throws e1) \<or> companySqlReader csvc = Some (Returns NotArray) \<or>
       companySqlReader csvc = Some (Returns (Rows []))) \<and> companyReader csvc = Throws e"
  from getAllCompanies_fallback [OF conjunct1 [OF a]] a
  show "getAllCompanies csvc = ([SqlGetCompanies, SheetGetCompanyList], Inl e)"
    by simp
next
  assume a: "(opportunitySqlReader osvc = Some (Throws e1) \<or>
       opportunitySqlReader osvc = Some (Returns NotArray) \<or>
       opportunitySqlReader osvc = Some (Returns (Rows []))) \<and> opportunityReader osvc = Throws e"
  from fetchOpportunities_fallback [OF conjunct1 [OF a]] a
  show "fetchOpportunities osvc False = ([SqlGetOpportunities, SheetGetOpportunities], Inl e)"
    by simp
next
  assume a: "(eventLogSqlReader esvc = Some (Throws e1) \<or>
       eventLogSqlReader esvc = Some (Returns NotArray)) \<and> eventReader esvc = Throws e"
  then show "getAllEvents esvc = ([SqlGetEventLogs, SheetGetEventLogs], [])"
    using getAllEvents_swallows by blast
qed

theorem fallback_failure_witness:
  "getAllCompanies (companiesWith (Returns (Rows [])) (Throws (External 2))) =
     ([SqlGetCompanies, SheetGetCompanyList], Inl (External 2)) \<and>
   fetchOpportunities (opportunitiesWith (Throws (External 1)) (Throws (External 2))) False =
     ([SqlGetOpportunities, SheetGetOpportunities], Inl (External 2)) \<and>
   getAllEvents (eventsWith (Returns NotArray) (Throws (External 2))) =
     ([SqlGetEventLogs, SheetGetEventLogs], [])"
  using fallback_failure [of "companiesWith (Returns (Rows [])) (Throws (External 2))"
      "External 1" "External 2"
      "opportunitiesWith (Throws (External 1)) (Throws (External 2))"
      "eventsWith (Returns NotArray) (Throws (External 2))"]
  by (simp add: companiesWith_simps opportunitiesWith_simps eventsWith_simps)

text \<open>
  The SQL reader of the event logs throws and then the sheet reader throws: \<open>getAllEvents\<close>
  returns the empty list, and its caller sees no error.
\<close>

theorem getAllEvents_swallows_sheet_failure:
  "getAllEvents (eventsWith (Throws (External 1)) (Throws (External 2))) =
     ([SqlGetEventLogs, SheetGetEventLogs], [])"
  by (simp add: getAllEvents_swallows [of _ "External 1" "External 2"] eventsWith_simps)

section \<open>Row index lookups before a write\<close>

lemma fst_andThen:
  "fst (andThen m f) = fst m @ (case snd m of Inl e \<Rightarrow> [] | Inr x \<Rightarrow> fst (f x))"
  by (cases m) (auto simp: andThen_def split: sum.splits prod.splits)

lemma in_andThen:
  "c \<in> set (fst (andThen m f)) \<longleftrightarrow>
   c \<in> set (fst m) \<or> (\<exists>x. snd m = Inr x \<and> c \<in> set (fst (f x)))"
  by (auto simp: fst_andThen split: sum.splits)

lemma findInRows_Some:
  "findInRows P rs = Inr (Some x) \<Longrightarrow> \<exists>xs. rs = Rows xs \<and> x \<in> set xs \<and> P x"
  by (cases rs) (auto simp: findInRows_def dest: find_in_set)

lemma fetchOpportunities_forced:
  "fetchOpportunities svc True =
     ([SheetGetOpportunities], case opportunityReader svc of Throws e \<Rightarrow> Inl e | Returns v \<Rightarrow> Inr v)"
  by (simp add: fetchOpportunities_def sqlOpportunities_def effect_defs)

lemma updateOpportunity_no_sql:
  "SqlGetOpportunities \<notin> set (fst (updateOpportunity rt svc r d u))"
  by (auto simp: updateOpportunity_def Let_def in_andThen fetchOpportunities_forced effect_defs
        invalidateOpportunities_def logInteraction_def
      split: reply.splits option.splits sum.splits if_splits)

lemma deleteOpportunity_no_sql:
  "SqlGetOpportunities \<notin> set (fst (deleteOpportunity rt svc r u))"
  by (auto simp: deleteOpportunity_def Let_def in_andThen fetchOpportunities_forced effect_defs
        invalidateOpportunities_def logDeletionToCompany_def
      split: reply.splits option.splits sum.splits if_splits rows.splits)

lemma findCompanyRowIndex_trace: "fst (findCompanyRowIndex rt svc n) = [SheetGetCompanyList]"
  by (auto simp: findCompanyRowIndex_def fst_andThen effect_defs
      split: reply.splits sum.splits rows.splits option.splits)

lemma updateEvent_calls:
  "c \<in> set (fst (updateEvent svc r d u)) \<Longrightarrow>
   c = WriterUpdateEventLog r d (eventModifier u) \<or> c = InvalidateEventCache"
  by (auto simp: updateEvent_def Let_def in_andThen invalidateEventCacheSafe_def callOut_def pureE_def)

lemma deleteEvent_calls:
  "c \<in> set (fst (deleteEvent svc r t)) \<Longrightarrow>
   c = WriterDeleteEventLog r t \<or> c = InvalidateEventCache"
  by (auto simp: deleteEvent_def in_andThen invalidateEventCacheSafe_def callOut_def pureE_def)

lemma moveEvent_calls:
  "c \<in> set (fst (moveEvent svc orig d m)) \<Longrightarrow>
   c = WriterDeleteEventLog (field orig ''rowIndex'') (field orig ''eventType'') \<or>
   c = WriterCreateEventLog (movePayload d orig) m \<or> c = InvalidateEventCache"
  by (auto simp: moveEvent_def in_andThen invalidateEventCacheSafe_def callOut_def pureE_def)

lemma fst_callOut: "fst (callOut c r) = [c]"
  by (simp add: callOut_def)

lemma snd_callOut_Inr: "snd (callOut c r) = Inr x \<longleftrightarrow> r = Returns x"
  by (cases r) (simp_all add: callOut_def)

lemma updateEventLog_calls:
  assumes "c \<in> set (fst (updateEventLog rt svc x data m))"
  shows "c = SheetGetEventLogs \<or>
         (\<exists>logs n. eventReader svc = Returns logs \<and> resolveRowIndex rt logs x = Inr n \<and>
            (c = WriterUpdateEventLog (JNum n) data (eventModifier (Some [''displayName'' \<mapsto> m])) \<or>
             c = InvalidateEventCache \<or>
             (\<exists>orig d. locateOriginal rt logs x data = Inr (Some orig) \<and> data = Some d \<and>
                (c = WriterDeleteEventLog (field orig ''rowIndex'') (field orig ''eventType'') \<or>
                 c = WriterCreateEventLog (movePayload d orig) m))))"
proof (cases "c = SheetGetEventLogs")
  case True
  then show ?thesis by simp
next
  case False
  let ?inPlace = "\<lambda>n. updateEvent svc (JNum n) data (Some [''displayName'' \<mapsto> m])"
  from assms False obtain logs original n where
    logs: "eventReader svc = Returns logs"
    and orig: "locateOriginal rt logs x data = Inr original"
    and row: "resolveRowIndex rt logs x = Inr n"
    and c: "c \<in> set (fst (case (original, data) of
               (Some orig, Some d) \<Rightarrow>
                 if isMove orig d then moveEvent svc orig d m else ?inPlace n
             | _ \<Rightarrow> ?inPlace n))"
    by (auto simp: updateEventLog_def in_andThen snd_callOut_Inr fst_callOut liftE_def)
  show ?thesis
  proof (cases "\<exists>orig d. original = Some orig \<and> data = Some d \<and> isMove orig d")
    case True
    then obtain orig d where od: "original = Some orig" "data = Some d" "isMove orig d"
      by blast
    with c have "c \<in> set (fst (moveEvent svc orig d m))"
      by simp
    from moveEvent_calls [OF this] logs orig row od show ?thesis
      by auto
  next
    case False
    with c have "c \<in> set (fst (?inPlace n))"
      by (auto split: option.splits if_splits)
    from updateEvent_calls [OF this] logs row show ?thesis
      by auto
  qed
qed

lemma updateEventLog_no_sql: "SqlGetEventLogs \<notin> set (fst (updateEventLog rt svc x data m))"
  using updateEventLog_calls [of SqlGetEventLogs rt svc x data m] by auto

lemma deleteEventLog_calls:
  assumes "c \<in> set (fst (deleteEventLog svc i))"
  shows "c = SheetGetEventLogs \<or> c = InvalidateEventCache \<or>
         (\<exists>logs l. eventReader svc = Returns (Rows logs) \<and> l \<in> set logs \<and>
            strictEq (field l ''eventId'') i \<and>
            c = WriterDeleteEventLog (field l ''rowIndex'') (field l ''eventType''))"
  using assms
  by (auto simp: deleteEventLog_def in_andThen callOut_def liftE_def throwE_def
      split: reply.splits option.splits
      dest!: deleteEvent_calls findInRows_Some)

lemma first_call:
  "take (Suc 0) (fst (andThen (callOut c r) f)) = [c]"
  by (simp add: fst_andThen callOut_def)

lemma updateOpportunity_first: "take (Suc 0) (fst (updateOpportunity rt svc r d u)) = [SheetGetOpportunities]"
  by (simp add: updateOpportunity_def Let_def fst_andThen fetchOpportunities_forced)

lemma deleteOpportunity_first: "take (Suc 0) (fst (deleteOpportunity rt svc r u)) = [SheetGetOpportunities]"
  by (simp add: deleteOpportunity_def Let_def fst_andThen fetchOpportunities_forced)

lemma updateEventLog_first: "take (Suc 0) (fst (updateEventLog rt svc x data m)) = [SheetGetEventLogs]"
  by (simp add: updateEventLog_def first_call)

lemma deleteEventLog_first: "take (Suc 0) (fst (deleteEventLog svc i)) = [SheetGetEventLogs]"
  by (simp add: deleteEventLog_def first_call)

lemma sql_independence_parts:
  "fetchOpportunities (osvc\<lparr>opportunitySqlReader := s\<rparr>) True = fetchOpportunities osvc True"
  "invalidateOpportunities (osvc\<lparr>opportunitySqlReader := s\<rparr>) = invalidateOpportunities osvc"
  "logDeletionToCompany rt (osvc\<lparr>opportunitySqlReader := s\<rparr>) = logDeletionToCompany rt osvc"
  "updateEvent (esvc\<lparr>eventLogSqlReader := s\<rparr>) = updateEvent esvc"
  "deleteEvent (esvc\<lparr>eventLogSqlReader := s\<rparr>) = deleteEvent esvc"
  "moveEvent (esvc\<lparr>eventLogSqlReader := s\<rparr>) = moveEvent esvc"
  by (simp_all add: fetchOpportunities_forced invalidateOpportunities_def
      logDeletionToCompany_def updateEvent_def deleteEvent_def moveEvent_def fun_eq_iff)

lemma sql_independence:
  "updateOpportunity rt (osvc\<lparr>opportunitySqlReader := s\<rparr>) r d u = updateOpportunity rt osvc r d u"
  "deleteOpportunity rt (osvc\<lparr>opportunitySqlReader := s\<rparr>) r u = deleteOpportunity rt osvc r u"
  "findCompanyRowIndex rt (csvc\<lparr>companySqlReader := s\<rparr>) n = findCompanyRowIndex rt csvc n"
  "updateEventLog rt (esvc\<lparr>eventLogSqlReader := s\<rparr>) x data m = updateEventLog rt esvc x data m"
  "deleteEventLog (esvc\<lparr>eventLogSqlReader := s\<rparr>) i = deleteEventLog esvc i"
  by (simp_all add: updateOpportunity_def deleteOpportunity_def findCompanyRowIndex_def
      updateEventLog_def deleteEventLog_def sql_independence_parts
      cong: if_cong option.case_cong)

lemma announcement_sql_lookup:
  assumes "announcementSqlReader svc = Some (Returns v)"
  shows "SheetGetAnnouncements \<notin> set (fst (updateAnnouncement svc i d u))"
    and "SheetGetAnnouncements \<notin> set (fst (deleteAnnouncement svc i))"
  using assms
  by (auto simp: updateAnnouncement_def deleteAnnouncement_def Let_def in_andThen
      fetchInternal_served callOut_def liftE_def throwE_def split: option.splits sum.splits reply.splits)

lemma updateOpportunity_writes:
  assumes "c \<in> set (fst (updateOpportunity rt svc r d u))" "isWriteCall c"
  shows "\<exists>xs opp. opportunityReader svc = Returns (Rows xs) \<and>
           find (\<lambda>opp. strictEq (field opp ''rowIndex'') (JNum (parseInt rt r))) xs = Some opp \<and>
           (c = WriterUpdateOpportunity r d (opportunityModifier u) \<or>
            (\<exists>cfg. systemReader svc = Returns cfg \<and>
               c = CreateInteraction
                     (OpportunityUpdated (field opp ''opportunityId'') (changeLines cfg opp d)
                        (opportunityModifier u))))"
  using assms
  by (auto simp: updateOpportunity_def Let_def in_andThen fetchOpportunities_forced liftE_def
        throwE_def pureE_def fst_callOut snd_callOut_Inr invalidateOpportunities_def
        logInteraction_def
      split: reply.splits option.splits if_splits dest!: findInRows_find)

lemma updateOpportunity_not_found:
  assumes "opportunityReader svc = Returns (Rows xs)"
    and "find (\<lambda>opp. strictEq (field opp ''rowIndex'') (JNum (parseInt rt r))) xs = None"
  shows "updateOpportunity rt svc r d u = ([SheetGetOpportunities], Inl (OpportunityNotFound r))"
  using assms
  by (simp add: updateOpportunity_def Let_def fetchOpportunities_forced findInRows_def effect_defs)

lemma deleteOpportunity_writes:
  assumes "c \<in> set (fst (deleteOpportunity rt svc r u))" "isWriteCall c"
  shows "\<exists>xs opp. opportunityReader svc = Returns (Rows xs) \<and>
           find (\<lambda>opp. strictEq (field opp ''rowIndex'') (JNum (parseInt rt r))) xs = Some opp \<and>
           (c = WriterDeleteOpportunity r (opportunityModifier u) \<or>
            (\<exists>company. c = CreateInteraction
                     (OpportunityDeleted (field company ''companyId'')
                        (field opp ''opportunityName'') (field opp ''opportunityId'')
                        (opportunityModifier u))))"
  using assms
  by (auto simp: deleteOpportunity_def Let_def in_andThen fetchOpportunities_forced liftE_def
        throwE_def pureE_def fst_callOut snd_callOut_Inr invalidateOpportunities_def
        logDeletionToCompany_def
      split: reply.splits option.splits if_splits rows.splits sum.splits dest!: findInRows_find)

lemma deleteOpportunity_not_found:
  assumes "opportunityReader svc = Returns (Rows xs)"
    and "find (\<lambda>opp. strictEq (field opp ''rowIndex'') (JNum (parseInt rt r))) xs = None"
  shows "deleteOpportunity rt svc r u = ([SheetGetOpportunities], Inl (OpportunityNotFound r))"
  using assms
  by (simp add: deleteOpportunity_def Let_def fetchOpportunities_forced findInRows_def effect_defs)

lemma findFirst_split:
  "findFirst p xs = Inr (Some x) \<Longrightarrow>
   \<exists>before after. xs = before @ x # after \<and> p x = Inr True \<and> (\<forall>b\<in>set before. p b = Inr False)"
proof (induction xs)
  case Nil
  then show ?case by simp
next
  case (Cons a xs)
  show ?case
  proof (cases "p a")
    case (Inl e)
    with Cons.prems show ?thesis by simp
  next
    case (Inr b)
    show ?thesis
    proof (cases b)
      case True
      with Inr Cons.prems have "a = x" by simp
      with Inr True have "a # xs = [] @ x # xs \<and> p x = Inr True \<and> (\<forall>b\<in>set []. p b = Inr False)"
        by simp
      then show ?thesis by blast
    next
      case False
      with Inr Cons.prems have "findFirst p xs = Inr (Some x)" by simp
      from Cons.IH [OF this] obtain before after where
        "xs = before @ x # after" "p x = Inr True" "\<forall>b\<in>set before. p b = Inr False"
        by blast
      with Inr False have "a # xs = (a # before) @ x # after \<and> p x = Inr True \<and>
          (\<forall>b\<in>set (a # before). p b = Inr False)"
        by simp
      then show ?thesis by blast
    qed
  qed
qed

lemma sameNormalizedName_iff:
  "sameNormalizedName rt target c = Inr b \<longleftrightarrow>
   (\<exists>n. normalizeCompanyName rt (field c ''companyName'') = Inr n \<and> b = (n = target))"
  by (auto simp: sameNormalizedName_def split: sum.splits)

lemma findCompanyRowIndex_first:
  assumes "snd (findCompanyRowIndex rt svc n) = Inr v"
  shows "\<exists>before c after target.
           companyReader svc = Returns (Rows (before @ c # after)) \<and>
           normalizeCompanyName rt (JStr n) = Inr target \<and>
           normalizeCompanyName rt (field c ''companyName'') = Inr target \<and>
           (\<forall>b\<in>set before. \<exists>nb. normalizeCompanyName rt (field b ''companyName'') = Inr nb \<and>
              nb \<noteq> target) \<and>
           v = field c ''rowIndex'' \<and> truthy v"
proof -
  from assms obtain xs target c where
    xs: "companyReader svc = Returns (Rows xs)"
    and target: "normalizeCompanyName rt (JStr n) = Inr target"
    and c: "findFirst (sameNormalizedName rt target) xs = Inr (Some c)"
    and v: "v = field c ''rowIndex''" "truthy v"
    by (auto simp: findCompanyRowIndex_def effect_defs
        split: reply.splits sum.splits rows.splits option.splits if_splits prod.splits)
  from findFirst_split [OF c] obtain before after where
    split: "xs = before @ c # after" "sameNormalizedName rt target c = Inr True"
      "\<forall>b\<in>set before. sameNormalizedName rt target b = Inr False"
    by blast
  from split(2) have same: "normalizeCompanyName rt (field c ''companyName'') = Inr target"
    by (simp add: sameNormalizedName_iff)
  from split(3) have others: "\<forall>b\<in>set before.
      \<exists>nb. normalizeCompanyName rt (field b ''companyName'') = Inr nb \<and> nb \<noteq> target"
    by (simp add: sameNormalizedName_iff)
  from xs split(1) target same others v show ?thesis
    by blast
qed

lemma updateEventLog_needs_rows:
  assumes "locateOriginal rt NotArray x data = Inr original"
    and "resolveRowIndex rt NotArray x = Inr n"
  shows False
  using assms
  by (auto simp: locateOriginal_def resolveRowIndex_def findInRows_def Let_def
      split: if_splits sum.splits option.splits)

lemma updateEventLog_writes:
  assumes "c \<in> set (fst (updateEventLog rt svc x data m))" "isWriteCall c"
  shows "\<exists>logs. eventReader svc = Returns (Rows logs) \<and>
           ((\<exists>orig d. data = Some d \<and> locateOriginal rt (Rows logs) x data = Inr (Some orig) \<and>
               orig \<in> set logs \<and> isMove orig d \<and>
               (c = WriterDeleteEventLog (field orig ''rowIndex'') (field orig ''eventType'') \<or>
                c = WriterCreateEventLog (movePayload d orig) m)) \<or>
            (\<not> (isString x \<and> isNaN (toNumber rt x)) \<and> isInteger (toNumber rt x) \<and>
             c = WriterUpdateEventLog (JNum (toNumber rt x)) data
                   (eventModifier (Some [''displayName'' \<mapsto> m]))) \<or>
            (\<exists>l. isString x \<and> isNaN (toNumber rt x) \<and>
               find (\<lambda>l. strictEq (field l ''eventId'') x) logs = Some l \<and>
               truthy (field l ''rowIndex'') \<and> isInteger (toNumber rt (field l ''rowIndex'')) \<and>
               c = WriterUpdateEventLog (JNum (toNumber rt (field l ''rowIndex''))) data
                     (eventModifier (Some [''displayName'' \<mapsto> m]))))"
proof -
  let ?inPlace = "\<lambda>n. updateEvent svc (JNum n) data (Some [''displayName'' \<mapsto> m])"
  from assms have "c \<noteq> SheetGetEventLogs"
    by auto
  with assms(1) obtain lg original n where
    logs: "eventReader svc = Returns lg"
    and orig: "locateOriginal rt lg x data = Inr original"
    and row: "resolveRowIndex rt lg x = Inr n"
    and c: "c \<in> set (fst (case (original, data) of
               (Some orig, Some d) \<Rightarrow>
                 if isMove orig d then moveEvent svc orig d m else ?inPlace n
             | _ \<Rightarrow> ?inPlace n))"
    by (auto simp: updateEventLog_def in_andThen snd_callOut_Inr fst_callOut liftE_def)
  from orig row have "lg \<noteq> NotArray"
    using updateEventLog_needs_rows by blast
  then obtain xs where xs: "lg = Rows xs"
    by (cases lg) simp_all
  show ?thesis
  proof (cases "\<exists>orig d. original = Some orig \<and> data = Some d \<and> isMove orig d")
    case True
    then obtain o1 d where od: "original = Some o1" "data = Some d" "isMove o1 d"
      by blast
    with c have "c \<in> set (fst (moveEvent svc o1 d m))"
      by simp
    from moveEvent_calls [OF this] assms(2)
    have "c = WriterDeleteEventLog (field o1 ''rowIndex'') (field o1 ''eventType'') \<or>
        c = WriterCreateEventLog (movePayload d o1) m"
      by auto
    moreover from orig od(1) xs locateOriginal_in_logs [of rt lg x data o1] have "o1 \<in> set xs"
      by auto
    ultimately show ?thesis
      using logs xs orig od by blast
  next
    case False
    with c have "c \<in> set (fst (?inPlace n))"
      by (auto split: option.splits if_splits)
    from updateEvent_calls [OF this] assms(2)
    have w: "c = WriterUpdateEventLog (JNum n) data (eventModifier (Some [''displayName'' \<mapsto> m]))"
      by auto
    from resolveRowIndex_source [OF row] xs have src: "isInteger n"
      "if isString x \<and> isNaN (toNumber rt x)
       then \<exists>l. find (\<lambda>l. strictEq (field l ''eventId'') x) xs = Some l \<and>
              truthy (field l ''rowIndex'') \<and> n = toNumber rt (field l ''rowIndex'')
       else n = toNumber rt x"
      by (auto split: if_splits)
    show ?thesis
    proof (cases "isString x \<and> isNaN (toNumber rt x)")
      case True
      with src obtain l where "find (\<lambda>l. strictEq (field l ''eventId'') x) xs = Some l"
        "truthy (field l ''rowIndex'')" "n = toNumber rt (field l ''rowIndex'')"
        by auto
      with True src(1) w logs xs show ?thesis
        by blast
    next
      case False
      with src have "n = toNumber rt x"
        by auto
      with False src(1) w logs xs show ?thesis
        by blast
    qed
  qed
qed

lemma deleteEventLog_writes:
  assumes "c \<in> set (fst (deleteEventLog svc i))" "isWriteCall c"
  shows "\<exists>logs l. eventReader svc = Returns (Rows logs) \<and>
           find (\<lambda>l. strictEq (field l ''eventId'') i) logs = Some l \<and>
           c = WriterDeleteEventLog (field l ''rowIndex'') (field l ''eventType'')"
  using assms
  by (auto simp: deleteEventLog_def in_andThen callOut_def liftE_def throwE_def
      split: reply.splits option.splits
      dest!: deleteEvent_calls findInRows_find)

lemma deleteEventLog_not_found:
  assumes "eventReader svc = Returns (Rows logs)"
    and "find (\<lambda>l. strictEq (field l ''eventId'') i) logs = None"
  shows "deleteEventLog svc i = ([SheetGetEventLogs], Inl (DeleteEventIdNotFound i))"
  using assms by (simp add: deleteEventLog_def findInRows_def effect_defs)

lemma announcement_writes:
  assumes "announcementSqlReader svc = Some (Returns v)"
  shows "c \<in> set (fst (updateAnnouncement svc i d u)) \<Longrightarrow> isWriteCall c \<Longrightarrow>
         \<exists>sqlRows t. v = Rows sqlRows \<and> find (\<lambda>a. strictEq (field a ''id'') i) sqlRows = Some t \<and>
           truthy (field t ''rowIndex'') \<and>
           c = WriterUpdateAnnouncement (field t ''rowIndex'') d (announcementModifier u)"
    and "c \<in> set (fst (deleteAnnouncement svc i)) \<Longrightarrow> isWriteCall c \<Longrightarrow>
         \<exists>sqlRows t. v = Rows sqlRows \<and> find (\<lambda>a. strictEq (field a ''id'') i) sqlRows = Some t \<and>
           truthy (field t ''rowIndex'') \<and>
           c = WriterDeleteAnnouncement (field t ''rowIndex'')"
  using assms
  by (auto simp: updateAnnouncement_def deleteAnnouncement_def Let_def in_andThen
      fetchInternal_served callOut_def liftE_def throwE_def
      split: option.splits sum.splits reply.splits if_splits dest!: findInRows_find)

text \<open>
  Claim C4, as amended. Opportunity update and delete, the company row-index lookup
  \<open>_findCompanyRowIndex\<close> of version 7.7.0, and event log update and delete read the sheet
  reader as their first call, call no SQL reader, and do the same whatever the SQL reader
  would answer. What each of them takes from the sheet's list:
  \<^item> an opportunity update or delete writes at the row index its caller gave, and only
    when the sheet's list holds a record whose \<open>rowIndex\<close> is \<open>parseInt\<close> of it (the first
    such record gives the opportunity id and name of the interaction entries); without
    such a record it throws after the read and writes nothing;
  \<^item> the company lookup returns the \<open>rowIndex\<close>, which is truthy, of the first record of
    the sheet's list whose normalised name is the normalised name asked for;
  \<^item> an event log delete writes at the \<open>rowIndex\<close> and \<open>eventType\<close> of the first log of
    the sheet's list with the given event id, and throws without a write when there is
    none;
  \<^item> an event log update that moves deletes at the \<open>rowIndex\<close> and \<open>eventType\<close> of the
    original it located in the sheet's list; an update in place writes at the row index
    of the first sheet log whose event id is the first argument when that argument is a
    string that is not a number, and otherwise at the number of the first argument
    itself, an integer that is not looked up in the sheet's list.

  Announcement update and delete look their record up through the SQL-first read instead:
  when the SQL reader returns, the sheet reader is not called, and a write happens only
  for the first record of the SQL reader's list with the given id, when its \<open>rowIndex\<close> is
  truthy, at that \<open>rowIndex\<close>.
\<close>

theorem row_index_lookup_reads_sheet:
  "(updateOpportunity rt (osvc\<lparr>opportunitySqlReader := s\<rparr>) r d u = updateOpportunity rt osvc r d u \<and>
    take 1 (fst (updateOpportunity rt osvc r d u)) = [SheetGetOpportunities] \<and>
    SqlGetOpportunities \<notin> set (fst (updateOpportunity rt osvc r d u)) \<and>
    (\<forall>xs. opportunityReader osvc = Returns (Rows xs) \<and>
       find (\<lambda>opp. strictEq (field opp ''rowIndex'') (JNum (parseInt rt r))) xs = None \<longrightarrow>
       updateOpportunity rt osvc r d u = ([SheetGetOpportunities], Inl (OpportunityNotFound r))) \<and>
    (\<forall>c\<in>set (fst (updateOpportunity rt osvc r d u)). isWriteCall c \<longrightarrow>
       (\<exists>xs opp. opportunityReader osvc = Returns (Rows xs) \<and>
          find (\<lambda>opp. strictEq (field opp ''rowIndex'') (JNum (parseInt rt r))) xs = Some opp \<and>
          (c = WriterUpdateOpportunity r d (opportunityModifier u) \<or>
           (\<exists>cfg. systemReader osvc = Returns cfg \<and>
              c = CreateInteraction
                    (OpportunityUpdated (field opp ''opportunityId'') (changeLines cfg opp d)
                       (opportunityModifier u))))))) \<and>
   (deleteOpportunity rt (osvc\<lparr>opportunitySqlReader := s\<rparr>) r u = deleteOpportunity rt osvc r u \<and>
    take 1 (fst (deleteOpportunity rt osvc r u)) = [SheetGetOpportunities] \<and>
    SqlGetOpportunities \<notin> set (fst (deleteOpportunity rt osvc r u)) \<and>
    (\<forall>xs. opportunityReader osvc = Returns (Rows xs) \<and>
       find (\<lambda>opp. strictEq (field opp ''rowIndex'') (JNum (parseInt rt r))) xs = None \<longrightarrow>
       deleteOpportunity rt osvc r u = ([SheetGetOpportunities], Inl (OpportunityNotFound r))) \<and>
    (\<forall>c\<in>set (fst (deleteOpportunity rt osvc r u)). isWriteCall c \<longrightarrow>
       (\<exists>xs opp. opportunityReader osvc = Returns (Rows xs) \<and>
          find (\<lambda>opp. strictEq (field opp ''rowIndex'') (JNum (parseInt rt r))) xs = Some opp \<and>
          (c = WriterDeleteOpportunity r (opportunityModifier u) \<or>
           (\<exists>company. c = CreateInteraction
                    (OpportunityDeleted (field company ''companyId'')
                       (field opp ''opportunityName'') (field opp ''opportunityId'')
                       (opportunityModifier u))))))) \<and>
   (findCompanyRowIndex rt (csvc\<lparr>companySqlReader := s'\<rparr>) n = findCompanyRowIndex rt csvc n \<and>
    fst (findCompanyRowIndex rt csvc n) = [SheetGetCompanyList] \<and>
    (\<forall>v. snd (findCompanyRowIndex rt csvc n) = Inr v \<longrightarrow>
       (\<exists>before c after target.
          companyReader csvc = Returns (Rows (before @ c # after)) \<and>
          normalizeCompanyName rt (JStr n) = Inr target \<and>
          normalizeCompanyName rt (field c ''companyName'') = Inr target \<and>
          (\<forall>b\<in>set before. \<exists>nb. normalizeCompanyName rt (field b ''companyName'') = Inr nb \<and>
             nb \<noteq> target) \<and>
          v = field c ''rowIndex'' \<and> truthy v))) \<and>
   (updateEventLog rt (esvc\<lparr>eventLogSqlReader := s''\<rparr>) x data m = updateEventLog rt esvc x data m \<and>
    take 1 (fst (updateEventLog rt esvc x data m)) = [SheetGetEventLogs] \<and>
    SqlGetEventLogs \<notin> set (fst (updateEventLog rt esvc x data m)) \<and>
    (\<forall>c\<in>set (fst (updateEventLog rt esvc x data m)). isWriteCall c \<longrightarrow>
       (\<exists>logs. eventReader esvc = Returns (Rows logs) \<and>
          ((\<exists>orig dd. data = Some dd \<and>
              locateOriginal rt (Rows logs) x data = Inr (Some orig) \<and>
              orig \<in> set logs \<and> isMove orig dd \<and>
              (c = WriterDeleteEventLog (field orig ''rowIndex'') (field orig ''eventType'') \<or>
               c = WriterCreateEventLog (movePayload dd orig) m)) \<or>
           (\<not> (isString x \<and> isNaN (toNumber rt x)) \<and> isInteger (toNumber rt x) \<and>
            c = WriterUpdateEventLog (JNum (toNumber rt x)) data
                  (eventModifier (Some [''displayName'' \<mapsto> m]))) \<or>
           (\<exists>l. isString x \<and> isNaN (toNumber rt x) \<and>
              find (\<lambda>l. strictEq (field l ''eventId'') x) logs = Some l \<and>
              truthy (field l ''rowIndex'') \<and> isInteger (toNumber rt (field l ''rowIndex'')) \<and>
              c = WriterUpdateEventLog (JNum (toNumber rt (field l ''rowIndex''))) data
                    (eventModifier (Some [''displayName'' \<mapsto> m]))))))) \<and>
   (deleteEventLog (esvc\<lparr>eventLogSqlReader := s''\<rparr>) i = deleteEventLog esvc i \<and>
    take 1 (fst (deleteEventLog esvc i)) = [SheetGetEventLogs] \<and>
    SqlGetEventLogs \<notin> set (fst (deleteEventLog esvc i)) \<and>
    (\<forall>logs. eventReader esvc = Returns (Rows logs) \<and>
       find (\<lambda>l. strictEq (field l ''eventId'') i) logs = None \<longrightarrow>
       deleteEventLog esvc i = ([SheetGetEventLogs], Inl (DeleteEventIdNotFound i))) \<and>
    (\<forall>c\<in>set (fst (deleteEventLog esvc i)). isWriteCall c \<longrightarrow>
       (\<exists>logs l. eventReader esvc = Returns (Rows logs) \<and>
          find (\<lambda>l. strictEq (field l ''eventId'') i) logs = Some l \<and>
          c = WriterDeleteEventLog (field l ''rowIndex'') (field l ''eventType'')))) \<and>
   (\<forall>v. announcementSqlReader asvc = Some (Returns v) \<longrightarrow>
      SheetGetAnnouncements \<notin> set (fst (updateAnnouncement asvc a d' u')) \<and>
      SheetGetAnnouncements \<notin> set (fst (deleteAnnouncement asvc a)) \<and>
      (\<forall>c\<in>set (fst (updateAnnouncement asvc a d' u')). isWriteCall c \<longrightarrow>
         (\<exists>sqlRows t. v = Rows sqlRows \<and>
            find (\<lambda>row. strictEq (field row ''id'') a) sqlRows = Some t \<and>
            truthy (field t ''rowIndex'') \<and>
            c = WriterUpdateAnnouncement (field t ''rowIndex'') d' (announcementModifier u'))) \<and>
      (\<forall>c\<in>set (fst (deleteAnnouncement asvc a)). isWriteCall c \<longrightarrow>
         (\<exists>sqlRows t. v = Rows sqlRows \<and>
            find (\<lambda>row. strictEq (field row ''id'') a) sqlRows = Some t \<and>
            truthy (field t ''rowIndex'') \<and>
            c = WriterDeleteAnnouncement (field t ''rowIndex''))))"
proof -
  have uo: "\<forall>c\<in>set (fst (updateOpportunity rt osvc r d u)). isWriteCall c \<longrightarrow>
       (\<exists>xs opp. opportunityReader osvc = Returns (Rows xs) \<and>
          find (\<lambda>opp. strictEq (field opp ''rowIndex'') (JNum (parseInt rt r))) xs = Some opp \<and>
          (c = WriterUpdateOpportunity r d (opportunityModifier u) \<or>
           (\<exists>cfg. systemReader osvc = Returns cfg \<and>
              c = CreateInteraction
                    (OpportunityUpdated (field opp ''opportunityId'') (changeLines cfg opp d)
                       (opportunityModifier u)))))"
    using updateOpportunity_writes by blast
  have un: "\<forall>xs. opportunityReader osvc = Returns (Rows xs) \<and>
       find (\<lambda>opp. strictEq (field opp ''rowIndex'') (JNum (parseInt rt r))) xs = None \<longrightarrow>
       updateOpportunity rt osvc r d u = ([SheetGetOpportunities], Inl (OpportunityNotFound r))"
    using updateOpportunity_not_found by blast
  have dl: "\<forall>c\<in>set (fst (deleteOpportunity rt osvc r u)). isWriteCall c \<longrightarrow>
       (\<exists>xs opp. opportunityReader osvc = Returns (Rows xs) \<and>
          find (\<lambda>opp. strictEq (field opp ''rowIndex'') (JNum (parseInt rt r))) xs = Some opp \<and>
          (c = WriterDeleteOpportunity r (opportunityModifier u) \<or>
           (\<exists>company. c = CreateInteraction
                    (OpportunityDeleted (field company ''companyId'')
                       (field opp ''opportunityName'') (field opp ''opportunityId'')
                       (opportunityModifier u)))))"
    using deleteOpportunity_writes by blast
  have dn: "\<forall>xs. opportunityReader osvc = Returns (Rows xs) \<and>
       find (\<lambda>opp. strictEq (field opp ''rowIndex'') (JNum (parseInt rt r))) xs = None \<longrightarrow>
       deleteOpportunity rt osvc r u = ([SheetGetOpportunities], Inl (OpportunityNotFound r))"
    using deleteOpportunity_not_found by blast
  have fc: "\<forall>v. snd (findCompanyRowIndex rt csvc n) = Inr v \<longrightarrow>
       (\<exists>before c after target.
          companyReader csvc = Returns (Rows (before @ c # after)) \<and>
          normalizeCompanyName rt (JStr n) = Inr target \<and>
          normalizeCompanyName rt (field c ''companyName'') = Inr target \<and>
          (\<forall>b\<in>set before. \<exists>nb. normalizeCompanyName rt (field b ''companyName'') = Inr nb \<and>
             nb \<noteq> target) \<and>
          v = field c ''rowIndex'' \<and> truthy v)"
    using findCompanyRowIndex_first by blast
  have ue: "\<forall>c\<in>set (fst (updateEventLog rt esvc x data m)). isWriteCall c \<longrightarrow>
       (\<exists>logs. eventReader esvc = Returns (Rows logs) \<and>
          ((\<exists>orig dd. data = Some dd \<and>
              locateOriginal rt (Rows logs) x data = Inr (Some orig) \<and>
              orig \<in> set logs \<and> isMove orig dd \<and>
              (c = WriterDeleteEventLog (field orig ''rowIndex'') (field orig ''eventType'') \<or>
               c = WriterCreateEventLog (movePayload dd orig) m)) \<or>
           (\<not> (isString x \<and> isNaN (toNumber rt x)) \<and> isInteger (toNumber rt x) \<and>
            c = WriterUpdateEventLog (JNum (toNumber rt x)) data
                  (eventModifier (Some [''displayName'' \<mapsto> m]))) \<or>
           (\<exists>l. isString x \<and> isNaN (toNumber rt x) \<and>
              find (\<lambda>l. strictEq (field l ''eventId'') x) logs = Some l \<and>
              truthy (field l ''rowIndex'') \<and> isInteger (toNumber rt (field l ''rowIndex'')) \<and>
              c = WriterUpdateEventLog (JNum (toNumber rt (field l ''rowIndex''))) data
                    (eventModifier (Some [''displayName'' \<mapsto> m])))))"
    using updateEventLog_writes by blast
  have de: "\<forall>c\<in>set (fst (deleteEventLog esvc i)). isWriteCall c \<longrightarrow>
       (\<exists>logs l. eventReader esvc = Returns (Rows logs) \<and>
          find (\<lambda>l. strictEq (field l ''eventId'') i) logs = Some l \<and>
          c = WriterDeleteEventLog (field l ''rowIndex'') (field l ''eventType''))"
    using deleteEventLog_writes by blast
  have dm: "\<forall>logs. eventReader esvc = Returns (Rows logs) \<and>
       find (\<lambda>l. strictEq (field l ''eventId'') i) logs = None \<longrightarrow>
       deleteEventLog esvc i = ([SheetGetEventLogs], Inl (DeleteEventIdNotFound i))"
    using deleteEventLog_not_found by blast
  have ds: "SqlGetEventLogs \<notin> set (fst (deleteEventLog esvc i))"
    using deleteEventLog_calls [of SqlGetEventLogs esvc i] by auto
  have an: "\<forall>v. announcementSqlReader asvc = Some (Returns v) \<longrightarrow>
      SheetGetAnnouncements \<notin> set (fst (updateAnnouncement asvc a d' u')) \<and>
      SheetGetAnnouncements \<notin> set (fst (deleteAnnouncement asvc a)) \<and>
      (\<forall>c\<in>set (fst (updateAnnouncement asvc a d' u')). isWriteCall c \<longrightarrow>
         (\<exists>sqlRows t. v = Rows sqlRows \<and>
            find (\<lambda>row. strictEq (field row ''id'') a) sqlRows = Some t \<and>
            truthy (field t ''rowIndex'') \<and>
            c = WriterUpdateAnnouncement (field t ''rowIndex'') d' (announcementModifier u'))) \<and>
      (\<forall>c\<in>set (fst (deleteAnnouncement asvc a)). isWriteCall c \<longrightarrow>
         (\<exists>sqlRows t. v = Rows sqlRows \<and>
            find (\<lambda>row. strictEq (field row ''id'') a) sqlRows = Some t \<and>
            truthy (field t ''rowIndex'') \<and>
            c = WriterDeleteAnnouncement (field t ''rowIndex'')))"
    using announcement_sql_lookup announcement_writes by blast
  have o1: "updateOpportunity rt (osvc\<lparr>opportunitySqlReader := s\<rparr>) r d u = updateOpportunity rt osvc r d u \<and>
    take 1 (fst (updateOpportunity rt osvc r d u)) = [SheetGetOpportunities] \<and>
    SqlGetOpportunities \<notin> set (fst (updateOpportunity rt osvc r d u))"
    by (simp add: sql_independence updateOpportunity_first updateOpportunity_no_sql)
  have o2: "deleteOpportunity rt (osvc\<lparr>opportunitySqlReader := s\<rparr>) r u = deleteOpportunity rt osvc r u \<and>
    take 1 (fst (deleteOpportunity rt osvc r u)) = [SheetGetOpportunities] \<and>
    SqlGetOpportunities \<notin> set (fst (deleteOpportunity rt osvc r u))"
    by (simp add: sql_independence deleteOpportunity_first deleteOpportunity_no_sql)
  have c1: "findCompanyRowIndex rt (csvc\<lparr>companySqlReader := s'\<rparr>) n = findCompanyRowIndex rt csvc n \<and>
    fst (findCompanyRowIndex rt csvc n) = [SheetGetCompanyList]"
    by (simp add: sql_independence findCompanyRowIndex_trace)
  have e1: "updateEventLog rt (esvc\<lparr>eventLogSqlReader := s''\<rparr>) x data m = updateEventLog rt esvc x data m \<and>
    take 1 (fst (updateEventLog rt esvc x data m)) = [SheetGetEventLogs] \<and>
    SqlGetEventLogs \<notin> set (fst (updateEventLog rt esvc x data m))"
    by (simp add: sql_independence updateEventLog_first updateEventLog_no_sql)
  have e2: "deleteEventLog (esvc\<lparr>eventLogSqlReader := s''\<rparr>) i = deleteEventLog esvc i \<and>
    take 1 (fst (deleteEventLog esvc i)) = [SheetGetEventLogs] \<and>
    SqlGetEventLogs \<notin> set (fst (deleteEventLog esvc i))"
    by (simp add: sql_independence deleteEventLog_first ds)
  show ?thesis
    using o1 un uo o2 dn dl c1 fc e1 ue e2 dm de an by blast
qed

lemma opportunityRow4_fields:
  "field opportunityRow4 ''rowIndex'' = JNum (Finite 4)"
  "field opportunityRow4 ''opportunityId'' = JStr (ascii ''O1'')"
  by (simp_all add: opportunityRow4_def field_def)

lemma someUser_modifiers:
  "opportunityModifier someUser = JStr (ascii ''amy'')"
  "announcementModifier someUser = JStr (ascii ''amy'')"
  by (simp_all add: opportunityModifier_def announcementModifier_def someUser_def field_def
      or_js_def ascii_def)

lemma parseInt_4: "parseInt exampleRuntime (JStr (ascii ''4'')) = Finite 4"
  by (simp add: parseInt_def number_eval)

lemma changeLines_nothing: "changeLines cfg original Map.empty = []"
  by (simp add: changeLines_def changed_def field_def Let_def)

lemma acme_normalized:
  "normalizeCompanyName exampleRuntime (JStr (ascii ''Acme'')) = Inr (ascii ''acme'')"
  by (simp add: normalize_eval ascii_def)

lemma findCompanyRowIndex_example:
  "findCompanyRowIndex exampleRuntime
      (companiesWith (Returns (Rows [sqlCompanyRow])) (Returns (Rows [sheetCompanyRow])))
      (ascii ''Acme'') =
     ([SheetGetCompanyList], Inr (JNum (Finite 2)))"
proof -
  have f: "field sheetCompanyRow ''companyName'' = JStr (ascii ''Acme'')"
    "field sheetCompanyRow ''rowIndex'' = JNum (Finite 2)"
    by (simp_all add: sheetCompanyRow_def field_def)
  show ?thesis
    by (simp add: findCompanyRowIndex_def companiesWith_simps acme_normalized
        sameNormalizedName_def f effect_defs)
qed

lemma deleteEventLog_example:
  "deleteEventLog (sheetEvents [eventE1]) (JStr (ascii ''E1'')) =
     ([SheetGetEventLogs,
       WriterDeleteEventLog (JNum (Finite 5)) (JStr (ascii ''Meeting'')),
       InvalidateEventCache],
      Inr (ObjResult [''success'' \<mapsto> JBool True]))"
  by (simp add: deleteEventLog_def deleteEvent_def sheetEvents_simps findInRows_def
      eventE1_fields invalidateEventCacheSafe_def effect_defs)

lemma deleteOpportunity_example:
  "deleteOpportunity exampleRuntime
      (opportunitiesWith (Returns (Rows [opportunityRow4])) (Returns (Rows [opportunityRow4])))
      (JStr (ascii ''4'')) someUser =
     ([SheetGetOpportunities,
       WriterDeleteOpportunity (JStr (ascii ''4'')) (JStr (ascii ''amy'')),
       InvalidateCache ''opportunities''],
      Inr (ObjResult [''success'' \<mapsto> JBool True]))"
proof -
  let ?svc = "opportunitiesWith (Returns (Rows [opportunityRow4])) (Returns (Rows [opportunityRow4]))"
  have s: "opportunityReader ?svc = Returns (Rows [opportunityRow4])"
    "opportunityWriterDelete ?svc = Returns (ObjResult [''success'' \<mapsto> JBool True])"
    "opportunityReaderInvalidateCache ?svc"
    by (simp_all add: opportunitiesWith_def)
  have c: "field opportunityRow4 ''customerCompany'' = JUndefined"
    by (simp add: opportunityRow4_def field_def)
  have ok: "resultSuccess (ObjResult [''success'' \<mapsto> JBool True]) = Inr (JBool True)"
    by (simp add: resultSuccess_def field_def)
  show ?thesis
    by (simp add: deleteOpportunity_def fetchOpportunities_forced s someUser_modifiers parseInt_4
        findInRows_def opportunityRow4_fields invalidateOpportunities_def ok c effect_defs)
qed

lemma parseInt_9: "parseInt exampleRuntime (JStr (ascii ''9'')) = Finite 9"
  by (simp add: parseInt_def number_eval)

lemma parseInt_number: "parseInt exampleRuntime (JNum (Finite 4)) = Finite 4"
  by (simp add: parseInt_def number_eval printNumber_def decimalDigits.simps)

lemma updateOpportunity_example:
  "updateOpportunity exampleRuntime
      (opportunitiesWith (Returns (Rows [opportunityRow4])) (Returns (Rows [opportunityRow4])))
      (JStr (ascii ''4'')) Map.empty someUser =
     ([SheetGetOpportunities, GetSystemConfig,
       WriterUpdateOpportunity (JStr (ascii ''4'')) Map.empty (JStr (ascii ''amy'')),
       InvalidateCache ''opportunities''],
      Inr (ObjResult [''success'' \<mapsto> JBool True]))"
proof -
  let ?osvc = "opportunitiesWith (Returns (Rows [opportunityRow4])) (Returns (Rows [opportunityRow4]))"
  have s: "opportunityReader ?osvc = Returns (Rows [opportunityRow4])"
    "systemReader ?osvc = Returns \<lparr> opportunityStages = [], teamMembers = [] \<rparr>"
    "opportunityWriterUpdate ?osvc = Returns (ObjResult [''success'' \<mapsto> JBool True])"
    "opportunityReaderInvalidateCache ?osvc"
    by (simp_all add: opportunitiesWith_def)
  show ?thesis
    by (simp add: updateOpportunity_def fetchOpportunities_forced s someUser_modifiers parseInt_4
        findInRows_def opportunityRow4_fields changeLines_nothing invalidateOpportunities_def
        effect_defs)
qed

lemma updateEventLog_by_number_example:
  "updateEventLog exampleRuntime (sheetEvents [eventE1]) (JNum (Finite 42)) (Some Map.empty)
      (JStr (ascii ''amy'')) =
     ([SheetGetEventLogs,
       WriterUpdateEventLog (JNum (Finite 42)) (Some Map.empty) (JStr (ascii ''amy'')),
       InvalidateEventCache],
      Inr (ObjResult [''success'' \<mapsto> JBool True]))"
proof -
  have i: "inputEventIdOf (Some Map.empty) = JNull"
    by (simp add: inputEventIdOf_def optField_def field_def or_js_def)
  have 1: "locateOriginal exampleRuntime (Rows [eventE1]) (JNum (Finite 42)) (Some Map.empty) =
      Inr None"
    by (simp add: locateOriginal_def i findInRows_def eventE1_fields)
  have 2: "resolveRowIndex exampleRuntime (Rows [eventE1]) (JNum (Finite 42)) = Inr (Finite 42)"
    by (simp add: resolveRowIndex_def)
  have 3: "eventModifier (Some [''displayName'' \<mapsto> JStr (ascii ''amy'')]) = JStr (ascii ''amy'')"
    by (simp add: eventModifier_def field_def or_js_def ascii_def)
  show ?thesis
    by (simp add: 1 2 3 updateEventLog_def updateEvent_def invalidateEventCacheSafe_def
        sheetEvents_simps effect_defs)
qed

lemma updateAnnouncement_example:
  "updateAnnouncement (sqlAnnouncements [announcementRow7] [announcementRow3]) (JStr (ascii ''A1''))
      Map.empty someUser =
     ([SqlGetAnnouncements,
       WriterUpdateAnnouncement (JNum (Finite 7)) Map.empty (JStr (ascii ''amy''))],
      Inr (ObjResult [''success'' \<mapsto> JBool True]))"
proof -
  have f: "field announcementRow7 ''id'' = JStr (ascii ''A1'')"
    "field announcementRow7 ''rowIndex'' = JNum (Finite 7)"
    by (simp_all add: announcementRow7_def field_def)
  show ?thesis
    by (simp add: updateAnnouncement_def fetchInternal_sql findInRows_def f
        someUser_modifiers sqlAnnouncements_simps effect_defs)
qed

lemma updateEventLog_move_example:
  "updateEventLog exampleRuntime (sheetEvents [eventE1]) (JNum (Finite 5)) (Some toCall)
      (JStr (ascii ''amy'')) =
     ([SheetGetEventLogs,
       WriterDeleteEventLog (JNum (Finite 5)) (JStr (ascii ''Meeting'')),
       WriterCreateEventLog (movePayload toCall eventE1) (JStr (ascii ''amy'')),
       InvalidateEventCache],
      Inr (ObjResult [''success'' \<mapsto> JBool True, ''moved'' \<mapsto> JBool True]))"
proof -
  have 1: "locateOriginal exampleRuntime (Rows [eventE1]) (JNum (Finite 5)) (Some toCall) =
      Inr (Some eventE1)"
    by (simp add: locateOriginal_def inputEventIdOf_def optField_def toCall_fields or_js_def
        findInRows_def eventE1_fields)
  have 2: "resolveRowIndex exampleRuntime (Rows [eventE1]) (JNum (Finite 5)) = Inr (Finite 5)"
    by (simp add: resolveRowIndex_def)
  have 3: "isMove eventE1 toCall"
    by (simp add: isMove_def eventE1_fields toCall_fields ascii_def)
  show ?thesis
    by (simp add: 1 2 3 updateEventLog_def moveEvent_def invalidateEventCacheSafe_def
        sheetEvents_simps eventE1_fields markMoved_def effect_defs)
qed

text \<open>
  Opportunity \<open>O1\<close> is at row 4 of the sheet, company Acme at row 2, event \<open>E1\<close> at row 5;
  the SQL reader of the announcements serves \<open>A1\<close> with row index 7.
\<close>

theorem row_index_lookup_reads_sheet_witness:
  "updateOpportunity exampleRuntime
      (opportunitiesWith (Returns (Rows [opportunityRow4])) (Returns (Rows [opportunityRow4])))
      (JStr (ascii ''4'')) Map.empty someUser =
     ([SheetGetOpportunities, GetSystemConfig,
       WriterUpdateOpportunity (JStr (ascii ''4'')) Map.empty (JStr (ascii ''amy'')),
       InvalidateCache ''opportunities''],
      Inr (ObjResult [''success'' \<mapsto> JBool True])) \<and>
   find (\<lambda>opp. strictEq (field opp ''rowIndex'') (JNum (Finite 4))) [opportunityRow4] =
     Some opportunityRow4 \<and>
   updateOpportunity exampleRuntime
      (opportunitiesWith (Returns (Rows [opportunityRow4])) (Returns (Rows [opportunityRow4])))
      (JStr (ascii ''9'')) Map.empty someUser =
     ([SheetGetOpportunities], Inl (OpportunityNotFound (JStr (ascii ''9'')))) \<and>
   deleteOpportunity exampleRuntime
      (opportunitiesWith (Returns (Rows [opportunityRow4])) (Returns (Rows [opportunityRow4])))
      (JStr (ascii ''4'')) someUser =
     ([SheetGetOpportunities,
       WriterDeleteOpportunity (JStr (ascii ''4'')) (JStr (ascii ''amy'')),
       InvalidateCache ''opportunities''],
      Inr (ObjResult [''success'' \<mapsto> JBool True])) \<and>
   deleteOpportunity exampleRuntime
      (opportunitiesWith (Returns (Rows [opportunityRow4])) (Returns (Rows [opportunityRow4])))
      (JStr (ascii ''9'')) someUser =
     ([SheetGetOpportunities], Inl (OpportunityNotFound (JStr (ascii ''9'')))) \<and>
   findCompanyRowIndex exampleRuntime
      (companiesWith (Returns (Rows [sqlCompanyRow])) (Returns (Rows [sheetCompanyRow])))
      (ascii ''Acme'') =
     ([SheetGetCompanyList], Inr (JNum (Finite 2))) \<and>
   (\<exists>before c after.
      [sheetCompanyRow] = before @ c # after \<and>
      normalizeCompanyName exampleRuntime (field c ''companyName'') = Inr (ascii ''acme'') \<and>
      field c ''rowIndex'' = JNum (Finite 2)) \<and>
   deleteEventLog (sheetEvents [eventE1]) (JStr (ascii ''E1'')) =
     ([SheetGetEventLogs,
       WriterDeleteEventLog (JNum (Finite 5)) (JStr (ascii ''Meeting'')),
       InvalidateEventCache],
      Inr (ObjResult [''success'' \<mapsto> JBool True])) \<and>
   find (\<lambda>l. strictEq (field l ''eventId'') (JStr (ascii ''E1''))) [eventE1] = Some eventE1 \<and>
   deleteEventLog (sheetEvents [eventE1]) (JStr (ascii ''E9'')) =
     ([SheetGetEventLogs], Inl (DeleteEventIdNotFound (JStr (ascii ''E9'')))) \<and>
   updateEventLog exampleRuntime (sheetEvents [eventE1]) (JNum (Finite 42)) (Some Map.empty)
      (JStr (ascii ''amy'')) =
     ([SheetGetEventLogs,
       WriterUpdateEventLog (JNum (Finite 42)) (Some Map.empty) (JStr (ascii ''amy'')),
       InvalidateEventCache],
      Inr (ObjResult [''success'' \<mapsto> JBool True])) \<and>
   \<not> isString (JNum (Finite 42)) \<and> isInteger (toNumber exampleRuntime (JNum (Finite 42))) \<and>
   find (\<lambda>l. strictEq (JNum (toNumber exampleRuntime (field l ''rowIndex''))) (JNum (Finite 42)))
     [eventE1] = None \<and>
   updateEventLog exampleRuntime (sheetEvents [eventE1]) (JStr (ascii ''E1'')) (Some toCall)
      (JStr (ascii ''amy'')) =
     ([SheetGetEventLogs,
       WriterUpdateEventLog (JNum (Finite 5)) (Some toCall) (JStr (ascii ''amy'')),
       InvalidateEventCache],
      Inr (ObjResult [''success'' \<mapsto> JBool True])) \<and>
   (\<exists>l. find (\<lambda>l. strictEq (field l ''eventId'') (JStr (ascii ''E1''))) [eventE1] = Some l \<and>
      truthy (field l ''rowIndex'') \<and> toNumber exampleRuntime (field l ''rowIndex'') = Finite 5) \<and>
   updateEventLog exampleRuntime (sheetEvents [eventE1]) (JNum (Finite 5)) (Some toCall)
      (JStr (ascii ''amy'')) =
     ([SheetGetEventLogs,
       WriterDeleteEventLog (JNum (Finite 5)) (JStr (ascii ''Meeting'')),
       WriterCreateEventLog (movePayload toCall eventE1) (JStr (ascii ''amy'')),
       InvalidateEventCache],
      Inr (ObjResult [''success'' \<mapsto> JBool True, ''moved'' \<mapsto> JBool True])) \<and>
   (\<exists>orig. locateOriginal exampleRuntime (Rows [eventE1]) (JNum (Finite 5)) (Some toCall) =
        Inr (Some orig) \<and>
      orig \<in> set [eventE1] \<and> isMove orig toCall \<and>
      field orig ''rowIndex'' = JNum (Finite 5) \<and>
      field orig ''eventType'' = JStr (ascii ''Meeting'')) \<and>
   updateAnnouncement (sqlAnnouncements [announcementRow7] [announcementRow3]) (JStr (ascii ''A1''))
      Map.empty someUser =
     ([SqlGetAnnouncements,
       WriterUpdateAnnouncement (JNum (Finite 7)) Map.empty (JStr (ascii ''amy''))],
      Inr (ObjResult [''success'' \<mapsto> JBool True])) \<and>
   find (\<lambda>row. strictEq (field row ''id'') (JStr (ascii ''A1''))) [announcementRow7] =
     Some announcementRow7 \<and>
   SheetGetAnnouncements \<notin>
     set (fst (updateAnnouncement (sqlAnnouncements [announcementRow7] [announcementRow3])
                 (JStr (ascii ''A1'')) Map.empty someUser))"
proof -
  let ?osvc = "opportunitiesWith (Returns (Rows [opportunityRow4])) (Returns (Rows [opportunityRow4]))"
  let ?csvc = "companiesWith (Returns (Rows [sqlCompanyRow])) (Returns (Rows [sheetCompanyRow]))"
  let ?asvc = "sqlAnnouncements [announcementRow7] [announcementRow3]"
  let ?amy = "JStr (ascii ''amy'')"
  note found = row_index_lookup_reads_sheet [where rt = exampleRuntime and osvc = ?osvc
      and r = "JStr (ascii ''4'')" and d = Map.empty and u = someUser
      and csvc = ?csvc and n = "ascii ''Acme''"
      and esvc = "sheetEvents [eventE1]" and i = "JStr (ascii ''E1'')"
      and x = "JNum (Finite 42)" and data = "Some Map.empty" and m = ?amy
      and asvc = ?asvc and a = "JStr (ascii ''A1'')" and d' = Map.empty and u' = someUser
      and s = None and s' = None and s'' = None]
  note missing = row_index_lookup_reads_sheet [where rt = exampleRuntime and osvc = ?osvc
      and r = "JStr (ascii ''9'')" and d = Map.empty and u = someUser
      and csvc = ?csvc and n = "ascii ''Acme''"
      and esvc = "sheetEvents [eventE1]" and i = "JStr (ascii ''E9'')"
      and x = "JNum (Finite 42)" and data = "Some Map.empty" and m = ?amy
      and asvc = ?asvc and a = "JStr (ascii ''A1'')" and d' = Map.empty and u' = someUser
      and s = None and s' = None and s'' = None]
  note byId = row_index_lookup_reads_sheet [where rt = exampleRuntime and osvc = ?osvc
      and r = "JStr (ascii ''4'')" and d = Map.empty and u = someUser
      and csvc = ?csvc and n = "ascii ''Acme''"
      and esvc = "sheetEvents [eventE1]" and i = "JStr (ascii ''E1'')"
      and x = "JStr (ascii ''E1'')" and data = "Some toCall" and m = ?amy
      and asvc = ?asvc and a = "JStr (ascii ''A1'')" and d' = Map.empty and u' = someUser
      and s = None and s' = None and s'' = None]
  note moving = row_index_lookup_reads_sheet [where rt = exampleRuntime and osvc = ?osvc
      and r = "JStr (ascii ''4'')" and d = Map.empty and u = someUser
      and csvc = ?csvc and n = "ascii ''Acme''"
      and esvc = "sheetEvents [eventE1]" and i = "JStr (ascii ''E1'')"
      and x = "JNum (Finite 5)" and data = "Some toCall" and m = ?amy
      and asvc = ?asvc and a = "JStr (ascii ''A1'')" and d' = Map.empty and u' = someUser
      and s = None and s' = None and s'' = None]
  note opportunityUpdate = found [THEN conjunct1]
  note opportunityDelete = found [THEN conjunct2, THEN conjunct1]
  note company = found [THEN conjunct2, THEN conjunct2, THEN conjunct1]
  note eventUpdate = found [THEN conjunct2, THEN conjunct2, THEN conjunct2, THEN conjunct1]
  note eventDelete =
    found [THEN conjunct2, THEN conjunct2, THEN conjunct2, THEN conjunct2, THEN conjunct1]
  note announcement =
    found [THEN conjunct2, THEN conjunct2, THEN conjunct2, THEN conjunct2, THEN conjunct2]
  have r4: "find (\<lambda>opp. strictEq (field opp ''rowIndex'') (JNum (Finite 4))) [opportunityRow4] =
     Some opportunityRow4"
    using opportunityUpdate unfolding updateOpportunity_example parseInt_4 opportunitiesWith_simps
    by (auto split: if_splits)
  have u9: "updateOpportunity exampleRuntime ?osvc (JStr (ascii ''9'')) Map.empty someUser =
     ([SheetGetOpportunities], Inl (OpportunityNotFound (JStr (ascii ''9''))))"
    using missing [THEN conjunct1]
    by (simp add: opportunitiesWith_simps parseInt_9 opportunityRow4_fields)
  have d9: "deleteOpportunity exampleRuntime ?osvc (JStr (ascii ''9'')) someUser =
     ([SheetGetOpportunities], Inl (OpportunityNotFound (JStr (ascii ''9''))))"
    using missing [THEN conjunct2, THEN conjunct1]
    by (simp add: opportunitiesWith_simps parseInt_9 opportunityRow4_fields)
  have c2: "\<exists>before c after.
      [sheetCompanyRow] = before @ c # after \<and>
      normalizeCompanyName exampleRuntime (field c ''companyName'') = Inr (ascii ''acme'') \<and>
      field c ''rowIndex'' = JNum (Finite 2)"
  proof -
    have "snd (findCompanyRowIndex exampleRuntime ?csvc (ascii ''Acme'')) = Inr (JNum (Finite 2))"
      by (simp add: findCompanyRowIndex_example)
    from company [THEN conjunct2, THEN conjunct2, rule_format, OF this]
    obtain before c after target where
      split: "companyReader ?csvc = Returns (Rows (before @ c # after))"
      and target: "normalizeCompanyName exampleRuntime (JStr (ascii ''Acme'')) = Inr target"
      and same: "normalizeCompanyName exampleRuntime (field c ''companyName'') = Inr target"
      and row: "JNum (Finite 2) = field c ''rowIndex''"
      by blast
    from split have "[sheetCompanyRow] = before @ c # after"
      by (simp only: companiesWith_simps reply.inject rows.inject)
    moreover from target have "target = ascii ''acme''"
      by (simp only: acme_normalized sum.inject)
    ultimately show ?thesis
      using same row by metis
  qed
  have e1: "find (\<lambda>l. strictEq (field l ''eventId'') (JStr (ascii ''E1''))) [eventE1] = Some eventE1"
    using eventDelete unfolding deleteEventLog_example sheetEvents_simps
    by (auto split: if_splits)
  have e9: "deleteEventLog (sheetEvents [eventE1]) (JStr (ascii ''E9'')) =
     ([SheetGetEventLogs], Inl (DeleteEventIdNotFound (JStr (ascii ''E9''))))"
    using missing [THEN conjunct2, THEN conjunct2, THEN conjunct2, THEN conjunct2, THEN conjunct1]
    by (simp add: sheetEvents_simps eventE1_fields ascii_def)
  have n42: "\<not> isString (JNum (Finite 42)) \<and> isInteger (toNumber exampleRuntime (JNum (Finite 42)))"
    using eventUpdate unfolding updateEventLog_by_number_example
    by simp
  have none42: "find (\<lambda>l. strictEq (JNum (toNumber exampleRuntime (field l ''rowIndex'')))
      (JNum (Finite 42))) [eventE1] = None"
    by (simp add: eventE1_fields)
  have id5: "\<exists>l. find (\<lambda>l. strictEq (field l ''eventId'') (JStr (ascii ''E1''))) [eventE1] = Some l \<and>
      truthy (field l ''rowIndex'') \<and> toNumber exampleRuntime (field l ''rowIndex'') = Finite 5"
  proof -
    let ?c = "WriterUpdateEventLog (JNum (Finite 5)) (Some toCall) ?amy"
    have nan: "isString (JStr (ascii ''E1'')) \<and> isNaN (toNumber exampleRuntime (JStr (ascii ''E1'')))"
      by (simp add: isNaN_def number_eval)
    have "?c \<in> set (fst (updateEventLog exampleRuntime (sheetEvents [eventE1]) (JStr (ascii ''E1''))
        (Some toCall) ?amy))" "isWriteCall ?c"
      by (simp_all add: updateEventLog_id_as_first_argument)
    from byId [THEN conjunct2, THEN conjunct2, THEN conjunct2, THEN conjunct1, THEN conjunct2,
        THEN conjunct2, THEN conjunct2, rule_format, OF this]
    obtain logs where logs: "eventReader (sheetEvents [eventE1]) = Returns (Rows logs)"
      and l: "\<exists>l. find (\<lambda>l. strictEq (field l ''eventId'') (JStr (ascii ''E1''))) logs = Some l \<and>
        truthy (field l ''rowIndex'') \<and>
        ?c = WriterUpdateEventLog (JNum (toNumber exampleRuntime (field l ''rowIndex'')))
               (Some toCall) (eventModifier (Some [''displayName'' \<mapsto> ?amy]))"
      using nan by auto
    from logs have "logs = [eventE1]"
      by (simp only: sheetEvents_simps reply.inject rows.inject)
    with l show ?thesis
      by (auto split: if_splits)
  qed
  have mv5: "\<exists>orig. locateOriginal exampleRuntime (Rows [eventE1]) (JNum (Finite 5)) (Some toCall) =
        Inr (Some orig) \<and>
      orig \<in> set [eventE1] \<and> isMove orig toCall \<and>
      field orig ''rowIndex'' = JNum (Finite 5) \<and>
      field orig ''eventType'' = JStr (ascii ''Meeting'')"
  proof -
    let ?c = "WriterDeleteEventLog (JNum (Finite 5)) (JStr (ascii ''Meeting''))"
    have "?c \<in> set (fst (updateEventLog exampleRuntime (sheetEvents [eventE1]) (JNum (Finite 5))
        (Some toCall) ?amy))" "isWriteCall ?c"
      by (simp_all add: updateEventLog_move_example)
    from moving [THEN conjunct2, THEN conjunct2, THEN conjunct2, THEN conjunct1, THEN conjunct2,
        THEN conjunct2, THEN conjunct2, rule_format, OF this]
    obtain logs orig where logs: "eventReader (sheetEvents [eventE1]) = Returns (Rows logs)"
      and orig: "locateOriginal exampleRuntime (Rows logs) (JNum (Finite 5)) (Some toCall) =
          Inr (Some orig)" "orig \<in> set logs" "isMove orig toCall"
        "JNum (Finite 5) = field orig ''rowIndex''"
        "JStr (ascii ''Meeting'') = field orig ''eventType''"
      by auto
    from logs have "logs = [eventE1]"
      by (simp only: sheetEvents_simps reply.inject rows.inject)
    with orig show ?thesis
      by auto
  qed
  have a7: "find (\<lambda>row. strictEq (field row ''id'') (JStr (ascii ''A1''))) [announcementRow7] =
     Some announcementRow7"
    using announcement unfolding updateAnnouncement_example sqlAnnouncements_simps
    by (auto split: if_splits)
  have a0: "SheetGetAnnouncements \<notin> set (fst (updateAnnouncement ?asvc (JStr (ascii ''A1''))
      Map.empty someUser))"
    using announcement by (simp add: sqlAnnouncements_simps)
  show ?thesis
    using updateOpportunity_example r4 u9 deleteOpportunity_example d9 findCompanyRowIndex_example
      c2 deleteEventLog_example e1 e9 updateEventLog_by_number_example n42 none42
      updateEventLog_id_as_first_argument id5 updateEventLog_move_example mv5
      updateAnnouncement_example a7 a0
    by simp
qed

text \<open>
  An announcement update is looked up in what the SQL reader returns, and the sheet reader
  is never read. With SQL rows that carry no row index the update is refused although the
  sheet holds the announcement at row 3; with a SQL row that carries a row index, here 7,
  that row is the one written.
\<close>

theorem announcement_lookup_is_sql_first:
  "updateAnnouncement (sqlAnnouncements [announcementA1] [announcementRow3]) (JStr (ascii ''A1''))
      Map.empty someUser =
     ([SqlGetAnnouncements], Inl ForbiddenUpdate) \<and>
   updateAnnouncement (sqlAnnouncements [announcementRow7] [announcementRow3]) (JStr (ascii ''A1''))
      Map.empty someUser =
     ([SqlGetAnnouncements,
       WriterUpdateAnnouncement (JNum (Finite 7)) Map.empty (JStr (ascii ''amy''))],
      Inr (ObjResult [''success'' \<mapsto> JBool True]))"
proof -
  have f: "field announcementRow7 ''id'' = JStr (ascii ''A1'')"
    "field announcementRow7 ''rowIndex'' = JNum (Finite 7)"
    by (simp_all add: announcementRow7_def field_def)
  show ?thesis
    by (simp add: updateAnnouncement_def fetchInternal_sql findInRows_def announcementA1_fields f
        someUser_modifiers sqlAnnouncements_simps effect_defs)
qed

section \<open>Links without a status\<close>

lemma fetchOfficial_example:
  "fetchOfficialContactsWithCompanies (contactsWithLinks links) False =
     Inr [contactP1(''companyName'' \<mapsto> JStr (ascii ''C1''))]"
  by (simp add: fetchOfficialContactsWithCompanies_def sqlContacts_def contactsWithLinks_def
      mapOfficialContact_def mapGet_def or_js_def contactP1_def field_def ascii_def)

lemma link_fields:
  "field linkNoStatus ''opportunityId'' = JStr (ascii ''O1'')"
  "field linkNoStatus ''contactId'' = JStr (ascii ''P1'')"
  "field linkNoStatus ''status'' = JUndefined"
  "field linkActive ''opportunityId'' = JStr (ascii ''O1'')"
  "field linkActive ''contactId'' = JStr (ascii ''P1'')"
  "field linkActive ''status'' = JStr (ascii ''active'')"
  by (simp_all add: linkNoStatus_def linkActive_def field_def)

lemma linkedContactIds_example:
  "linkedContactIds [linkNoStatus] (JStr (ascii ''O1'')) = []"
  "linkedContactIds [linkActive] (JStr (ascii ''O1'')) = [JStr (ascii ''P1'')]"
  by (simp_all add: linkedContactIds_def link_fields)

lemma getLinkedContacts_unfold:
  "getLinkedContacts rt (contactsWithLinks links) opp =
     linkedContactsOf rt links [contactP1(''companyName'' \<mapsto> JStr (ascii ''C1''))] (Rows []) opp"
proof -
  have r: "contactCoreReader (contactsWithLinks links) =
        Some \<lparr> getContactList = Returns (Rows [contactP1]),
               getAllOppContactLinks = Returns (Rows links) \<rparr>"
      "contactRawReader (contactsWithLinks links) = Some (Returns (Rows []))"
    by (simp_all add: contactsWithLinks_def)
  show ?thesis
    by (simp add: getLinkedContacts_def r fetchOfficial_example)
qed

lemma safeGet_examples:
  "safeGet linkNoStatus [''opportunityId'', ''oppId'', ''opportunity_id''] = JStr (ascii ''O1'')"
  "safeGet linkNoStatus [''status'', ''linkStatus'', ''state''] = JUndefined"
  "safeGet linkNoStatus [''contactId'', ''id'', ''contact_id''] = JStr (ascii ''P1'')"
  "safeGet linkActive [''opportunityId'', ''oppId'', ''opportunity_id''] = JStr (ascii ''O1'')"
  "safeGet linkActive [''status'', ''linkStatus'', ''state''] = JStr (ascii ''active'')"
  "safeGet linkActive [''contactId'', ''id'', ''contact_id''] = JStr (ascii ''P1'')"
  by (simp_all add: safeGet_def linkNoStatus_def linkActive_def field_def ascii_def)

lemma normalizeStr_examples:
  "normalizeStr exampleRuntime (JStr (ascii ''O1'')) = ascii ''O1''"
  "normalizeStr exampleRuntime (JStr (ascii ''P1'')) = ascii ''P1''"
  "normalizeStr exampleRuntime (JStr (ascii ''active'')) = ascii ''active''"
  "normalizeStr exampleRuntime JUndefined = []"
  by (simp_all add: normalizeStr_def trim_def isWhiteSpace_def ascii_def)

lemma linkIsActiveFor_examples:
  "linkIsActiveFor exampleRuntime (JStr (ascii ''O1'')) linkNoStatus"
  "linkIsActiveFor exampleRuntime (JStr (ascii ''O1'')) linkActive"
  by (simp_all add: linkIsActiveFor_def safeGet_examples normalizeStr_examples Let_def)
     (simp_all add: exampleRuntime_def lowerAscii_def ascii_def)

lemma linkedContactOf_examples:
  "map_option (\<lambda>c. field c ''contactId'') (linkedContactOf exampleRuntime [contactP1] linkNoStatus) =
     Some (JStr (ascii ''P1''))"
  "map_option (\<lambda>c. field c ''contactId'') (linkedContactOf exampleRuntime [contactP1] linkActive) =
     Some (JStr (ascii ''P1''))"
proof -
  have c: "field contactP1 ''contactId'' = JStr (ascii ''P1'')"
    by (simp add: contactP1_def field_def)
  have n: "ascii ''P1'' \<noteq> []"
    by (simp add: ascii_def)
  show "map_option (\<lambda>c. field c ''contactId'') (linkedContactOf exampleRuntime [contactP1] linkNoStatus) =
     Some (JStr (ascii ''P1''))"
    by (simp add: linkedContactOf_def safeGet_examples normalizeStr_examples c n Let_def)
       (simp add: field_def contactP1_def)
  show "map_option (\<lambda>c. field c ''contactId'') (linkedContactOf exampleRuntime [contactP1] linkActive) =
     Some (JStr (ascii ''P1''))"
    by (simp add: linkedContactOf_def safeGet_examples normalizeStr_examples c n Let_def)
       (simp add: field_def contactP1_def)
qed

text \<open>
  Claim C9 holds for the linked contacts of \<open>getOpportunityDetails\<close> and fails for
  \<open>ContactService.getLinkedContacts\<close>. Opportunity O1 has one link, to contact P1. With
  \<open>status: 'active'\<close> on the link both computations return the contact; with no status
  on the link, \<open>getOpportunityDetails\<close> still returns it and \<open>getLinkedContacts\<close> returns
  nothing.
\<close>

theorem link_without_status:
  "map (\<lambda>c. field c ''contactId'')
     (getLinkedContacts exampleRuntime (contactsWithLinks [linkActive]) (JStr (ascii ''O1''))) =
     [JStr (ascii ''P1'')] \<and>
   getLinkedContacts exampleRuntime (contactsWithLinks [linkNoStatus]) (JStr (ascii ''O1'')) = [] \<and>
   map (\<lambda>c. field c ''contactId'')
     (linkedContactsFromCache exampleRuntime [linkActive] [contactP1] (JStr (ascii ''O1''))) =
     [JStr (ascii ''P1'')] \<and>
   map (\<lambda>c. field c ''contactId'')
     (linkedContactsFromCache exampleRuntime [linkNoStatus] [contactP1] (JStr (ascii ''O1''))) =
     [JStr (ascii ''P1'')]"
proof (intro conjI)
  show "map (\<lambda>c. field c ''contactId'')
     (getLinkedContacts exampleRuntime (contactsWithLinks [linkActive]) (JStr (ascii ''O1''))) =
     [JStr (ascii ''P1'')]"
    by (simp add: getLinkedContacts_unfold linkedContactsOf_def linkedContactIds_example
        linkedContactDTO_def Let_def)
       (simp add: field_def contactP1_def)
  show "getLinkedContacts exampleRuntime (contactsWithLinks [linkNoStatus]) (JStr (ascii ''O1'')) = []"
    by (simp add: getLinkedContacts_unfold linkedContactsOf_def linkedContactIds_example)
  from linkedContactOf_examples(2) obtain y where
    y: "linkedContactOf exampleRuntime [contactP1] linkActive = Some y"
       "field y ''contactId'' = JStr (ascii ''P1'')"
    by auto
  show "map (\<lambda>c. field c ''contactId'')
     (linkedContactsFromCache exampleRuntime [linkActive] [contactP1] (JStr (ascii ''O1''))) =
     [JStr (ascii ''P1'')]"
    by (simp add: linkedContactsFromCache_def linkIsActiveFor_examples List.map_filter_def y)
  from linkedContactOf_examples(1) obtain z where
    z: "linkedContactOf exampleRuntime [contactP1] linkNoStatus = Some z"
       "field z ''contactId'' = JStr (ascii ''P1'')"
    by auto
  show "map (\<lambda>c. field c ''contactId'')
     (linkedContactsFromCache exampleRuntime [linkNoStatus] [contactP1] (JStr (ascii ''O1''))) =
     [JStr (ascii ''P1'')]"
    by (simp add: linkedContactsFromCache_def linkIsActiveFor_examples List.map_filter_def z)
qed

end
